(* ===== verification/Prelude.thy ===== *)
theory Prelude
  imports Complex_Main "HOL-Library.Multiset"
begin

text \<open>
  Shared vocabulary of the development: the types that name the geometric data the
  exercises manipulate (points, cells, polyhedral complexes), the Python exceptions the
  helper functions can raise, the bind of the error-sum type, a list traversal that stops
  at the first error (Python's eager \<open>map\<close> over a list whose element function may
  raise), and the list lemmas the component theories share.
\<close>

named_theorems model_simps "evaluation rules of the model, for concrete inputs"

section \<open>Types\<close>

text \<open>
  A point is a Python list of coordinates (pyplasm accepts any dimension and pads
  missing coordinates with zeros); a cell is the list of its vertices (a convex cell is
  the hull of its vertices); a polyhedral complex (pyplasm's \<open>Hpc\<close>) is flattened to
  the list of its cells.
\<close>

type_synonym point = "real list"
type_synonym cell = "point list"
type_synonym hpc = "cell list"

text \<open>The exceptions the helpers can raise: Python's own and those of the kernel.\<close>

datatype py_error = IndexError | ValueError | PlasmError

type_synonym 'a result = "py_error + 'a"

section \<open>Error propagation\<close>

definition rbind :: "'a result \<Rightarrow> ('a \<Rightarrow> 'b result) \<Rightarrow> 'b result" where
  "rbind r f = (case r of Inl e \<Rightarrow> Inl e | Inr a \<Rightarrow> f a)"

text \<open>
  \<open>traverse f xs\<close> applies \<open>f\<close> to every element in order and stops at the first
  exception, as Python's \<open>map\<close> (eager in Python 2) or a list comprehension does.
\<close>

fun traverse :: "('a \<Rightarrow> 'b result) \<Rightarrow> 'a list \<Rightarrow> 'b list result" where
  "traverse f [] = Inr []"
| "traverse f (x # xs) = rbind (f x) (\<lambda>y. rbind (traverse f xs) (\<lambda>ys. Inr (y # ys)))"

section \<open>Lemmas on errors\<close>

lemma rbind_Inl [simp]: "rbind (Inl e) f = Inl e"
  by (simp add: rbind_def)

lemma rbind_Inr [simp]: "rbind (Inr a) f = f a"
  by (simp add: rbind_def)

lemma rbind_eq_Inr_iff: "rbind r f = Inr b \<longleftrightarrow> (\<exists>a. r = Inr a \<and> f a = Inr b)"
  by (cases r) (auto simp: rbind_def)

lemma rbind_eq_Inl_iff: "rbind r f = Inl e \<longleftrightarrow> r = Inl e \<or> (\<exists>a. r = Inr a \<and> f a = Inl e)"
  by (cases r) (auto simp: rbind_def)

lemma traverse_Inr_iff:
  "traverse f xs = Inr ys \<longleftrightarrow> list_all2 (\<lambda>x y. f x = Inr y) xs ys"
proof (induction xs arbitrary: ys)
  case Nil
  then show ?case by auto
next
  case (Cons x xs)
  then show ?case
    by (cases ys) (auto simp: rbind_eq_Inr_iff)
qed

lemma traverse_length: "traverse f xs = Inr ys \<Longrightarrow> length ys = length xs"
  by (auto simp: traverse_Inr_iff dest: list_all2_lengthD)

lemma traverse_nth:
  "traverse f xs = Inr ys \<Longrightarrow> k < length xs \<Longrightarrow> f (xs ! k) = Inr (ys ! k)"
  by (auto simp: traverse_Inr_iff list_all2_conv_all_nth)

lemma traverse_map_Inr [simp]: "traverse (\<lambda>x. Inr (g x)) xs = Inr (map g xs)"
  by (induction xs) auto

lemma traverse_cong:
  "(\<And>x. x \<in> set xs \<Longrightarrow> f x = g x) \<Longrightarrow> traverse f xs = traverse g xs"
  by (induction xs) auto

lemma traverse_isl_iff:
  "(\<exists>e. traverse f xs = Inl e) \<longleftrightarrow> (\<exists>x\<in>set xs. \<exists>e. f x = Inl e)"
proof (induction xs)
  case Nil
  then show ?case by simp
next
  case (Cons x xs)
  show ?case
  proof (cases "f x")
    case (Inl e)
    then show ?thesis by auto
  next
    case (Inr y)
    with Cons.IH show ?thesis
      by (cases "traverse f xs") auto
  qed
qed

lemma traverse_Inl_error:
  "traverse f xs = Inl e \<Longrightarrow> \<exists>x\<in>set xs. f x = Inl e"
proof (induction xs)
  case Nil
  then show ?case by simp
next
  case (Cons x xs)
  then show ?case
    by (cases "f x"; cases "traverse f xs") auto
qed

lemma traverse_map_sum:
  assumes "\<And>x. x \<in> set xs \<Longrightarrow> f (g x) = map_sum id k (f' x)"
  shows "traverse f (map g xs) = map_sum id (map k) (traverse f' xs)"
  using assms
proof (induction xs)
  case Nil
  then show ?case by simp
next
  case (Cons x xs)
  then show ?case
    by (cases "f' x"; cases "traverse f' xs") auto
qed

section \<open>Lists\<close>

lemma nth_rev_mirror:
  "i < length xs \<Longrightarrow> rev xs ! (length xs - Suc i) = xs ! i"
  by (simp add: rev_nth)

lemma mset_rotate_list [simp]: "mset (rotate n xs) = mset xs"
proof -
  have "mset (rotate n xs) = mset (drop (n mod length xs) xs) + mset (take (n mod length xs) xs)"
    by (simp add: rotate_drop_take)
  also have "\<dots> = mset xs"
    by (metis append_take_drop_id mset_append union_commute)
  finally show ?thesis .
qed

section \<open>Trigonometry\<close>

lemma polar_norm_sq: "(r * sin a)\<^sup>2 + (r * cos a)\<^sup>2 = (r :: real)\<^sup>2"
proof -
  have "(r * sin a)\<^sup>2 + (r * cos a)\<^sup>2 = r\<^sup>2 * ((sin a)\<^sup>2 + (cos a)\<^sup>2)"
    by (simp only: power_mult_distrib distrib_left)
  also have "\<dots> = r\<^sup>2" by simp
  finally show ?thesis .
qed

lemma len2_cases: "length p = 2 \<Longrightarrow> \<exists>x y. p = [x, y]"
  by (auto simp: length_Suc_conv numeral_2_eq_2)

lemma len3_cases: "length p = 3 \<Longrightarrow> \<exists>x y z. p = [x, y, z]"
  by (auto simp: length_Suc_conv numeral_3_eq_3)

end
