(* ===== verification/Kernel.thy ===== *)
theory Kernel
  imports Prelude
begin

text \<open>
  The part of the pyplasm geometry kernel that the helper functions of the repository
  call. pyplasm is an external library, not code of this repository: these definitions
  give its operators the meaning the spec and pyplasm's documentation describe, so that
  the helpers built on them can be stated and proved about. Points of different
  dimensions mix freely in pyplasm (a 2D shape rotated in the plane of axes 2 and 3
  becomes 3D): a missing coordinate reads as 0 and writing one pads the point.
\<close>

section \<open>Coordinates\<close>

definition coord :: "point \<Rightarrow> nat \<Rightarrow> real" where
  "coord p k = (if k < length p then p ! k else 0)"

definition pad :: "nat \<Rightarrow> point \<Rightarrow> point" where
  "pad n p = p @ replicate (n - length p) 0"

definition set_coord :: "point \<Rightarrow> nat \<Rightarrow> real \<Rightarrow> point" where
  "set_coord p k v = (pad (Suc k) p)[k := v]"

section \<open>Affine maps: T, S, R\<close>

text \<open>
  \<open>T(axes)(values)\<close> translates coordinate \<open>axes[k]\<close> (1-based) by \<open>values[k]\<close>;
  \<open>S(axes)(factors)\<close> scales them; \<open>R([i,j])(angle)\<close> rotates in the plane of axes
  \<open>i\<close> and \<open>j\<close>, from axis \<open>i\<close> towards axis \<open>j\<close>.
\<close>

definition T :: "nat list \<Rightarrow> real list \<Rightarrow> point \<Rightarrow> point" where
  "T axes vals p =
     fold (\<lambda>(a, v) q. set_coord q (a - 1) (coord q (a - 1) + v)) (zip axes vals) p"

definition S :: "nat list \<Rightarrow> real list \<Rightarrow> point \<Rightarrow> point" where
  "S axes factors p =
     fold (\<lambda>(a, f) q. set_coord q (a - 1) (coord q (a - 1) * f)) (zip axes factors) p"

definition R :: "nat \<times> nat \<Rightarrow> real \<Rightarrow> point \<Rightarrow> point" where
  "R axis angle p =
     (let i = fst axis - 1; j = snd axis - 1; x = coord p i; y = coord p j
      in set_coord (set_coord p i (cos angle * x - sin angle * y)) j
           (sin angle * x + cos angle * y))"

section \<open>Numbers: PROD and SUM on a list of numbers\<close>

text \<open>
  On a list of numbers pyplasm's \<open>PROD\<close> is the product and \<open>SUM\<close> the sum of its
  elements (the same names on complexes are the Cartesian product and the union).
\<close>

definition PROD_num :: "real list \<Rightarrow> real" where
  "PROD_num xs = prod_list xs"

definition SUM_num :: "real list \<Rightarrow> real" where
  "SUM_num xs = sum_list xs"

section \<open>Complexes\<close>

text \<open>\<open>MAP(f)(h)\<close> and every affine map act on a complex vertex by vertex.\<close>

definition hpc_map :: "(point \<Rightarrow> point) \<Rightarrow> hpc \<Rightarrow> hpc" where
  "hpc_map f h = map (map f) h"

definition MAP :: "(point \<Rightarrow> point) \<Rightarrow> hpc \<Rightarrow> hpc" where
  "MAP f h = hpc_map f h"

text \<open>
  \<open>QUOTE(values)\<close>: a 1D complex; each value advances the position by its absolute
  value, and a positive value emits the segment it spans (a negative one is a gap).
\<close>

fun quote_from :: "real \<Rightarrow> real list \<Rightarrow> hpc" where
  "quote_from pos [] = []"
| "quote_from pos (v # vs) =
     (if 0 < v then [[[pos], [pos + v]]] else []) @ quote_from (pos + \<bar>v\<bar>) vs"

definition QUOTE :: "real list \<Rightarrow> hpc" where
  "QUOTE vs = quote_from 0 vs"

text \<open>\<open>PROD([a, b])\<close> on complexes: the Cartesian product, cell by cell.\<close>

definition PROD2 :: "hpc \<Rightarrow> hpc \<Rightarrow> hpc" where
  "PROD2 a b = [[x @ y. x \<leftarrow> ca, y \<leftarrow> cb]. ca \<leftarrow> a, cb \<leftarrow> b]"

text \<open>
  \<open>INSR(f)(seq)\<close> folds from the right: it starts from \<open>seq[-1]\<close> (IndexError on an
  empty list) and combines \<open>seq[i]\<close> with the accumulator for \<open>i\<close> from
  \<open>len(seq) - 2\<close> down to 0.
\<close>

definition INSR :: "('a \<Rightarrow> 'a \<Rightarrow> 'a) \<Rightarrow> 'a list \<Rightarrow> 'a result" where
  "INSR f seq = (if seq = [] then Inl IndexError else Inr (foldr f (butlast seq) (last seq)))"

text \<open>
  \<open>MKPOL([points, cells, None])\<close>: cells are lists of 1-based indices into
  \<open>points\<close>; an index out of range is an error of the kernel.
\<close>

definition MKPOL :: "point list \<Rightarrow> nat list list \<Rightarrow> hpc result" where
  "MKPOL pts cells =
     (if list_all (list_all (\<lambda>k. 1 \<le> k \<and> k \<le> length pts)) cells
      then Inr (map (map (\<lambda>k. pts ! (k - 1))) cells)
      else Inl PlasmError)"

text \<open>
  \<open>STRUCT(items)\<close>: items are complexes and affine maps; a map applies to every item
  after it. pyplasm refuses an empty list.
\<close>

datatype item = Obj hpc | Tr "point \<Rightarrow> point"

fun struct_items :: "item list \<Rightarrow> hpc" where
  "struct_items [] = []"
| "struct_items (Obj h # xs) = h @ struct_items xs"
| "struct_items (Tr f # xs) = hpc_map f (struct_items xs)"

definition STRUCT :: "item list \<Rightarrow> hpc result" where
  "STRUCT xs = (if xs = [] then Inl PlasmError else Inr (struct_items xs))"

text \<open>
  \<open>INTERVALS(a)(n)\<close>: the 1D complex of \<open>n\<close> equal segments from 0 to \<open>a\<close>, that is
  \<open>QUOTE([a/n] * n)\<close>.
\<close>

definition INTERVALS :: "real \<Rightarrow> int \<Rightarrow> hpc" where
  "INTERVALS a n = QUOTE (replicate (nat n) (a / real_of_int n))"

text \<open>
  \<open>UKPOL(hpc)\<close>: the complex as \<open>[points, cells, ...]\<close>, the distinct vertices in
  order of first occurrence and each cell as the 1-based indices of its vertices, in the
  cell's own vertex order. The spec does not fix this order; the model keeps the order
  the product produced.
\<close>

fun pos_of :: "point \<Rightarrow> point list \<Rightarrow> nat" where
  "pos_of v [] = 0"
| "pos_of v (w # ws) = (if v = w then 0 else Suc (pos_of v ws))"

definition UKPOL :: "hpc \<Rightarrow> point list \<times> nat list list" where
  "UKPOL h = (let pts = remdups (concat h) in (pts, map (map (\<lambda>v. Suc (pos_of v pts))) h))"

section \<open>Boxes: the abstract view of grid cells\<close>

text \<open>
  A product of segments is an axis-aligned box, given by one interval per axis. Its
  vertex list, in the order \<open>PROD\<close> produces it, is \<open>box_cell\<close>: the first axis
  varies slowest. \<open>quote_ivs\<close> is the list of intervals \<open>QUOTE\<close> emits and
  \<open>grid_boxes\<close> the boxes of a product of such lists.
\<close>

type_synonym box = "(real \<times> real) list"

fun box_cell :: "box \<Rightarrow> cell" where
  "box_cell [] = [[]]"
| "box_cell ((l, h) # bs) = [x # y. x \<leftarrow> [l, h], y \<leftarrow> box_cell bs]"

fun quote_ivs :: "real \<Rightarrow> real list \<Rightarrow> (real \<times> real) list" where
  "quote_ivs pos [] = []"
| "quote_ivs pos (v # vs) =
     (if 0 < v then [(pos, pos + v)] else []) @ quote_ivs (pos + \<bar>v\<bar>) vs"

fun grid_boxes :: "(real \<times> real) list list \<Rightarrow> box list" where
  "grid_boxes [] = [[]]"
| "grid_boxes (ivs # rest) = [iv # b. iv \<leftarrow> ivs, b \<leftarrow> grid_boxes rest]"

text \<open>\<open>CUBOID(sizes)\<close>: the box from the origin to \<open>sizes\<close>.\<close>

definition CUBOID :: "real list \<Rightarrow> hpc" where
  "CUBOID sizes = [box_cell (map (\<lambda>x. (0, x)) sizes)]"

text \<open>
  \<open>CYLINDER([r, h])(n)\<close>: the prism of height \<open>h\<close> over the regular \<open>n\<close>-gon
  inscribed in the circle of radius \<open>r\<close> about the origin, as one convex cell.
\<close>

definition CYLINDER :: "real list \<Rightarrow> nat \<Rightarrow> hpc" where
  "CYLINDER rh n =
     (let r = rh ! 0; h = rh ! 1;
          ring = map (\<lambda>k. [r * cos (2 * pi * real k / real n), r * sin (2 * pi * real k / real n)])
                   [0..<n]
      in [[p @ [z]. z \<leftarrow> [0, h], p \<leftarrow> ring]])"

text \<open>
  \<open>EXTRUDE([n, pol, h])\<close>: the product of \<open>pol\<close> with the segment from 0 to
  \<open>h\<close>, one dimension up (the dimension \<open>n\<close> is not used by the product).
\<close>

definition EXTRUDE :: "nat \<Rightarrow> hpc \<Rightarrow> real \<Rightarrow> hpc" where
  "EXTRUDE n pol h = PROD2 pol (QUOTE [h])"

text \<open>
  \<open>POLYLINE(points)\<close>: the segments between consecutive points.
  \<open>BEZIER(sel)(controlpoints)\<close>: the map sending a domain point \<open>p\<close> to the point of
  the Bezier curve of the control points at the parameter \<open>sel(p)\<close> (Bernstein form);
  \<open>S1\<close> selects the first coordinate.
\<close>

definition POLYLINE :: "point list \<Rightarrow> hpc" where
  "POLYLINE pts = map (\<lambda>(a, b). [a, b]) (zip pts (tl pts))"

definition bernstein :: "nat \<Rightarrow> nat \<Rightarrow> real \<Rightarrow> real" where
  "bernstein n i u = real (n choose i) * u ^ i * (1 - u) ^ (n - i)"

definition S1 :: "point \<Rightarrow> real" where
  "S1 p = coord p 0"

definition BEZIER :: "(point \<Rightarrow> real) \<Rightarrow> point list \<Rightarrow> point \<Rightarrow> point" where
  "BEZIER sel cps p =
     (let u = sel p; n = length cps - 1
      in map (\<lambda>j. sum_list (map (\<lambda>i. bernstein n i u * coord (cps ! i) j) [0..<length cps]))
           [0..<length (hd cps)])"

text \<open>
  \<open>CUBICUBSPLINE(domain)(P)\<close>: the uniform cubic B-spline segment of the four control
  points \<open>P\<close>, its basis evaluated at the first coordinate of each domain point.
  \<open>SPLINE(curve)(points)\<close>: the \<open>STRUCT\<close> of \<open>curve(points[i:i+4])\<close> for \<open>i\<close> in
  \<open>range(len(points) - 4 + 1)\<close>, which refuses fewer than four points (an empty
  \<open>STRUCT\<close>).
\<close>

definition ubs_basis :: "real \<Rightarrow> real list" where
  "ubs_basis t = [(- (t ^ 3) + 3 * t ^ 2 - 3 * t + 1) / 6, (3 * t ^ 3 - 6 * t ^ 2 + 4) / 6,
     (- 3 * t ^ 3 + 3 * t ^ 2 + 3 * t + 1) / 6, t ^ 3 / 6]"

definition ubs_point :: "point list \<Rightarrow> real \<Rightarrow> point" where
  "ubs_point P t = map (\<lambda>i. sum_list (map2 (\<lambda>w p. w * coord p i) (ubs_basis t) P)) [0..<length (hd P)]"

definition CUBICUBSPLINE :: "hpc \<Rightarrow> point list \<Rightarrow> hpc" where
  "CUBICUBSPLINE domain P = MAP (\<lambda>u. ubs_point P (coord u 0)) domain"

definition SPLINE :: "(point list \<Rightarrow> hpc) \<Rightarrow> point list \<Rightarrow> hpc result" where
  "SPLINE curve points =
     STRUCT (map (\<lambda>i. Obj (curve (take 4 (drop i points)))) [0..<nat (int (length points) - 3)])"

text \<open>
  \<open>ROTATIONALSURFACE(profile)\<close>: the surface swept by turning a profile curve about the
  z axis. Its map unpacks the domain point, \<open>u, v = point\<close>, and the profile point,
  \<open>f, h, g = profile(point)\<close>, and returns \<open>[f cos v, f sin v, g]\<close>: the profile's
  first coordinate is the radius and its third the height. Either unpacking raises
  ValueError when the point has another length. \<open>revolve\<close> is the map once both
  unpackings succeed.
\<close>

definition revolve :: "(point \<Rightarrow> point) \<Rightarrow> point \<Rightarrow> point" where
  "revolve profile p = (let q = profile p in [q ! 0 * cos (p ! 1), q ! 0 * sin (p ! 1), q ! 2])"

definition ROTATIONALSURFACE :: "(point \<Rightarrow> point) \<Rightarrow> point \<Rightarrow> point result" where
  "ROTATIONALSURFACE profile p =
     (if length p \<noteq> 2 \<or> length (profile p) \<noteq> 3 then Inl ValueError else Inr (revolve profile p))"

text \<open>
  \<open>MAP(f)(obj)\<close> with a map that can raise: \<open>f\<close> is applied to every vertex of every
  cell in order, and the first exception propagates.
\<close>

definition MAP_result :: "(point \<Rightarrow> point result) \<Rightarrow> hpc \<Rightarrow> hpc result" where
  "MAP_result f h = traverse (traverse f) h"

text \<open>
  \<open>COLOR(rgb)(obj)\<close> attaches a colour to a shape for display. The model keeps the
  geometry, which is all the scripts' shapes are compared by: the coloured shape has the
  same cells and vertices.
\<close>

definition COLOR :: "real list \<Rightarrow> hpc \<Rightarrow> hpc" where
  "COLOR rgb obj = obj"

text \<open>\<open>NN(n)(seq)\<close>: the sequence repeated \<open>n\<close> times.\<close>

definition NN :: "nat \<Rightarrow> 'a list \<Rightarrow> 'a list" where
  "NN n xs = concat (replicate n xs)"

section \<open>Lemmas on coordinates\<close>

lemma length_pad [simp]: "length (pad n p) = max n (length p)"
  by (simp add: pad_def)

lemma coord_pad [simp]: "coord (pad n p) k = coord p k"
  by (auto simp: coord_def pad_def nth_append)

lemma length_set_coord [simp]: "length (set_coord p k v) = max (Suc k) (length p)"
  by (simp add: set_coord_def)

lemma coord_set_coord [simp]:
  "coord (set_coord p k v) k' = (if k' = k then v else coord p k')"
proof -
  have "coord ((pad (Suc k) p)[k := v]) k' = (if k' = k then v else coord (pad (Suc k) p) k')"
    by (auto simp: coord_def)
  then show ?thesis by (simp add: set_coord_def)
qed

lemma point_eqI:
  assumes "length p = length q" and "\<And>k. coord p k = coord q k"
  shows "p = q"
proof (rule nth_equalityI)
  show "length p = length q" by (fact assms(1))
next
  fix k assume "k < length p"
  with assms show "p ! k = q ! k"
    by (metis coord_def)
qed

lemma coord_beyond: "length p \<le> k \<Longrightarrow> coord p k = 0"
  by (simp add: coord_def)

section \<open>Lemmas on rotations\<close>

lemma length_R:
  "length (R axis a p) = max (snd axis) (max (fst axis) (length p))"
  if "1 \<le> fst axis" "1 \<le> snd axis"
  using that by (simp add: R_def Let_def)

lemma coord_R:
  assumes "fst axis \<noteq> snd axis" "1 \<le> fst axis" "1 \<le> snd axis"
  shows "coord (R axis a p) k =
    (if k = snd axis - 1 then sin a * coord p (fst axis - 1) + cos a * coord p (snd axis - 1)
     else if k = fst axis - 1 then cos a * coord p (fst axis - 1) - sin a * coord p (snd axis - 1)
     else coord p k)"
  using assms by (simp add: R_def Let_def)

lemma R_add:
  assumes "fst axis \<noteq> snd axis" "1 \<le> fst axis" "1 \<le> snd axis"
  shows "R axis a (R axis b p) = R axis (a + b) p"
proof (rule point_eqI)
  show "length (R axis a (R axis b p)) = length (R axis (a + b) p)"
    using assms by (simp add: length_R)
next
  fix k
  have "fst axis - 1 \<noteq> snd axis - 1" using assms by arith
  then show "coord (R axis a (R axis b p)) k = coord (R axis (a + b) p) k"
    using assms by (simp add: coord_R cos_add sin_add algebra_simps)
qed

lemma R_zero:
  assumes "1 \<le> fst axis" "1 \<le> snd axis" "fst axis \<le> length p" "snd axis \<le> length p"
  shows "R axis 0 p = p"
proof -
  have "fst axis - 1 < length p" "snd axis - 1 < length p" using assms by arith+
  then show ?thesis
    by (simp add: R_def Let_def set_coord_def pad_def coord_def)
qed

lemma R_periodic: "R axis (a + 2 * pi) p = R axis a p"
  by (simp add: R_def)

section \<open>Lemmas on complexes\<close>

lemma hpc_map_comp [simp]: "hpc_map f (hpc_map g h) = hpc_map (f \<circ> g) h"
  by (simp add: hpc_map_def)

lemma hpc_map_append [simp]: "hpc_map f (h @ h') = hpc_map f h @ hpc_map f h'"
  by (simp add: hpc_map_def)

lemma MAP_result_Inr:
  assumes "list_all (list_all (\<lambda>p. f p = Inr (g p))) h"
  shows "MAP_result f h = Inr (hpc_map g h)"
proof -
  have "traverse (traverse f) h = traverse (\<lambda>c. Inr (map g c)) h"
  proof (rule traverse_cong)
    fix c assume "c \<in> set h"
    with assms have "traverse f c = traverse (\<lambda>p. Inr (g p)) c"
      by (intro traverse_cong) (auto simp: list_all_iff)
    then show "traverse f c = Inr (map g c)" by simp
  qed
  then show ?thesis by (simp add: MAP_result_def hpc_map_def)
qed

lemma MAP_ROTATIONALSURFACE:
  assumes "list_all (list_all (\<lambda>p. length p = 2)) d"
    and "\<And>p. length p = 2 \<Longrightarrow> length (profile p) = 3"
  shows "MAP_result (ROTATIONALSURFACE profile) d = Inr (hpc_map (revolve profile) d)"
  using assms by (intro MAP_result_Inr) (auto simp: ROTATIONALSURFACE_def list_all_iff)

lemma MAP_ROTATIONALSURFACE_error:
  assumes "c \<in> set d" and "p \<in> set c" and "length p \<noteq> 2"
  shows "\<exists>e. MAP_result (ROTATIONALSURFACE profile) d = Inl e"
proof -
  have "\<exists>e. traverse (ROTATIONALSURFACE profile) c = Inl e"
    using assms(2,3) by (auto simp: traverse_isl_iff ROTATIONALSURFACE_def)
  with assms(1) show ?thesis
    by (auto simp: MAP_result_def traverse_isl_iff)
qed

lemma hpc_map_Nil [simp]: "hpc_map f [] = []"
  by (simp add: hpc_map_def)

lemma length_hpc_map [simp]: "length (hpc_map f h) = length h"
  by (simp add: hpc_map_def)

lemma hpc_map_cong:
  "(\<And>c p. c \<in> set h \<Longrightarrow> p \<in> set c \<Longrightarrow> f p = g p) \<Longrightarrow> hpc_map f h = hpc_map g h"
  by (simp add: hpc_map_def)

lemma hpc_map_id: "(\<And>c p. c \<in> set h \<Longrightarrow> p \<in> set c \<Longrightarrow> f p = p) \<Longrightarrow> hpc_map f h = h"
  by (simp add: hpc_map_def map_idI)

section \<open>Lemmas on boxes\<close>

lemma quote_from_boxes: "quote_from pos vs = map (\<lambda>iv. box_cell [iv]) (quote_ivs pos vs)"
  by (induction vs arbitrary: pos) auto

lemma box_cell_append: "box_cell (b1 @ b2) = [x @ y. x \<leftarrow> box_cell b1, y \<leftarrow> box_cell b2]"
proof (induction b1)
  case Nil
  then show ?case by (simp add: map_idI)
next
  case (Cons iv b1)
  have app: "(@) (a # x) = (\<lambda>y. a # x @ y)" for a :: real and x
    by auto
  from Cons show ?case
    by (cases iv) (simp add: map_concat comp_def app)
qed

lemma PROD2_box_cells:
  "PROD2 (map box_cell B1) (map box_cell B2) = map box_cell [b1 @ b2. b1 \<leftarrow> B1, b2 \<leftarrow> B2]"
  by (simp add: PROD2_def box_cell_append map_concat comp_def)

lemma length_box_cell: "length (box_cell b) = 2 ^ length b"
proof (induction b)
  case Nil
  then show ?case by simp
next
  case (Cons iv b)
  then show ?case
    by (cases iv) (simp add: length_concat comp_def sum_list_triv)
qed

section \<open>Lemmas on translations\<close>

lemma fold_translate:
  assumes "length as = length vs" and "\<forall>k < length vs. as ! k = Suc (m + k)"
    and "m + length vs \<le> length q"
  shows "length (fold (\<lambda>(a, v) q. set_coord q (a - 1) (coord q (a - 1) + v)) (zip as vs) q)
           = length q
    \<and> (\<forall>i < length q. fold (\<lambda>(a, v) q. set_coord q (a - 1) (coord q (a - 1) + v)) (zip as vs) q ! i
           = q ! i + (if m \<le> i \<and> i < m + length vs then vs ! (i - m) else 0))"
  using assms
proof (induction vs arbitrary: as m q)
  case Nil
  then show ?case by simp
next
  case (Cons v vs)
  let ?F = "\<lambda>(a, v) q. set_coord q (a - 1) (coord q (a - 1) + v)"
  let ?q' = "set_coord q m (coord q m + v)"
  from Cons.prems(1) obtain a as' where as: "as = a # as'" and len_as': "length as' = length vs"
    by (cases as) auto
  from Cons.prems(2) as have a: "a = Suc m" by force
  from Cons.prems(2) as have as': "\<forall>k < length vs. as' ! k = Suc (Suc m + k)" by force
  from Cons.prems(3) have m: "m < length q" by simp
  then have len': "length ?q' = length q" by simp
  have nth': "?q' ! i = (if i = m then q ! m + v else q ! i)" if "i < length q" for i
    using that m coord_set_coord [of q m "coord q m + v" i] len'
    by (simp add: coord_def split: if_splits)
  from Cons.prems(3) len' have "Suc m + length vs \<le> length ?q'" by simp
  note IH = Cons.IH [OF len_as' as' this]
  have step: "fold ?F (zip as (v # vs)) q = fold ?F (zip as' vs) ?q'"
    by (simp add: as a)
  show ?case
  proof (intro conjI allI impI)
    show "length (fold ?F (zip as (v # vs)) q) = length q"
      unfolding step using IH len' by simp
  next
    fix i assume i: "i < length q"
    have "fold ?F (zip as (v # vs)) q ! i
        = ?q' ! i + (if Suc m \<le> i \<and> i < Suc m + length vs then vs ! (i - Suc m) else 0)"
      unfolding step using IH i len' by simp
    also have "\<dots> = q ! i + (if m \<le> i \<and> i < m + length (v # vs) then (v # vs) ! (i - m) else 0)"
    proof (cases "i = m")
      case True
      with i show ?thesis by (simp add: nth')
    next
      case False
      have shift: "(v # vs) ! (i - m) = vs ! (i - Suc m)" if "m < i"
      proof -
        from that obtain j where "i - m = Suc j" by (cases "i - m") auto
        moreover from this have "i - Suc m = j" by arith
        ultimately show ?thesis by simp
      qed
      from False i show ?thesis
        by (auto simp: nth' shift)
    qed
    finally show "fold ?F (zip as (v # vs)) q ! i
        = q ! i + (if m \<le> i \<and> i < m + length (v # vs) then (v # vs) ! (i - m) else 0)" .
  qed
qed

lemma T_full_translate:
  assumes "length p = length st"
  shows "T [1..<length st + 1] st p = map2 (+) p st"
proof -
  have F: "length (T [1..<length st + 1] st p) = length p \<and>
      (\<forall>i < length p. T [1..<length st + 1] st p ! i = p ! i + (if i < length st then st ! i else 0))"
  proof -
    have h1: "length [1..<length st + 1] = length st" by (simp del: upt_Suc)
    have h2: "\<forall>k < length st. [1..<length st + 1] ! k = Suc (0 + k)" by (simp del: upt_Suc)
    have h3: "0 + length st \<le> length p" using assms by simp
    from fold_translate [OF h1 h2 h3] assms show ?thesis
      unfolding T_def by simp
  qed
  show ?thesis
  proof (rule nth_equalityI)
    show "length (T [1..<length st + 1] st p) = length (map2 (+) p st)"
      using F assms by simp
  next
    fix i assume "i < length (T [1..<length st + 1] st p)"
    with F assms show "T [1..<length st + 1] st p ! i = map2 (+) p st ! i"
      by simp
  qed
qed

lemma length_box_cell_point: "p \<in> set (box_cell b) \<Longrightarrow> length p = length b"
proof (induction b arbitrary: p)
  case Nil
  then show ?case by simp
next
  case (Cons iv b)
  then show ?case by (cases iv) auto
qed

lemma length_grid_box: "b \<in> set (grid_boxes Bs) \<Longrightarrow> length b = length Bs"
  by (induction Bs arbitrary: b) auto

lemma grid_boxes_Nil_iff: "grid_boxes Bs = [] \<longleftrightarrow> [] \<in> set Bs"
proof (induction Bs)
  case Nil
  then show ?case by simp
next
  case (Cons B Bs)
  then show ?case by (cases B) auto
qed

lemma box_cell_translate:
  "length b = length st \<Longrightarrow>
     map (\<lambda>p. map2 (+) p st) (box_cell b) = box_cell (map2 (\<lambda>(l, h) s. (l + s, h + s)) b st)"
proof (induction b arbitrary: st)
  case Nil
  then show ?case by simp
next
  case (Cons iv b)
  then obtain s st' where st: "st = s # st'" and len: "length b = length st'"
    by (cases st) auto
  obtain l h where iv: "iv = (l, h)" by (cases iv)
  have "map (\<lambda>p. map2 (+) p st) (box_cell (iv # b))
      = [x # y. x \<leftarrow> [l + s, h + s], y \<leftarrow> map (\<lambda>p. map2 (+) p st') (box_cell b)]"
    by (simp add: st iv map_concat comp_def)
  also have "\<dots> = box_cell (map2 (\<lambda>(l, h) s. (l + s, h + s)) (iv # b) st)"
    by (simp add: Cons.IH [OF len] st iv)
  finally show ?case .
qed

lemma grid_boxes_translate:
  "length Bs = length st \<Longrightarrow>
     grid_boxes (map2 (\<lambda>B s. map (\<lambda>(l, h). (l + s, h + s)) B) Bs st)
       = map (\<lambda>b. map2 (\<lambda>(l, h) s. (l + s, h + s)) b st) (grid_boxes Bs)"
proof (induction Bs arbitrary: st)
  case Nil
  then show ?case by simp
next
  case (Cons B Bs)
  then obtain s st' where st: "st = s # st'" and len: "length Bs = length st'"
    by (cases st) auto
  show ?case
    using Cons.IH [OF len] by (simp add: st map_concat comp_def split_def)
qed

lemma quote_ivs_replicate_pos:
  "0 < h \<Longrightarrow>
     quote_ivs pos (replicate m h) = map (\<lambda>k. (pos + real k * h, pos + real (Suc k) * h)) [0..<m]"
proof (induction m arbitrary: pos)
  case 0
  then show ?case by simp
next
  case (Suc m)
  then show ?case
    by (simp add: map_upt_Suc algebra_simps del: upt_Suc)
qed

lemma quote_ivs_replicate_nonpos: "h \<le> 0 \<Longrightarrow> quote_ivs pos (replicate m h) = []"
  by (induction m arbitrary: pos) auto

lemma upt_0_Suc_conv: "[0..<Suc n] = 0 # map Suc [0..<n]"
  by (simp add: map_Suc_upt upt_conv_Cons del: upt_Suc)

lemma quote_ivs_cumulative:
  "quote_ivs pos vs =
     map (\<lambda>k. (pos + sum_list (map abs (take k vs)), pos + sum_list (map abs (take (Suc k) vs))))
       (filter (\<lambda>k. 0 < vs ! k) [0..<length vs])"
proof (induction vs arbitrary: pos)
  case Nil
  then show ?case by simp
next
  case (Cons v vs)
  show ?case
    by (simp add: Cons.IH upt_0_Suc_conv filter_map comp_def algebra_simps del: upt_Suc)
qed

lemma box_cell_coord:
  "p \<in> set (box_cell b) \<Longrightarrow> i < length b \<Longrightarrow> p ! i = fst (b ! i) \<or> p ! i = snd (b ! i)"
proof (induction b arbitrary: p i)
  case Nil
  then show ?case by simp
next
  case (Cons iv b)
  obtain l h where iv: "iv = (l, h)" by (cases iv)
  from Cons.prems(1) iv obtain x y where p: "p = x # y" and x: "x = l \<or> x = h"
    and y: "y \<in> set (box_cell b)"
    by auto
  show ?case
  proof (cases i)
    case 0
    with p x iv show ?thesis by auto
  next
    case (Suc j)
    with Cons.prems(2) have "j < length b" by simp
    from Cons.IH [OF y this] Suc p show ?thesis by simp
  qed
qed

lemma struct_items_Objs [simp]: "struct_items (map Obj hs @ rest) = concat hs @ struct_items rest"
  by (induction hs) auto

lemma struct_items_map_Obj [simp]: "struct_items (map (\<lambda>x. Obj (f x)) xs) = concat (map f xs)"
  by (induction xs) auto

lemma traverse_id_Inr [simp]: "traverse id (map Inr xs) = Inr xs"
  by (induction xs) auto

lemma R_12_plane: "R (1, 2) a [x, y] = [cos a * x - sin a * y, sin a * x + cos a * y]"
  by (simp add: R_def coord_def set_coord_def pad_def)

lemma T_12_plane: "T [1, 2] [a, b] [x, y] = [x + a, y + b]"
  by (simp add: T_def coord_def set_coord_def pad_def)

section \<open>Lemmas on UKPOL\<close>

lemma pos_of_nth: "v \<in> set ws \<Longrightarrow> ws ! pos_of v ws = v"
  by (induction ws) auto

lemma pos_of_less: "v \<in> set ws \<Longrightarrow> pos_of v ws < length ws"
  by (induction ws) auto

text \<open>
  Rebuilding with \<open>MKPOL\<close> cells written as \<open>UKPOL\<close>'s indices of vertices of the
  complex gives back those cells.
\<close>

lemma MKPOL_UKPOL:
  assumes "\<forall>t \<in> set cs. set t \<subseteq> set (concat h)"
  shows "MKPOL (fst (UKPOL h)) (map (map (\<lambda>v. Suc (pos_of v (fst (UKPOL h))))) cs) = Inr cs"
proof -
  let ?pts = "remdups (concat h)"
  have v: "v \<in> set ?pts" if "t \<in> set cs" "v \<in> set t" for t v
    using assms that by auto
  have ok: "list_all (list_all (\<lambda>k. 1 \<le> k \<and> k \<le> length ?pts))
              (map (map (\<lambda>v. Suc (pos_of v ?pts))) cs)"
    by (auto simp: list_all_iff Suc_le_eq intro!: pos_of_less v)
  have undo: "map (map (\<lambda>k. ?pts ! (k - 1))) (map (map (\<lambda>v. Suc (pos_of v ?pts))) cs) = cs"
    by (auto intro!: map_idI pos_of_nth v)
  have "fst (UKPOL h) = ?pts" by (simp add: UKPOL_def Let_def)
  then show ?thesis
    using ok undo by (simp add: MKPOL_def)
qed

end
