(* ===== verification/PointOps.thy ===== *)
theory PointOps
  imports Kernel
begin

text \<open>
  The point helpers of \<open>src/2013-05-10/python/exercise3.py\<close>: \<open>AAPOINTS\<close>
  (lines 31--38) applies a binary numeric function, given as a function of a two-element
  list, coordinate-wise between an operand vector and every point of a list;
  \<open>MIRROR\<close> (lines 40--48) appends to a point list its reflection across one
  coordinate, in reverse order. The abstract specification of a reflection is
  \<open>reflect_point\<close>; the lemmas show that \<open>MIRROR\<close> implements it and what the
  result looks like: its length, its symmetry, the round trip back to the input, and
  every way it raises.
\<close>

section \<open>Definitions\<close>

text \<open>
  \<^verbatim>\<open>lambda list : [func([operands[i],list[i]]) for i in range(len(list))]\<close>:
  the comprehension runs over the point's coordinates, so a point longer than the operand
  vector raises IndexError at \<open>operands[len(operands)]\<close>, and extra operands are
  ignored.
\<close>

definition aapoint :: "(real list \<Rightarrow> real) \<Rightarrow> real list \<Rightarrow> point \<Rightarrow> point result" where
  "aapoint func operands p =
     (if length p \<le> length operands
      then Inr (map (\<lambda>i. func [operands ! i, p ! i]) [0..<length p])
      else Inl IndexError)"

definition AAPOINTS :: "(real list \<Rightarrow> real) \<Rightarrow> real list \<Rightarrow> point list \<Rightarrow> point list result" where
  "AAPOINTS func operands args = traverse (aapoint func operands) args"

text \<open>
  \<^verbatim>\<open>[-1 if n == axis else 1 for n in range(len(points[0]))]\<close>: the sign vector has the
  dimension of the first point; \<open>axis\<close> is a 0-based Python int.
\<close>

definition mirror_signs :: "int \<Rightarrow> nat \<Rightarrow> real list" where
  "mirror_signs axis d = map (\<lambda>n. if int n = axis then -1 else 1) [0..<d]"

text \<open>
  \<open>MIRROR(axis)(points)\<close>: \<open>points[0]\<close> raises IndexError on an empty list; the
  reflected copy is reversed in place and appended.
\<close>

definition MIRROR :: "int \<Rightarrow> point list \<Rightarrow> point list result" where
  "MIRROR axis points =
     (case points of
        [] \<Rightarrow> Inl IndexError
      | p0 # _ \<Rightarrow>
          rbind (AAPOINTS PROD_num (mirror_signs axis (length p0)) points)
            (\<lambda>mirrored. Inr (points @ rev mirrored)))"

text \<open>The specification of a reflection: negate coordinate \<open>axis\<close>, keep the rest.\<close>

definition reflect_point :: "int \<Rightarrow> point \<Rightarrow> point" where
  "reflect_point axis p = map (\<lambda>i. if int i = axis then - (p ! i) else p ! i) [0..<length p]"

lemmas pointops_defs [model_simps] = aapoint_def AAPOINTS_def mirror_signs_def MIRROR_def
  reflect_point_def PROD_num_def SUM_num_def

section \<open>AAPOINTS\<close>

lemma aapoint_Inr_iff:
  "aapoint f ops p = Inr q \<longleftrightarrow>
     length p \<le> length ops \<and> q = map (\<lambda>i. f [ops ! i, p ! i]) [0..<length p]"
  by (auto simp: aapoint_def)

lemma aapoint_Inl_iff: "aapoint f ops p = Inl e \<longleftrightarrow> length ops < length p \<and> e = IndexError"
  by (auto simp: aapoint_def)

lemma AAPOINTS_eq:
  "AAPOINTS f ops P =
     (if list_all (\<lambda>p. length p \<le> length ops) P
      then Inr (map (\<lambda>p. map (\<lambda>i. f [ops ! i, p ! i]) [0..<length p]) P)
      else Inl IndexError)"
  by (induction P) (auto simp: AAPOINTS_def aapoint_def)

text \<open>
  C5: on success, AAPOINTS keeps the number of points and the length of each, and
  coordinate \<open>i\<close> of point \<open>k\<close> is \<open>func([operands[i], points[k][i]])\<close>.
\<close>

theorem AAPOINTS_coordinates:
  assumes "AAPOINTS f ops P = Inr Q" and "k < length P" and "i < length (P ! k)"
  shows "length Q = length P \<and> length (Q ! k) = length (P ! k) \<and> Q ! k ! i = f [ops ! i, P ! k ! i]"
  using assms by (auto simp: AAPOINTS_eq split: if_splits)

text \<open>
  C12: AAPOINTS raises exactly when some point is longer than the operand vector, and the
  error is IndexError; a longer operand vector is silently truncated to each point.
\<close>

theorem AAPOINTS_error:
  "AAPOINTS f ops P = Inl e \<longleftrightarrow> e = IndexError \<and> (\<exists>p\<in>set P. length ops < length p)"
  by (auto simp: AAPOINTS_eq list_all_iff not_le)

section \<open>Reflection\<close>

lemma length_reflect_point [simp]: "length (reflect_point a p) = length p"
  by (simp add: reflect_point_def)

lemma reflect_point_involutive [simp]: "reflect_point a (reflect_point a p) = p"
  by (rule nth_equalityI) (auto simp: reflect_point_def)

lemma aapoint_mirror_signs:
  "length p \<le> d \<Longrightarrow> aapoint PROD_num (mirror_signs a d) p = Inr (reflect_point a p)"
  by (auto simp: aapoint_def mirror_signs_def reflect_point_def PROD_num_def)

lemma AAPOINTS_mirror_signs:
  "list_all (\<lambda>p. length p \<le> d) P \<Longrightarrow>
     AAPOINTS PROD_num (mirror_signs a d) P = Inr (map (reflect_point a) P)"
  by (induction P) (auto simp: AAPOINTS_def aapoint_mirror_signs)

lemma reflect_point_off_axis:
  "a < 0 \<or> int (length p) \<le> a \<Longrightarrow> reflect_point a p = p"
  by (rule nth_equalityI) (auto simp: reflect_point_def)

lemma reflect_point_fixed_iff:
  "reflect_point a p = p \<longleftrightarrow> (0 \<le> a \<and> nat a < length p \<longrightarrow> p ! nat a = 0)"
proof
  assume eq: "reflect_point a p = p"
  show "0 \<le> a \<and> nat a < length p \<longrightarrow> p ! nat a = 0"
  proof
    assume a: "0 \<le> a \<and> nat a < length p"
    then have "reflect_point a p ! nat a = - (p ! nat a)"
      by (simp add: reflect_point_def)
    with eq show "p ! nat a = 0" by simp
  qed
next
  assume zero: "0 \<le> a \<and> nat a < length p \<longrightarrow> p ! nat a = 0"
  show "reflect_point a p = p"
  proof (rule nth_equalityI)
    fix i assume "i < length (reflect_point a p)"
    with zero show "reflect_point a p ! i = p ! i"
      by (auto simp: reflect_point_def)
  qed simp
qed

section \<open>MIRROR\<close>

lemma MIRROR_eq:
  "MIRROR a P =
     (case P of
        [] \<Rightarrow> Inl IndexError
      | p0 # _ \<Rightarrow>
          if list_all (\<lambda>p. length p \<le> length p0) P
          then Inr (P @ rev (map (reflect_point a) P)) else Inl IndexError)"
proof (cases P)
  case Nil
  then show ?thesis by (simp add: MIRROR_def)
next
  case (Cons p0 P')
  show ?thesis
  proof (cases "list_all (\<lambda>p. length p \<le> length p0) P")
    case True
    with Cons show ?thesis
      by (simp add: MIRROR_def AAPOINTS_mirror_signs)
  next
    case False
    then have "AAPOINTS PROD_num (mirror_signs a (length p0)) P = Inl IndexError"
      by (simp add: AAPOINTS_eq mirror_signs_def)
    with Cons False show ?thesis
      by (simp add: MIRROR_def)
  qed
qed

lemma MIRROR_Inr_iff:
  "MIRROR a P = Inr M \<longleftrightarrow>
     P \<noteq> [] \<and> list_all (\<lambda>p. length p \<le> length (hd P)) P \<and> M = P @ rev (map (reflect_point a) P)"
  by (cases P) (auto simp: MIRROR_eq)

text \<open>C3: MIRROR implements its specification, \<open>points ++ reverse(reflected points)\<close>.\<close>

theorem MIRROR_refines:
  assumes "P \<noteq> []" and "list_all (\<lambda>p. length p \<le> length (hd P)) P"
  shows "MIRROR a P = Inr (P @ rev (map (reflect_point a) P))"
  using assms by (simp add: MIRROR_Inr_iff)

text \<open>A successful MIRROR returns twice as many points as it was given.\<close>

theorem MIRROR_length:
  assumes "MIRROR a P = Inr M"
  shows "length M = 2 * length P"
  using assms by (auto simp: MIRROR_Inr_iff)

text \<open>
  C8: round trip: the first half of the result is the input, and the second half,
  reversed and reflected again, is the input too.
\<close>

theorem MIRROR_roundtrip:
  assumes "MIRROR a P = Inr M"
  shows "take (length P) M = P \<and> map (reflect_point a) (rev (drop (length P) M)) = P"
  using assms by (auto simp: MIRROR_Inr_iff rev_map comp_def)

text \<open>
  C9: the result is a symmetric profile: reflecting it and reversing it gives it back.
\<close>

theorem MIRROR_symmetric:
  assumes "MIRROR a P = Inr M"
  shows "rev (map (reflect_point a) M) = M"
  using assms by (auto simp: MIRROR_Inr_iff rev_map comp_def)

text \<open>
  C10: MIRROR raises exactly when the list is empty (\<open>points[0]\<close>) or a point is longer
  than the first (the sign vector is too short in AAPOINTS), and the error is IndexError.
\<close>

theorem MIRROR_error:
  "MIRROR a P = Inl e \<longleftrightarrow> e = IndexError \<and> (P = [] \<or> (\<exists>p\<in>set P. length (hd P) < length p))"
  by (cases P) (auto simp: MIRROR_eq list_all_iff not_le)

text \<open>
  C16: MIRROR never checks its axis: on a well-formed point list (non-empty, no point
  longer than the first) an axis outside the points' dimension (negative, or at least the
  dimension) raises nothing, negates no coordinate and returns the input followed by its
  reverse.
\<close>

theorem MIRROR_axis_unchecked:
  assumes "P \<noteq> []" and "list_all (\<lambda>p. length p \<le> length (hd P)) P"
    and "a < 0 \<or> int (length (hd P)) \<le> a"
  shows "MIRROR a P = Inr (P @ rev P)"
proof -
  have "map (reflect_point a) P = P"
  proof (rule map_idI)
    fix p assume "p \<in> set P"
    with assms(2,3) show "reflect_point a p = p"
      by (intro reflect_point_off_axis) (fastforce simp: list_all_iff)
  qed
  with assms(1,2) show ?thesis by (simp add: MIRROR_Inr_iff)
qed

text \<open>
  The two points at the seam of the result (the last input point and its reflection)
  coincide exactly when the last input point lies on the mirror hyperplane.
\<close>

theorem MIRROR_seam:
  assumes "MIRROR a P = Inr M"
  shows "M ! length P = M ! (length P - 1) \<longleftrightarrow>
           (0 \<le> a \<and> nat a < length (last P) \<longrightarrow> last P ! nat a = 0)"
proof -
  from assms have P: "P \<noteq> []" and M: "M = P @ rev (map (reflect_point a) P)"
    by (auto simp: MIRROR_Inr_iff)
  then have "M ! length P = reflect_point a (last P)" and "M ! (length P - 1) = last P"
    by (auto simp: nth_append last_conv_nth rev_nth)
  then show ?thesis by (simp add: reflect_point_fixed_iff)
qed

text \<open>
  C17: the result is a closed profile, its last point equal to its first, exactly when
  the first input point lies on the mirror hyperplane (as for the back and front views
  of the car, whose profiles start on the axis).
\<close>

theorem MIRROR_closed:
  assumes "MIRROR a P = Inr M"
  shows "last M = hd M \<longleftrightarrow> (0 \<le> a \<and> nat a < length (hd P) \<longrightarrow> hd P ! nat a = 0)"
proof -
  from assms have P: "P \<noteq> []" and M: "M = P @ rev (map (reflect_point a) P)"
    by (auto simp: MIRROR_Inr_iff)
  then have "last M = reflect_point a (hd P)" and "hd M = hd P"
    by (simp_all add: last_rev hd_map)
  then show ?thesis by (simp add: reflect_point_fixed_iff)
qed

end
