(* ===== verification/DupliRot.thy ===== *)
theory DupliRot
  imports Kernel
begin

text \<open>
  \<open>DUPLIROT\<close> of \<open>src/2013-05-10/python/exercise3.py\<close> (lines 50--56): \<open>n\<close>
  copies of a shape, copy \<open>i\<close> rotated by \<open>i * alpha\<close> in the plane of two axes,
  aggregated by \<open>STRUCT\<close>. The lemmas give the copies and their angles, the error of a
  non-positive count, the identity of a single copy, and the rotational symmetry of the
  result when the copies go once around the circle (\<open>n * alpha = 2 pi\<close>), as for the
  six spokes of the alloy wheel (line 141).
\<close>

section \<open>Definitions\<close>

text \<open>
  \<^verbatim>\<open>lambda alpha: lambda obj : lambda n : STRUCT([R(axis)(alpha*i)(obj) for i in range(n)])\<close>:
  the plane \<open>axis\<close> is the pair \<open>[i, j]\<close>; \<open>range(n)\<close> is empty for \<open>n \<le> 0\<close>, and
  \<open>STRUCT\<close> refuses an empty list.
\<close>

definition DUPLIROT :: "nat \<times> nat \<Rightarrow> real \<Rightarrow> hpc \<Rightarrow> int \<Rightarrow> hpc result" where
  "DUPLIROT axis alpha obj n = STRUCT (map (\<lambda>i. Obj (hpc_map (R axis (alpha * real i)) obj)) [0..<nat n])"

text \<open>The copies \<open>DUPLIROT\<close> aggregates, in order.\<close>

definition rot_copies :: "nat \<times> nat \<Rightarrow> real \<Rightarrow> hpc \<Rightarrow> nat \<Rightarrow> hpc list" where
  "rot_copies axis alpha obj m = map (\<lambda>i. hpc_map (R axis (alpha * real i)) obj) [0..<m]"

definition valid_plane :: "nat \<times> nat \<Rightarrow> bool" where
  "valid_plane axis \<longleftrightarrow> 1 \<le> fst axis \<and> 1 \<le> snd axis \<and> fst axis \<noteq> snd axis"

section \<open>Lemmas\<close>

lemma DUPLIROT_eq:
  "DUPLIROT axis alpha obj n =
     (if n \<le> 0 then Inl PlasmError else Inr (concat (rot_copies axis alpha obj (nat n))))"
proof -
  have "struct_items (map (\<lambda>i. Obj (hpc_map (R axis (alpha * real i)) obj)) [0..<nat n])
      = concat (rot_copies axis alpha obj (nat n))"
    using struct_items_Objs [of "map (\<lambda>i. hpc_map (R axis (alpha * real i)) obj) [0..<nat n]" "[]"]
    by (simp add: rot_copies_def comp_def)
  then show ?thesis
    by (simp add: DUPLIROT_def STRUCT_def)
qed

lemma hpc_map_R_R:
  "valid_plane axis \<Longrightarrow> hpc_map (R axis a) (hpc_map (R axis b) h) = hpc_map (R axis (a + b)) h"
  by (simp add: valid_plane_def comp_def R_add)

lemma rotate_rot_copies:
  assumes "valid_plane axis"
  shows "map (hpc_map (R axis alpha)) (rot_copies axis alpha obj m)
           = map (\<lambda>i. hpc_map (R axis (alpha * real i)) obj) [1..<Suc m]"
proof -
  have "hpc_map (R axis alpha) (hpc_map (R axis (alpha * real i)) obj)
      = hpc_map (R axis (alpha * real (Suc i))) obj" for i
    by (simp only: hpc_map_R_R [OF assms]) (simp add: algebra_simps)
  then show ?thesis
    by (simp add: rot_copies_def map_Suc_upt [symmetric] comp_def del: upt_Suc)
qed

lemma hpc_map_concat: "hpc_map f (concat hs) = concat (map (hpc_map f) hs)"
  by (induction hs) auto

section \<open>Properties of DUPLIROT\<close>

text \<open>
  C11: DUPLIROT raises exactly when the count is not positive (\<open>STRUCT\<close> of an
  empty list); the plane and the angle are never checked.
\<close>

theorem DUPLIROT_error: "DUPLIROT axis alpha obj n = Inl e \<longleftrightarrow> n \<le> 0 \<and> e = PlasmError"
  by (auto simp: DUPLIROT_eq)

text \<open>
  A single copy is the shape itself, when the shape's points already have the
  coordinates of the rotation plane (a shorter point would be padded with zeros).
\<close>

theorem DUPLIROT_single:
  assumes "valid_plane axis"
    and "\<forall>c \<in> set obj. \<forall>p \<in> set c. fst axis \<le> length p \<and> snd axis \<le> length p"
  shows "DUPLIROT axis alpha obj 1 = Inr obj"
proof -
  have "hpc_map (R axis 0) obj = obj"
    using assms by (intro hpc_map_id R_zero) (auto simp: valid_plane_def)
  then show ?thesis by (simp add: DUPLIROT_eq rot_copies_def)
qed

text \<open>
  C6: when the \<open>n\<close> copies go once around (\<open>n * alpha = 2 pi\<close>), the result is
  symmetric: rotating it by \<open>alpha\<close> permutes its cells (the multisets of cells are
  equal).
\<close>

theorem DUPLIROT_symmetric:
  assumes "valid_plane axis" and "0 < n" and "real (nat n) * alpha = 2 * pi"
    and "DUPLIROT axis alpha obj n = Inr h"
  shows "mset (hpc_map (R axis alpha) h) = mset h"
proof -
  let ?m = "nat n"
  let ?g = "\<lambda>i. hpc_map (R axis (alpha * real i)) obj"
  from assms(2,4) have h: "h = concat (rot_copies axis alpha obj ?m)"
    by (simp add: DUPLIROT_eq)
  from assms(2) obtain k where m: "?m = Suc k" by (cases ?m) auto
  have last: "?g ?m = ?g 0"
  proof -
    have eq: "alpha * real ?m = 0 + 2 * pi" using assms(3) by (simp add: mult.commute)
    have per: "R axis (0 + 2 * pi) = R axis 0"
      by (rule ext) (rule R_periodic)
    show ?thesis by (simp only: eq per) simp
  qed
  have "hpc_map (R axis alpha) h = concat (map ?g [1..<Suc ?m])"
    by (simp add: h hpc_map_concat rotate_rot_copies [OF assms(1)] del: upt_Suc)
  also have "[1..<Suc ?m] = [1..<?m] @ [?m]"
    using m by simp
  finally have rot: "hpc_map (R axis alpha) h = concat (map ?g [1..<?m]) @ ?g ?m"
    by simp
  have orig: "h = ?g 0 @ concat (map ?g [1..<?m])"
    using m by (simp add: h rot_copies_def upt_conv_Cons del: upt_Suc)
  have "mset (hpc_map (R axis alpha) h) = mset (concat (map ?g [1..<?m])) + mset (?g ?m)"
    by (simp only: rot mset_append)
  also have "\<dots> = mset (?g 0) + mset (concat (map ?g [1..<?m]))"
    by (simp only: last add.commute)
  also have "\<dots> = mset h"
    by (simp only: orig [symmetric] mset_append [symmetric])
  finally show ?thesis .
qed

end
