(* ===== verification/Domain.thy ===== *)
theory Domain
  imports Kernel
begin

text \<open>
  The grid helpers of \<open>src/2013-04-05/python/exercise3.py\<close>: \<open>GRID\<close> (line 8),
  the product of the 1D complexes \<open>QUOTE\<close> makes of signed interval lists;
  \<open>DOMAIN\<close> (lines 10--19), a uniform grid over a box given by one \<open>[start, end]\<close>
  pair per axis and one division count per axis; \<open>annulus_sector\<close> and
  \<open>circular_sector\<close> (lines 22--31), which map a 2D \<open>DOMAIN\<close> to polar
  coordinates. The abstract view of a grid is its list of boxes (\<open>grid_boxes\<close> of
  Kernel); the lemmas show that \<open>GRID\<close> and \<open>DOMAIN\<close> produce exactly the
  vertices of those boxes, where the cell boundaries lie, when the grid is empty and when
  it raises, and where the vertices of a sector lie.
\<close>

section \<open>Definitions\<close>

text \<open>\<^verbatim>\<open>GRID = COMP([INSR(PROD),AA(QUOTE)])\<close>\<close>

definition GRID :: "real list list \<Rightarrow> hpc result" where
  "GRID ls = INSR PROD2 (map QUOTE ls)"

text \<open>
  \<open>DOMAIN(dims)(divs)\<close>: unpacking \<open>[s,e]\<close> raises ValueError on an entry that is not
  a pair; \<open>divs[i]\<close> raises IndexError when there are fewer counts than axes; a count
  \<open>\<le> 0\<close> gives an empty step list (\<open>range\<close> is empty, no division happens).
\<close>

definition DOMAIN :: "real list list \<Rightarrow> int list \<Rightarrow> hpc result" where
  "DOMAIN dims divs =
     (if \<not> list_all (\<lambda>d. length d = 2) dims then Inl ValueError
      else if length divs < length dims then Inl IndexError
      else
        let start = map (\<lambda>d. d ! 0) dims;
            stop = map (\<lambda>d. d ! 1) dims;
            grid = map (\<lambda>i. replicate (nat (divs ! i)) ((stop ! i - start ! i) / of_int (divs ! i)))
                     [0..<length dims]
        in rbind (GRID grid) (\<lambda>g. Inr (hpc_map (T [1..<length dims + 1] start) g)))"

definition annulus_mapping :: "point \<Rightarrow> point" where
  "annulus_mapping v = (let a = v ! 0; r = v ! 1 in [r * cos a, r * sin a])"

definition annulus_sector :: "real \<Rightarrow> real \<Rightarrow> real \<Rightarrow> hpc result" where
  "annulus_sector alpha r R' =
     rbind (DOMAIN [[0, alpha], [r, R']] [36, 1]) (\<lambda>domain. Inr (MAP annulus_mapping domain))"

definition circular_sector :: "real \<Rightarrow> real \<Rightarrow> hpc result" where
  "circular_sector alpha r = annulus_sector alpha 0 r"

text \<open>
  The abstract grid \<open>DOMAIN\<close> promises: on each axis, \<open>n\<close> equal intervals from
  \<open>s\<close> to \<open>e\<close> when \<open>s < e\<close>, none otherwise.
\<close>

definition uniform_ivs :: "real \<Rightarrow> real \<Rightarrow> int \<Rightarrow> (real \<times> real) list" where
  "uniform_ivs s e n =
     (if s < e then map (\<lambda>k. (s + real k * ((e - s) / of_int n), s + real (Suc k) * ((e - s) / of_int n)))
                      [0..<nat n]
      else [])"

section \<open>GRID\<close>

lemma foldr_PROD2_boxes:
  "Bs \<noteq> [] \<Longrightarrow>
     foldr PROD2 (butlast (map (\<lambda>ivs. map (\<lambda>iv. box_cell [iv]) ivs) Bs))
       (last (map (\<lambda>ivs. map (\<lambda>iv. box_cell [iv]) ivs) Bs))
     = map box_cell (grid_boxes Bs)"
proof (induction Bs)
  case Nil
  then show ?case by simp
next
  case (Cons ivs Bs)
  show ?case
  proof (cases "Bs = []")
    case True
    then show ?thesis by (simp add: map_concat comp_def)
  next
    case False
    let ?G = "grid_boxes Bs"
    have "PROD2 (map (\<lambda>iv. box_cell [iv]) ivs) (map box_cell ?G)
        = PROD2 (map box_cell (map (\<lambda>iv. [iv]) ivs)) (map box_cell ?G)"
      by (simp add: comp_def)
    also have "\<dots> = map box_cell [b1 @ b2. b1 \<leftarrow> map (\<lambda>iv. [iv]) ivs, b2 \<leftarrow> ?G]"
      by (rule PROD2_box_cells)
    also have "\<dots> = map box_cell (grid_boxes (ivs # Bs))"
      by (simp add: map_concat comp_def)
    finally show ?thesis
      using False Cons.IH by simp
  qed
qed

lemma QUOTE_boxes: "QUOTE vs = map (\<lambda>iv. box_cell [iv]) (quote_ivs 0 vs)"
  by (simp add: QUOTE_def quote_from_boxes)

lemma GRID_eq_boxes:
  assumes "ls \<noteq> []"
  shows "GRID ls = Inr (map box_cell (grid_boxes (map (quote_ivs 0) ls)))"
proof -
  let ?Bs = "map (quote_ivs 0) ls"
  have eq: "map QUOTE ls = map (\<lambda>ivs. map (\<lambda>iv. box_cell [iv]) ivs) ?Bs"
    by (simp add: QUOTE_boxes comp_def)
  from assms have "?Bs \<noteq> []" by simp
  note fold = foldr_PROD2_boxes [OF this]
  have "GRID ls = INSR PROD2 (map (\<lambda>ivs. map (\<lambda>iv. box_cell [iv]) ivs) ?Bs)"
    by (simp only: GRID_def eq)
  also have "\<dots> = Inr (map box_cell (grid_boxes ?Bs))"
    using assms by (simp only: INSR_def fold) simp
  finally show ?thesis .
qed

section \<open>DOMAIN\<close>

lemma quote_uniform:
  "map (\<lambda>(l, h). (l + s, h + s)) (quote_ivs 0 (replicate (nat n) ((e - s) / of_int n)))
     = uniform_ivs s e n"
proof (cases "0 < n")
  case False
  then show ?thesis by (simp add: uniform_ivs_def)
next
  case True
  show ?thesis
  proof (cases "s < e")
    case True
    with \<open>0 < n\<close> have "0 < (e - s) / of_int n" by simp
    with True show ?thesis
      by (simp add: uniform_ivs_def quote_ivs_replicate_pos algebra_simps)
  next
    case False
    with \<open>0 < n\<close> have "(e - s) / of_int n \<le> 0"
      by (simp add: divide_nonpos_pos)
    with False show ?thesis
      by (simp add: uniform_ivs_def quote_ivs_replicate_nonpos)
  qed
qed

lemma hpc_map_T_boxes:
  assumes "\<forall>b \<in> set B. length b = length st"
  shows "hpc_map (T [1..<length st + 1] st) (map box_cell B)
           = map box_cell (map (\<lambda>b. map2 (\<lambda>(l, h) s. (l + s, h + s)) b st) B)"
proof -
  have "map (T [1..<length st + 1] st) (box_cell b) = box_cell (map2 (\<lambda>(l, h) s. (l + s, h + s)) b st)"
    if "b \<in> set B" for b
  proof -
    have "map (T [1..<length st + 1] st) (box_cell b) = map (\<lambda>p. map2 (+) p st) (box_cell b)"
    proof (rule map_cong [OF refl])
      fix p assume "p \<in> set (box_cell b)"
      then have "length p = length st"
        using assms that by (auto dest: length_box_cell_point)
      then show "T [1..<length st + 1] st p = map2 (+) p st"
        by (rule T_full_translate)
    qed
    also have "\<dots> = box_cell (map2 (\<lambda>(l, h) s. (l + s, h + s)) b st)"
      using assms that by (simp add: box_cell_translate)
    finally show ?thesis .
  qed
  then show ?thesis by (simp add: hpc_map_def)
qed

lemma DOMAIN_valid:
  assumes "list_all (\<lambda>d. length d = 2) dims" and "dims \<noteq> []" and "length dims \<le> length divs"
  shows "DOMAIN dims divs = Inr (map box_cell (grid_boxes
           (map (\<lambda>i. uniform_ivs (dims ! i ! 0) (dims ! i ! 1) (divs ! i)) [0..<length dims])))"
proof -
  let ?n = "length dims"
  let ?start = "map (\<lambda>d. d ! 0) dims"
  let ?stop = "map (\<lambda>d. d ! 1) dims"
  let ?grid = "map (\<lambda>i. replicate (nat (divs ! i)) ((?stop ! i - ?start ! i) / of_int (divs ! i))) [0..<?n]"
  let ?Bs = "map (quote_ivs 0) ?grid"
  let ?shift = "\<lambda>B s. map (\<lambda>(l, h). (l + s, h + s)) B"
  have G: "GRID ?grid = Inr (map box_cell (grid_boxes ?Bs))"
    using assms(2) by (intro GRID_eq_boxes) simp
  have len: "length ?Bs = length ?start" by simp
  have "\<forall>b \<in> set (grid_boxes ?Bs). length b = length ?start"
    by (auto dest: length_grid_box)
  then have "hpc_map (T [1..<?n + 1] ?start) (map box_cell (grid_boxes ?Bs))
      = map box_cell (map (\<lambda>b. map2 (\<lambda>(l, h) s. (l + s, h + s)) b ?start) (grid_boxes ?Bs))"
    using hpc_map_T_boxes [of "grid_boxes ?Bs" ?start] by simp
  also have "\<dots> = map box_cell (grid_boxes (map2 ?shift ?Bs ?start))"
    by (simp only: grid_boxes_translate [OF len])
  also have "map2 ?shift ?Bs ?start
      = map (\<lambda>i. uniform_ivs (dims ! i ! 0) (dims ! i ! 1) (divs ! i)) [0..<?n]"
    by (rule nth_equalityI) (simp_all add: quote_uniform)
  finally have "hpc_map (T [1..<?n + 1] ?start) (map box_cell (grid_boxes ?Bs)) =
      map box_cell (grid_boxes (map (\<lambda>i. uniform_ivs (dims ! i ! 0) (dims ! i ! 1) (divs ! i)) [0..<?n]))" .
  with assms(1,3) G show ?thesis
    by (simp add: DOMAIN_def Let_def)
qed

lemma uniform_ivs_Nil_iff: "uniform_ivs s e n = [] \<longleftrightarrow> n \<le> 0 \<or> e \<le> s"
  by (auto simp: uniform_ivs_def)

lemma uniform_ivs_bounds:
  assumes "(l, h) \<in> set (uniform_ivs s e n)"
  shows "s \<le> l \<and> l \<le> h \<and> h \<le> e"
proof -
  from assms obtain k where k: "k < nat n" and se: "s < e"
    and l: "l = s + real k * ((e - s) / of_int n)"
    and h: "h = s + real (Suc k) * ((e - s) / of_int n)"
    by (auto simp: uniform_ivs_def split: if_splits)
  from k have n: "0 < n" by simp
  let ?d = "(e - s) / of_int n"
  from se n have d: "0 \<le> ?d" by simp
  from k have "real (Suc k) \<le> real (nat n)"
    by (simp only: of_nat_le_iff)
  with n have kn: "real (Suc k) \<le> of_int n" by simp
  have "real (Suc k) * ?d \<le> of_int n * ?d"
    using kn d by (rule mult_right_mono)
  also have "\<dots> = e - s" using n by simp
  finally have "h \<le> e" using h by simp
  moreover have "s \<le> l"
  proof -
    have "0 \<le> real k * ?d" by (rule mult_nonneg_nonneg [OF _ d]) simp
    then show ?thesis using l by simp
  qed
  moreover have "h = l + ?d"
    unfolding l h by (simp only: of_nat_Suc distrib_right)
  then have "l \<le> h" using d by simp
  ultimately show ?thesis by simp
qed

lemma uniform_ivs_one: "r < R' \<Longrightarrow> uniform_ivs r R' 1 = [(r, R')]"
  by (simp add: uniform_ivs_def)

lemma length_uniform_ivs: "s < e \<Longrightarrow> length (uniform_ivs s e n) = nat n"
  by (simp add: uniform_ivs_def)

section \<open>Properties of GRID and DOMAIN\<close>

text \<open>
  C2: GRID refines the box grid: for a non-empty list of signed interval lists it returns
  the vertex lists of the products of the solid intervals, one box per combination,
  the first axis varying slowest; for an empty list INSR raises IndexError.
\<close>

theorem GRID_spec:
  "GRID ls = (if ls = [] then Inl IndexError
              else Inr (map box_cell (grid_boxes (map (quote_ivs 0) ls))))"
  by (simp add: GRID_eq_boxes) (simp add: GRID_def INSR_def)

text \<open>
  C1: DOMAIN refines the uniform box grid: on malformed input it raises ValueError (an
  entry that is not a pair) or IndexError (fewer counts than axes, or no axis); otherwise
  it returns the vertex lists of the boxes whose side on axis \<open>i\<close> is one of the
  \<open>divs[i]\<close> equal intervals from \<open>start[i]\<close> to \<open>end[i]\<close>.
\<close>

theorem DOMAIN_spec:
  "DOMAIN dims divs =
     (if \<not> list_all (\<lambda>d. length d = 2) dims then Inl ValueError
      else if length divs < length dims \<or> dims = [] then Inl IndexError
      else Inr (map box_cell (grid_boxes
             (map (\<lambda>i. uniform_ivs (dims ! i ! 0) (dims ! i ! 1) (divs ! i)) [0..<length dims]))))"
proof (cases "list_all (\<lambda>d. length d = 2) dims \<and> dims \<noteq> [] \<and> length dims \<le> length divs")
  case True
  then show ?thesis by (simp add: DOMAIN_valid)
next
  case False
  then show ?thesis
    by (auto simp: DOMAIN_def GRID_def INSR_def)
qed

text \<open>
  C7: DOMAIN never raises on a non-positive count or a reversed interval: a well-formed
  call returns the empty complex exactly when some axis has a count \<open>\<le> 0\<close> or an
  interval with \<open>end \<le> start\<close>.
\<close>

theorem DOMAIN_empty_iff:
  assumes "list_all (\<lambda>d. length d = 2) dims" and "dims \<noteq> []" and "length dims \<le> length divs"
  shows "DOMAIN dims divs = Inr [] \<longleftrightarrow>
           (\<exists>i < length dims. divs ! i \<le> 0 \<or> dims ! i ! 1 \<le> dims ! i ! 0)"
proof -
  let ?u = "\<lambda>i. uniform_ivs (dims ! i ! 0) (dims ! i ! 1) (divs ! i)"
  have "DOMAIN dims divs = Inr [] \<longleftrightarrow> [] \<in> set (map ?u [0..<length dims])"
    using assms by (simp add: DOMAIN_valid grid_boxes_Nil_iff)
  also have "\<dots> \<longleftrightarrow> (\<exists>i < length dims. ?u i = [])"
    by (auto simp: image_iff) (metis atLeastLessThan_iff zero_le)
  also have "\<dots> \<longleftrightarrow> (\<exists>i < length dims. divs ! i \<le> 0 \<or> dims ! i ! 1 \<le> dims ! i ! 0)"
    by (simp add: uniform_ivs_Nil_iff)
  finally show ?thesis .
qed

text \<open>
  C18: for \<open>0 < alpha\<close> and \<open>r < R\<close>, \<open>annulus_sector(alpha, r, R)\<close> returns 36
  quadrilateral cells, and every vertex is a point of polar angle in \<open>[0, alpha]\<close>
  on the inner circle (radius r) or the outer circle (radius R).
\<close>

theorem annulus_sector_polar:
  assumes "0 < alpha" and "r < R'"
  shows "\<exists>h. annulus_sector alpha r R' = Inr h \<and> length h = 36 \<and>
           (\<forall>c \<in> set h. length c = 4 \<and>
              (\<forall>p \<in> set c. \<exists>a \<rho>. 0 \<le> a \<and> a \<le> alpha \<and> (\<rho> = r \<or> \<rho> = R') \<and>
                 p = [\<rho> * cos a, \<rho> * sin a]))"
proof -
  let ?U = "uniform_ivs 0 alpha 36"
  let ?h = "MAP annulus_mapping (map (\<lambda>iv. box_cell [iv, (r, R')]) ?U)"
  have D: "DOMAIN [[0, alpha], [r, R']] [36, 1] = Inr (map (\<lambda>iv. box_cell [iv, (r, R')]) ?U)"
    using assms by (simp add: DOMAIN_valid uniform_ivs_one upt_rec map_concat comp_def)
  then have A: "annulus_sector alpha r R' = Inr ?h"
    by (simp add: annulus_sector_def)
  have len: "length ?h = 36"
    using assms by (simp add: MAP_def length_uniform_ivs)
  have cells: "length c = 4 \<and> (\<forall>p \<in> set c. \<exists>a \<rho>. 0 \<le> a \<and> a \<le> alpha \<and> (\<rho> = r \<or> \<rho> = R') \<and>
                 p = [\<rho> * cos a, \<rho> * sin a])" if "c \<in> set ?h" for c
  proof -
    from that obtain l u where iv: "(l, u) \<in> set ?U"
      and c: "c = map annulus_mapping (box_cell [(l, u), (r, R')])"
      by (auto simp: MAP_def hpc_map_def)
    from uniform_ivs_bounds [OF iv] have "0 \<le> l" "l \<le> alpha" "0 \<le> u" "u \<le> alpha"
      by auto
    then show ?thesis
      unfolding c by (auto simp: annulus_mapping_def)
  qed
  from A len cells show ?thesis by blast
qed

lemma circular_sector_cells:
  assumes "0 < alpha" and "0 < r"
  shows "circular_sector alpha r =
           Inr (MAP annulus_mapping (map (\<lambda>iv. box_cell [iv, (0, r)]) (uniform_ivs 0 alpha 36)))"
proof -
  have "DOMAIN [[0, alpha], [0, r]] [36, 1] =
      Inr (map (\<lambda>iv. box_cell [iv, (0, r)]) (uniform_ivs 0 alpha 36))"
    using assms by (simp add: DOMAIN_valid uniform_ivs_one upt_rec map_concat comp_def)
  then show ?thesis
    by (simp add: circular_sector_def annulus_sector_def)
qed

lemma circular_sector_vertex:
  assumes "0 < alpha" and "0 < r" and "circular_sector alpha r = Inr h"
    and "c \<in> set h" and "p \<in> set c"
  shows "p = [0, 0] \<or> (\<exists>a. 0 \<le> a \<and> a \<le> alpha \<and> p = [r * cos a, r * sin a])"
proof -
  from assms(3) circular_sector_cells [OF assms(1,2)]
  have h: "h = MAP annulus_mapping (map (\<lambda>iv. box_cell [iv, (0, r)]) (uniform_ivs 0 alpha 36))"
    by simp
  from assms(4,5) h obtain l u where iv: "(l, u) \<in> set (uniform_ivs 0 alpha 36)"
    and p: "p \<in> set (map annulus_mapping (box_cell [(l, u), (0, r)]))"
    by (auto simp: MAP_def hpc_map_def)
  from uniform_ivs_bounds [OF iv] have "0 \<le> l" "l \<le> alpha" "0 \<le> u" "u \<le> alpha"
    by auto
  with p show ?thesis
    by (auto simp: annulus_mapping_def)
qed

end
