(* ===== verification/Domain2D.thy ===== *)
theory Domain2D
  imports Domain
begin

text \<open>
  \<open>DOMAIN2D\<close> and \<open>DOMAIN2DI\<close> of \<open>src/2013-05-10/python/exercise3.py\<close>
  (lines 9--29): the product of two 1D complexes, taken apart by \<open>UKPOL\<close> into its
  vertices and its quads, each quad \<open>x\<close> split into two triangles along the vertices
  \<open>x[1]\<close> and \<open>x[3]\<close>, and the triangles rebuilt by \<open>MKPOL\<close>. The lemmas show
  that the index round trip through \<open>UKPOL\<close> and \<open>MKPOL\<close> is the identity, so that
  \<open>DOMAIN2D\<close> is the point-level triangulation of the product; that \<open>DOMAIN2DI\<close>
  gives the same triangles with the opposite winding; and the signed areas and the
  orientations of the two triangles of a quad.
\<close>

section \<open>Definitions\<close>

text \<open>
  The lambdas of lines 17 and 28, on any list: Python's \<open>x[3]\<close> raises IndexError
  on a cell of fewer than four vertices.
\<close>

definition domain2d_tris :: "'a list \<Rightarrow> 'a list list result" where
  "domain2d_tris x =
     (if length x < 4 then Inl IndexError else Inr [[x ! 3, x ! 1, x ! 0], [x ! 2, x ! 1, x ! 3]])"

definition domain2di_tris :: "'a list \<Rightarrow> 'a list list result" where
  "domain2di_tris x =
     (if length x < 4 then Inl IndexError else Inr [[x ! 0, x ! 1, x ! 3], [x ! 3, x ! 1, x ! 2]])"

text \<open>
  The default argument of both functions, used when they are called with no argument
  (no call in the scripts does so): two copies of the unit interval in 32 steps.
\<close>

definition DOMAIN2D_default :: "hpc list" where
  "DOMAIN2D_default = [INTERVALS 1 32, INTERVALS 1 32]"

text \<open>
  \<open>domains1D[0]\<close> and \<open>domains1D[1]\<close> raise IndexError on a shorter list;
  \<open>CAT(AA(f)(cells))\<close> maps the lambda over the cells, stopping at the first error,
  and concatenates.
\<close>

definition DOMAIN2D :: "hpc list \<Rightarrow> hpc result" where
  "DOMAIN2D domains1D =
     (if length domains1D < 2 then Inl IndexError
      else (let dd = PROD2 (domains1D ! 0) (domains1D ! 1); complex = UKPOL dd;
                points = fst complex
            in rbind (traverse domain2d_tris (snd complex)) (\<lambda>cs. MKPOL points (concat cs))))"

definition DOMAIN2DI :: "hpc list \<Rightarrow> hpc result" where
  "DOMAIN2DI domains1D =
     (if length domains1D < 2 then Inl IndexError
      else (let dd = PROD2 (domains1D ! 0) (domains1D ! 1); complex = UKPOL dd;
                points = fst complex
            in rbind (traverse domain2di_tris (snd complex)) (\<lambda>cs. MKPOL points (concat cs))))"

text \<open>
  Twice the signed area of a polygon of the plane (the shoelace formula on the first
  two coordinates): positive for a counter-clockwise vertex order.
\<close>

definition cross2 :: "point \<Rightarrow> point \<Rightarrow> real" where
  "cross2 p q = coord p 0 * coord q 1 - coord p 1 * coord q 0"

definition shoelace :: "point list \<Rightarrow> real" where
  "shoelace ps = sum_list (map2 cross2 ps (rotate1 ps))"

section \<open>Lemmas\<close>

lemma domain2d_tris_map:
  "domain2d_tris (map g x) = map_sum id (map (map g)) (domain2d_tris x)"
  by (auto simp: domain2d_tris_def nth_map [of 0] simp del: length_greater_0_conv)

lemma domain2di_tris_map:
  "domain2di_tris (map g x) = map_sum id (map (map g)) (domain2di_tris x)"
  by (auto simp: domain2di_tris_def nth_map [of 0] simp del: length_greater_0_conv)

lemma domain2d_tris_vertices: "domain2d_tris x = Inr ts \<Longrightarrow> t \<in> set ts \<Longrightarrow> set t \<subseteq> set x"
  by (auto simp: domain2d_tris_def split: if_splits intro!: nth_mem)

lemma domain2di_tris_vertices: "domain2di_tris x = Inr ts \<Longrightarrow> t \<in> set ts \<Longrightarrow> set t \<subseteq> set x"
  by (auto simp: domain2di_tris_def split: if_splits intro!: nth_mem)

lemma traverse_tris:
  "traverse domain2d_tris cs =
     (if list_all (\<lambda>c. 4 \<le> length c) cs
      then Inr (map (\<lambda>x. [[x ! 3, x ! 1, x ! 0], [x ! 2, x ! 1, x ! 3]]) cs) else Inl IndexError)"
  by (induction cs) (auto simp: domain2d_tris_def)

text \<open>
  The triangulation through \<open>UKPOL\<close> and \<open>MKPOL\<close> is the triangulation of the
  product's cells themselves, for either winding.
\<close>

lemma UKPOL_triangulate:
  fixes tri :: "nat list \<Rightarrow> nat list list result" and tri' :: "cell \<Rightarrow> cell list result"
  assumes "\<And>x ts t. tri' x = Inr ts \<Longrightarrow> t \<in> set ts \<Longrightarrow> set t \<subseteq> set x"
    and "\<And>g x. tri (map g x) = map_sum id (map (map g)) (tri' x)"
  shows "rbind (traverse tri (snd (UKPOL dd))) (\<lambda>cs. MKPOL (fst (UKPOL dd)) (concat cs))
           = rbind (traverse tri' dd) (\<lambda>cs. Inr (concat cs))"
proof -
  let ?ix = "\<lambda>v. Suc (pos_of v (fst (UKPOL dd)))"
  have snd: "snd (UKPOL dd) = map (map ?ix) dd" by (simp add: UKPOL_def Let_def)
  have tr: "traverse tri (snd (UKPOL dd)) = map_sum id (map (map (map ?ix))) (traverse tri' dd)"
    unfolding snd by (rule traverse_map_sum) (rule assms(2))
  show ?thesis
  proof (cases "traverse tri' dd")
    case (Inl e)
    then show ?thesis by (simp add: tr)
  next
    case (Inr cs)
    have "\<forall>t \<in> set (concat cs). set t \<subseteq> set (concat dd)"
    proof
      fix t assume "t \<in> set (concat cs)"
      then obtain c where c: "c \<in> set cs" and t: "t \<in> set c" by auto
      from c obtain k where k: "k < length cs" and ck: "cs ! k = c"
        by (auto simp: in_set_conv_nth)
      have "tri' (dd ! k) = Inr c" "k < length dd"
        using traverse_nth [OF Inr] traverse_length [OF Inr] k ck by auto
      then show "set t \<subseteq> set (concat dd)"
        using assms(1) [OF _ t] by force
    qed
    then have "MKPOL (fst (UKPOL dd)) (map (map ?ix) (concat cs)) = Inr (concat cs)"
      by (rule MKPOL_UKPOL)
    then show ?thesis by (simp add: tr Inr map_concat)
  qed
qed

lemma DOMAIN2D_eq:
  "DOMAIN2D ds = (if length ds < 2 then Inl IndexError
     else rbind (traverse domain2d_tris (PROD2 (ds ! 0) (ds ! 1))) (\<lambda>cs. Inr (concat cs)))"
  using UKPOL_triangulate [OF domain2d_tris_vertices domain2d_tris_map]
  by (simp add: DOMAIN2D_def Let_def)

lemma DOMAIN2DI_eq:
  "DOMAIN2DI ds = (if length ds < 2 then Inl IndexError
     else rbind (traverse domain2di_tris (PROD2 (ds ! 0) (ds ! 1))) (\<lambda>cs. Inr (concat cs)))"
  using UKPOL_triangulate [OF domain2di_tris_vertices domain2di_tris_map]
  by (simp add: DOMAIN2DI_def Let_def)

lemma domain2di_tris_rev: "domain2di_tris x = map_sum id (map rev) (domain2d_tris x)"
  by (simp add: domain2d_tris_def domain2di_tris_def)

lemma take_4: "4 \<le> length x \<Longrightarrow> take 4 x = [x ! 0, x ! 1, x ! 2, x ! 3]"
  by (simp add: take_Suc_conv_app_nth numeral_eq_Suc del: take_Suc length_greater_0_conv)

lemma shoelace_tri: "shoelace [p, q, r] = cross2 p q + cross2 q r + cross2 r p"
  by (simp add: shoelace_def)

lemma shoelace_quad:
  "shoelace [p, q, r, s] = cross2 p q + cross2 q r + cross2 r s + cross2 s p"
  by (simp add: shoelace_def)

lemma cross2_antisym: "cross2 q p = - cross2 p q"
  by (simp add: cross2_def)

lemma INTERVALS_boxes:
  assumes "0 < n" and "0 < a"
  shows "INTERVALS a n = map box_cell (map (\<lambda>k. [(real k * (a / n), real (Suc k) * (a / n))]) [0..<nat n])"
proof -
  have "0 < a / real_of_int n" using assms by simp
  then show ?thesis
    by (simp add: INTERVALS_def QUOTE_boxes quote_ivs_replicate_pos comp_def)
qed

section \<open>Properties of DOMAIN2D and DOMAIN2DI\<close>

text \<open>
  C4: DOMAIN2DI gives the same result as DOMAIN2D with every triangle's vertex order
  reversed (the opposite winding), and raises the same errors.
\<close>

theorem DOMAIN2DI_winding: "DOMAIN2DI ds = map_sum id (map rev) (DOMAIN2D ds)"
proof -
  have "traverse domain2di_tris cs = map_sum id (map (map rev)) (traverse domain2d_tris cs)"
    for cs :: hpc
    using traverse_map_sum [of cs domain2di_tris id "map rev" domain2d_tris]
    by (simp add: domain2di_tris_rev)
  then show ?thesis
    by (cases "traverse domain2d_tris (PROD2 (ds ! 0) (ds ! 1))")
       (simp_all add: DOMAIN2D_eq DOMAIN2DI_eq map_concat)
qed

text \<open>
  C14: the signed areas of the two triangles DOMAIN2D makes of a quad
  \<open>[x0, x1, x2, x3]\<close> add up to minus the signed area of the quadrilateral
  \<open>x0 x1 x2 x3\<close>.
\<close>

theorem domain2d_tris_area:
  assumes "4 \<le> length x"
  shows "\<exists>ts. domain2d_tris x = Inr ts \<and> sum_list (map shoelace ts) = - shoelace (take 4 x)"
proof -
  have "shoelace [x ! 3, x ! 1, x ! 0] + shoelace [x ! 2, x ! 1, x ! 3]
      = - shoelace [x ! 0, x ! 1, x ! 2, x ! 3]"
    unfolding shoelace_tri shoelace_quad
    using cross2_antisym [of "x ! 3" "x ! 1"] cross2_antisym [of "x ! 0" "x ! 1"]
      cross2_antisym [of "x ! 3" "x ! 0"] cross2_antisym [of "x ! 1" "x ! 2"]
      cross2_antisym [of "x ! 2" "x ! 3"]
    by linarith
  with assms show ?thesis
    by (simp add: domain2d_tris_def take_4)
qed

text \<open>
  C15: on the vertex order PROD gives a rectangle (first axis slowest:
  \<open>(a,c), (a,d), (b,c), (b,d)\<close>), \<open>x1\<close> and \<open>x3\<close> are adjacent corners and the two
  triangles DOMAIN2D makes have opposite orientations: they overlap and do not tile the
  rectangle. DOMAIN2D relies on UKPOL listing a quad's vertices around its boundary.
\<close>

theorem DOMAIN2D_box_order:
  assumes "a < b" and "c < d"
  shows "\<exists>t1 t2. domain2d_tris (box_cell [(a, b), (c, d)]) = Inr [t1, t2]
           \<and> 0 < shoelace t1 \<and> shoelace t2 < 0"
proof -
  have "0 < (b - a) * (d - c)" using assms by simp
  then show ?thesis
    by (simp add: domain2d_tris_def shoelace_tri cross2_def coord_def algebra_simps)
qed

end
