(* ===== verification/Wheel.thy ===== *)
theory Wheel
  imports PointOps DupliRot Domain2D
begin

text \<open>
  The alloy wheel of exercise 3 in \<open>src/2013-05-10/python/exercise3.py\<close>
  (lines 129--141): one spoke as a \<open>MKPOL\<close> of 21 points and 13 cells, made symmetric
  with its mirror image \<open>S([2])(-1)\<close>, then repeated six times around the hub by
  \<open>DUPLIROT([1,2])(PI/3)\<close>. Python rebinds \<open>AWPol1\<close> twice; the three values are
  \<open>AWPol1_spoke\<close>, \<open>AWPol1_pair\<close> and \<open>AWPol1\<close> here.
\<close>

section \<open>Data\<close>

definition AWPoints1 :: "point list" where
  "AWPoints1 = [[0, 0, 1], [cos (pi / 6), sin (pi / 6), 1], [cos (pi / 6), 0, 1], [1, 0.5, 1.2],
     [1, 0, 1.2], [5, 0.3, 0.8], [5, 0, 0.8], [5.5, 0.4, 1], [5.5, 0, 1], [6, 0.4, 1], [6, 0, 1],
     [cos (pi / 6), sin (pi / 6), 0.5], [cos (pi / 6), 0, 0.5], [1, 0.5, 0.6], [1, 0, 0.6],
     [5, 0.3, 0], [5, 0, 0], [5.5, 0.4, 0], [5.5, 0, 0], [6, 0.4, 0], [6, 0, 0]]"

definition AWCells1 :: "nat list list" where
  "AWCells1 = [[1, 3, 2], [2, 3, 5, 4], [4, 5, 6, 7], [6, 7, 9, 8], [8, 9, 10, 11],
     [2, 4, 14, 12], [4, 6, 16, 14], [6, 8, 18, 16], [8, 10, 20, 18],
     [12, 14, 15, 13], [14, 16, 17, 15], [16, 18, 19, 17], [18, 20, 21, 19]]"

definition AWPol1_spoke :: "hpc result" where
  "AWPol1_spoke = MKPOL AWPoints1 AWCells1"

definition AWPol1_pair :: "hpc result" where
  "AWPol1_pair = rbind AWPol1_spoke (\<lambda>s. STRUCT [Obj s, Obj (hpc_map (S [2] [-1]) s)])"

definition AWPol1 :: "hpc result" where
  "AWPol1 = rbind AWPol1_pair (\<lambda>p. DUPLIROT (1, 2) (pi / 3) p 6)"

text \<open>
  The hub's profile (line 143) and the parameter domain of the hub's and the tire's
  rotational surfaces (lines 144 and 148); the surfaces are in theory \<open>WheelAssembly\<close>.
\<close>

definition AWPol2_profile :: "point list" where
  "AWPol2_profile = [[0, 0, 0], [0, 0, 3], [-0.3, 0, 3], [-0.9, 0, 3.9], [0, 0, 3.9],
     [0.9, 0, 3.9], [2, 0, 4.2], [2, 0, 4], [0.6, 0, 3], [0.6, 0, 0]]"

definition AWPol2_points :: "point list result" where
  "AWPol2_points = rbind (MIRROR 2 AWPol2_profile) (AAPOINTS SUM_num [6, 0, 0])"

definition surface_domain :: "hpc result" where
  "surface_domain = DOMAIN2D [INTERVALS 1 24, INTERVALS (2 * pi) 36]"

section \<open>Evaluation\<close>

lemma AWPol1_spoke_eval:
  "AWPol1_spoke = Inr (map (map (\<lambda>k. AWPoints1 ! (k - 1))) AWCells1)"
  by (simp add: AWPol1_spoke_def MKPOL_def AWPoints1_def AWCells1_def)

lemma AWPol1_pair_eval:
  "AWPol1_pair = Inr (let s = map (map (\<lambda>k. AWPoints1 ! (k - 1))) AWCells1 in s @ hpc_map (S [2] [-1]) s)"
  by (simp add: AWPol1_pair_def AWPol1_spoke_eval STRUCT_def Let_def)

lemma S_2_involutive: "2 \<le> length p \<Longrightarrow> S [2] [-1] (S [2] [-1] p) = p"
  by (rule nth_equalityI) (auto simp: S_def set_coord_def coord_def pad_def nth_list_update)

section \<open>Properties of the alloy wheel\<close>

text \<open>
  C13: the spoke pair is symmetric: reflecting it in the plane \<open>y = 0\<close> (the
  \<open>S([2])(-1)\<close> it was made with) permutes its cells, because the reflection is an
  involution on the spoke's 3D points.
\<close>

theorem AWPol1_pair_symmetric:
  "\<exists>p. AWPol1_pair = Inr p \<and> mset (hpc_map (S [2] [-1]) p) = mset p"
proof -
  let ?s = "map (map (\<lambda>k. AWPoints1 ! (k - 1))) AWCells1"
  have len: "\<forall>c \<in> set ?s. \<forall>q \<in> set c. 2 \<le> length q"
    by (simp add: AWPoints1_def AWCells1_def)
  have twice: "hpc_map (S [2] [-1]) (hpc_map (S [2] [-1]) ?s) = ?s"
    unfolding hpc_map_comp by (rule hpc_map_id) (use len S_2_involutive in auto)
  have "mset (hpc_map (S [2] [-1]) (?s @ hpc_map (S [2] [-1]) ?s)) = mset (?s @ hpc_map (S [2] [-1]) ?s)"
    by (simp only: hpc_map_append twice mset_append add.commute)
  then show ?thesis by (simp add: AWPol1_pair_eval Let_def)
qed

section \<open>Witnesses of DUPLIROT's theorems\<close>

theorem DUPLIROT_error_witness: "DUPLIROT (1, 2) (pi / 3) [[[1, 0, 0]]] 0 = Inl PlasmError"
  using DUPLIROT_error [of "(1, 2)" "pi / 3" "[[[1, 0, 0]]]" 0 PlasmError] by simp

theorem DUPLIROT_single_witness:
  "DUPLIROT (1, 2) (pi / 3) [[[1, 0, 0], [0, 1, 0]]] 1 = Inr [[[1, 0, 0], [0, 1, 0]]]"
  using DUPLIROT_single [of "(1, 2)" "[[[1, 0, 0], [0, 1, 0]]]" "pi / 3"]
  by (simp add: valid_plane_def)

theorem DUPLIROT_symmetric_witness:
  "\<exists>h. AWPol1 = Inr h \<and> mset (hpc_map (R (1, 2) (pi / 3)) h) = mset h"
proof -
  obtain p where p: "AWPol1_pair = Inr p" using AWPol1_pair_eval by blast
  let ?h = "concat (rot_copies (1, 2) (pi / 3) p 6)"
  have d: "DUPLIROT (1, 2) (pi / 3) p 6 = Inr ?h"
    using DUPLIROT_eq [of "(1, 2)" "pi / 3" p 6] by simp
  have "mset (hpc_map (R (1, 2) (pi / 3)) ?h) = mset ?h"
    by (rule DUPLIROT_symmetric [OF _ _ _ d]) (simp_all add: valid_plane_def)
  moreover have "AWPol1 = Inr ?h" unfolding AWPol1_def p rbind_Inr by (rule d)
  ultimately show ?thesis by blast
qed

section \<open>Witnesses of DOMAIN2D's theorems\<close>

theorem domain2d_tris_area_witness:
  "\<exists>ts. domain2d_tris [[0, 0], [1, 0], [1, 1], [0, 1 :: real]] = Inr ts
     \<and> sum_list (map shoelace ts) = - 2"
  using domain2d_tris_area [of "[[0, 0], [1, 0], [1, 1], [0, 1]]"]
  by (simp add: shoelace_def cross2_def coord_def)

theorem DOMAIN2D_box_order_witness:
  "\<exists>t1 t2. domain2d_tris (box_cell [(0, 1), (0, 2 * pi)]) = Inr [t1, t2]
     \<and> 0 < shoelace t1 \<and> shoelace t2 < 0"
  using DOMAIN2D_box_order [of 0 1 0 "2 * pi"] by simp

end
