(* ===== verification/Car.thy ===== *)
theory Car
  imports PointOps
begin

text \<open>
  The control-point data of the car model (exercises 2 and 3 of
  \<open>src/2013-05-10/python/exercise3.py\<close>) that is built with \<open>AAPOINTS\<close> and
  \<open>MIRROR\<close>: half profiles of the car's outline and of the wheel, completed by
  reflection. The B-spline curves drawn through the mirrored profiles (\<open>SPLINE\<close>) are
  not modelled; the Bezier arcs of the side view are in \<open>CarSide\<close>. The data also
  serves as the concrete inputs at which the theorems of the point helpers are applied.
\<close>

section \<open>Data\<close>

definition wheelSection_unit :: "point list" where
  "wheelSection_unit = [[0, 0], [0.05, 2 / 3], [0.95, 2 / 3], [1, 0]]"

definition wheelSectionControlPoints :: "point list result" where
  "wheelSectionControlPoints = AAPOINTS PROD_num [8, 8] wheelSection_unit"

definition bumperSideControlPoints :: "point list result" where
  "bumperSideControlPoints = AAPOINTS SUM_num [0.2, 0.9] [[0, 0], [-0.5, 0.75], [-0.5, 1.5]]"

definition frontUp_profile :: "point list" where
  "frontUp_profile = [[14, 9.5], [14, 9.5], [14, 9.5], [9, 9.5], [8, 9.5], [4, 8], [1, 6],
     [0, 5.3], [0, 0], [0, 0], [0, 0]]"

definition frontUpControlPoints :: "point list result" where
  "frontUpControlPoints = MIRROR 1 frontUp_profile"

definition sideUpLinePoints1 :: "point list" where
  "sideUpLinePoints1 = [[14, 9.5], [29, 9.5], [29, 9.8]]"

definition sideUpLinePoints2 :: "point list result" where
  "sideUpLinePoints2 = AAPOINTS PROD_num [1, -1] sideUpLinePoints1"

definition rearUp_profile :: "point list" where
  "rearUp_profile = [[0, 9.8], [0, 9.8], [0, 9.8], [2.7, 9.9], [3.5, 9.6], [3.5, 9.6], [5.5, 10],
     [5.5, 10], [10.5, 9.7], [16.6, 7.5], [16.8, 7.3], [17, 6.5], [17, 6.5], [17.3, 6], [17.2, 3]]"

definition rearUpControlPoints :: "point list result" where
  "rearUpControlPoints = rbind (AAPOINTS SUM_num [29, 0] rearUp_profile) (MIRROR 1)"

definition tire_profile :: "point list" where
  "tire_profile = [[1, 0, 3.6], [2, 0, 3.6], [2.2, 0, 4], [4, 0, 4], [4.3, 0, 3.6]]"

definition tire1 :: "point list result" where
  "tire1 = rbind (MIRROR 2 tire_profile) (AAPOINTS SUM_num [5.5, 0, 0])"

definition sideUp :: "hpc result" where
  "sideUp = rbind sideUpLinePoints2 (\<lambda>p2. STRUCT (map (\<lambda>ps. Obj (POLYLINE ps)) [sideUpLinePoints1, p2]))"

definition backView_profile :: "point list" where
  "backView_profile = [[0, 2.2], [0, 2.2], [0, 2.2], [1, 2.2], [1.8, 2], [2, 1.3], [2, 1.3], [6.1, 1.3],
     [6.1, 1.3], [6.1, 0], [6.1, 0], [8.1, 0], [8.1, 0], [9.3, 1.2], [10.1, 4], [10.5, 5], [10.5, 5],
     [10.3, 5.7], [9.5, 6.2], [9, 6.2], [8.3, 6.3], [8.3, 6.3], [7.5, 7.2], [6.3, 8], [6.3, 8.1], [5, 8.5]]"

definition backViewControlPoints :: "point list result" where
  "backViewControlPoints = MIRROR 0 backView_profile"

definition frontVent :: hpc where
  "frontVent = POLYLINE [[-5, 2.6], [5, 2.6], [5, 1], [-5, 1], [-5, 2.6]]"

definition frontView_profile :: "point list" where
  "frontView_profile = [[0, 0], [0, 0], [0, 0], [7.9, 0], [7.9, 0], [7.9, 0.3], [7.9, 0.3], [9, 1.2],
     [9.5, 2.6], [9.8, 4], [10.1, 5.5], [10.2, 5.6], [10.3, 5.5], [10.5, 4.5], [9.75, 1.6], [8.1, -0.3],
     [8.1, -0.3], [9.2, -0.3], [9.2, -0.3], [9.2, 0], [9.2, 0], [10, 0.5], [10.3, 1.7], [10.7, 4],
     [10.7, 4.2], [10.7, 5.5], [10.7, 5.7], [10, 7.5], [8.3, 7.5], [8.3, 7.5], [6.3, 9.3], [6.4, 9.2],
     [1, 9.7]]"

definition frontViewControlPoints :: "point list result" where
  "frontViewControlPoints = MIRROR 0 frontView_profile"

section \<open>Evaluation\<close>

lemma frontUp_eval:
  "MIRROR 1 frontUp_profile = Inr (frontUp_profile @ rev (map (reflect_point 1) frontUp_profile))"
  by (simp add: MIRROR_Inr_iff frontUp_profile_def)

section \<open>Witnesses of the point helpers' theorems\<close>

theorem MIRROR_refines_witness:
  "MIRROR 1 frontUp_profile = Inr (frontUp_profile @ rev (map (reflect_point 1) frontUp_profile))"
  by (rule MIRROR_refines) (simp_all add: frontUp_profile_def)

theorem MIRROR_length_witness:
  "\<exists>M. MIRROR 1 frontUp_profile = Inr M \<and> length M = 2 * length frontUp_profile"
  using MIRROR_length [OF frontUp_eval] frontUp_eval by blast

theorem MIRROR_roundtrip_witness:
  "\<exists>M. MIRROR 1 frontUp_profile = Inr M \<and> take 11 M = frontUp_profile
     \<and> map (reflect_point 1) (rev (drop 11 M)) = frontUp_profile"
  using MIRROR_roundtrip [OF frontUp_eval] frontUp_eval by (simp add: frontUp_profile_def)

theorem MIRROR_symmetric_witness:
  "\<exists>M. MIRROR 1 frontUp_profile = Inr M \<and> rev (map (reflect_point 1) M) = M"
  using MIRROR_symmetric [OF frontUp_eval] frontUp_eval by blast

theorem MIRROR_error_witness: "MIRROR 0 [[1, 2], [1, 2, 3]] = Inl IndexError"
  using MIRROR_error [of 0 "[[1, 2], [1, 2, 3]]" IndexError] by simp

theorem MIRROR_axis_unchecked_witness:
  "MIRROR 2 frontUp_profile = Inr (frontUp_profile @ rev frontUp_profile)"
  using MIRROR_axis_unchecked [of frontUp_profile 2] by (simp add: frontUp_profile_def)

theorem MIRROR_seam_witness:
  "\<exists>M. MIRROR 1 frontUp_profile = Inr M \<and> M ! 11 = M ! 10"
  using MIRROR_seam [OF frontUp_eval] frontUp_eval by (simp add: frontUp_profile_def)

theorem AAPOINTS_coordinates_witness:
  "\<exists>Q. wheelSectionControlPoints = Inr Q \<and> Q ! 1 ! 1 = PROD_num [8, 2 / 3]"
proof -
  have h: "AAPOINTS PROD_num [8, 8] wheelSection_unit =
      Inr [[0, 0], [0.4, 16 / 3], [7.6, 16 / 3], [8, 0]]"
    by (simp add: AAPOINTS_eq wheelSection_unit_def PROD_num_def upt_rec)
  have "Q ! 1 ! 1 = PROD_num [8, 2 / 3]"
    if "AAPOINTS PROD_num [8, 8] wheelSection_unit = Inr Q" for Q
    using AAPOINTS_coordinates [OF that, of 1 1] by (simp add: wheelSection_unit_def)
  with h show ?thesis by (auto simp: wheelSectionControlPoints_def)
qed

theorem AAPOINTS_error_witness: "AAPOINTS SUM_num [29] rearUp_profile = Inl IndexError"
  using AAPOINTS_error [of SUM_num "[29]" rearUp_profile IndexError]
  by (simp add: rearUp_profile_def)

theorem MIRROR_closed_witness:
  "\<exists>M. backViewControlPoints = Inr M \<and> last M = hd M"
proof -
  have h: "MIRROR 0 backView_profile = Inr (backView_profile @ rev (map (reflect_point 0) backView_profile))"
    by (simp add: MIRROR_Inr_iff backView_profile_def)
  have "last M = hd M" if "MIRROR 0 backView_profile = Inr M" for M
    using MIRROR_closed [OF that] by (simp add: backView_profile_def)
  with h show ?thesis by (auto simp: backViewControlPoints_def)
qed

end
