(* ===== verification/CarSide.thy ===== *)
theory CarSide
  imports Car Domain2D
begin

text \<open>
  The side view of the car (exercise 2 of \<open>src/2013-05-10/python/exercise3.py\<close>,
  lines 66--99): Bezier arcs over the wheels, the bumper, the fender and the roof,
  sampled on \<open>INTERVALS(1)(24)\<close>, and polylines for the remaining edges, moved into
  place by \<open>T\<close> and put together by \<open>STRUCT\<close>. The lemmas show that the outline
  is closed: every vertex of \<open>side\<close> is the end of an even number of its segments, so
  the pieces join end to end with no gap (with the script's decimal constants read
  as exact reals).
\<close>

section \<open>Data\<close>

definition domain1D :: hpc where
  "domain1D = INTERVALS 1 24"

definition wheelSectionPoints :: "point list" where
  "wheelSectionPoints = [[0, 0], [4, 5.5], [8, 1], [8, -0.5]]"

definition wheelSectionLine1Points :: "point list" where
  "wheelSectionLine1Points = [[0, 0], [0.1, -1.5]]"

definition wheelSectionLine2Points :: "point list" where
  "wheelSectionLine2Points = [[8, 0], [8, -2]]"

definition wheelSectionLine3Points :: "point list" where
  "wheelSectionLine3Points = [[0, 0], [0, -2]]"

definition frotWheelSide :: "hpc result" where
  "frotWheelSide = rbind wheelSectionControlPoints (\<lambda>cps.
     STRUCT [Obj (MAP (BEZIER S1 cps) domain1D), Obj (POLYLINE wheelSectionLine1Points),
             Obj (POLYLINE wheelSectionLine2Points)])"

definition rearWheelSide :: "hpc result" where
  "rearWheelSide = rbind wheelSectionControlPoints (\<lambda>cps.
     STRUCT [Tr (T [1] [27]), Obj (MAP (BEZIER S1 cps) domain1D), Obj (POLYLINE wheelSectionLine3Points)])"

definition wheelsSide :: "hpc result" where
  "wheelsSide = rbind (traverse id [frotWheelSide, rearWheelSide])
     (\<lambda>hs. rbind (STRUCT (map Obj hs)) (\<lambda>s. Inr (hpc_map (T [1] [-9]) s)))"

definition bumperSideLinePoints :: "point list" where
  "bumperSideLinePoints = [[5.5, 0], [0, 0], [0, 0.1], [0.2, 0.1], [0.7, 0.3], [0, 0.9], [0.2, 0.9]]"

definition bumperSideUpLinePoints :: "point list" where
  "bumperSideUpLinePoints = [[-0.3, 2.4], [-0.6, 2.5]]"

definition bumperSide :: "hpc result" where
  "bumperSide = rbind bumperSideControlPoints (\<lambda>cps.
     rbind (STRUCT [Obj (POLYLINE bumperSideLinePoints), Obj (MAP (BEZIER S1 cps) domain1D)])
       (\<lambda>s. Inr (hpc_map (T [1, 2] [-9 - 5.5 + 0.1, -1.5]) s)))"

definition fenderSideLinePoints :: "point list" where
  "fenderSideLinePoints = [[-14.7, 0.9], [-15.0, 1.0], [-15.1, 1.4]]"

definition fenderSideControlPoints :: "point list" where
  "fenderSideControlPoints = [[-15.1, 1.4], [-12, 3.5], [-4, 5.5], [-1, 5.1]]"

definition fenderSide :: "hpc result" where
  "fenderSide = STRUCT [Obj (MAP (BEZIER S1 fenderSideControlPoints) domain1D),
     Obj (POLYLINE fenderSideLinePoints)]"

definition glassSidePoints :: "point list" where
  "glassSidePoints = [[-1, 5.1], [5.2, 8]]"

definition glassSide :: hpc where
  "glassSide = POLYLINE glassSidePoints"

definition roofSideControlPoints1 :: "point list" where
  "roofSideControlPoints1 = [[5.2, 8], [6.2, 8.5], [16.5, 8.5], [21, 6], [22, 6]]"

definition roofSideControlPoints2 :: "point list" where
  "roofSideControlPoints2 = [[22, 6], [25, 6.5], [29, 3.6], [30.5, 5]]"

definition roofSide :: "hpc result" where
  "roofSide = STRUCT [Obj (MAP (BEZIER S1 roofSideControlPoints1) domain1D),
     Obj (MAP (BEZIER S1 roofSideControlPoints2) domain1D)]"

definition backSideControlPoints :: "point list" where
  "backSideControlPoints = [[26, 0], [28.5, 0.5], [30, 4], [30.5, 5]]"

definition backSide :: hpc where
  "backSide = MAP (BEZIER S1 backSideControlPoints) domain1D"

definition bottomSidePoints :: "point list" where
  "bottomSidePoints = [[-1, -2], [18, -2]]"

definition bottomSide :: hpc where
  "bottomSide = POLYLINE bottomSidePoints"

definition side :: "hpc result" where
  "side = rbind (traverse id [wheelsSide, bumperSide, fenderSide, Inr glassSide, roofSide,
       Inr backSide, Inr bottomSide])
     (\<lambda>hs. STRUCT (map Obj hs))"

text \<open>
  \<open>chain_ends h E\<close>: the vertex occurrences of the segments of \<open>h\<close>, together with
  the multiset \<open>E\<close> of its loose ends, pair up (each point occurs an even number of
  times). A polyline's loose ends are its first and last point.
\<close>

definition chain_ends :: "hpc \<Rightarrow> point multiset \<Rightarrow> bool" where
  "chain_ends h E \<longleftrightarrow> (\<exists>M. mset (concat h) + E = M + M)"

text \<open>
  \<open>in_rect x0 x1 y0 y1 h\<close>: every vertex of \<open>h\<close> is a point of the plane in the
  rectangle \<open>[x0, x1] \<times> [y0, y1]\<close>.
\<close>

definition in_rect :: "real \<Rightarrow> real \<Rightarrow> real \<Rightarrow> real \<Rightarrow> hpc \<Rightarrow> bool" where
  "in_rect x0 x1 y0 y1 h \<longleftrightarrow>
     list_all (list_all (\<lambda>p. length p = 2 \<and> x0 \<le> p ! 0 \<and> p ! 0 \<le> x1 \<and> y0 \<le> p ! 1 \<and> p ! 1 \<le> y1)) h"

section \<open>Lemmas\<close>

lemma POLYLINE_Cons2: "POLYLINE (a # b # rest) = [a, b] # POLYLINE (b # rest)"
  by (simp add: POLYLINE_def)

lemma POLYLINE_single: "POLYLINE [a] = []"
  by (simp add: POLYLINE_def)

lemma hpc_map_POLYLINE: "hpc_map f (POLYLINE ps) = POLYLINE (map f ps)"
  by (induction ps rule: induct_list012) (simp_all add: POLYLINE_def hpc_map_def)

lemma POLYLINE_upt: "POLYLINE (map g [0..<Suc m]) = map (\<lambda>k. [g k, g (Suc k)]) [0..<m]"
proof (induction m arbitrary: g)
  case 0
  then show ?case by (simp add: POLYLINE_def)
next
  case (Suc m)
  have "map g [0..<Suc (Suc m)] = g 0 # g 1 # map (g \<circ> Suc \<circ> Suc) [0..<m]"
    by (simp add: map_upt_Suc del: upt_Suc)
  then show ?case
    using Suc.IH [of "g \<circ> Suc"] by (simp add: map_upt_Suc POLYLINE_Cons2 comp_def del: upt_Suc)
qed

lemma MAP_INTERVALS:
  assumes "0 < n" and "0 < a"
  shows "MAP f (INTERVALS a n) = POLYLINE (map (\<lambda>k. f [real k * (a / n)]) [0..<Suc (nat n)])"
  using assms by (simp add: INTERVALS_boxes MAP_def hpc_map_def POLYLINE_upt comp_def del: upt_Suc)

lemma chain_ends_POLYLINE: "ps \<noteq> [] \<Longrightarrow> chain_ends (POLYLINE ps) {#hd ps, last ps#}"
proof (induction ps rule: induct_list012)
  case 1
  then show ?case by simp
next
  case (2 a)
  then show ?case by (auto simp: chain_ends_def POLYLINE_single intro: exI [of _ "{#a#}"])
next
  case (3 a b rest)
  let ?X = "mset (concat (POLYLINE (b # rest)))" and ?l = "last (b # rest)"
  obtain M where M: "?X + {#b, ?l#} = M + M"
    using 3 by (auto simp: chain_ends_def)
  have "mset (concat (POLYLINE (a # b # rest))) + {#hd (a # b # rest), last (a # b # rest)#}
      = (?X + {#b, ?l#}) + {#a, a#}"
    by (simp add: POLYLINE_Cons2 ac_simps add_mset_commute)
  also have "\<dots> = add_mset a M + add_mset a M"
    by (simp only: M) (simp add: ac_simps add_mset_commute)
  finally show ?case unfolding chain_ends_def by blast
qed

lemma chain_ends_append:
  assumes "chain_ends h1 E1" and "chain_ends h2 E2"
  shows "chain_ends (h1 @ h2) (E1 + E2)"
proof -
  obtain M1 M2 where M: "mset (concat h1) + E1 = M1 + M1" "mset (concat h2) + E2 = M2 + M2"
    using assms by (auto simp: chain_ends_def)
  have "mset (concat (h1 @ h2)) + (E1 + E2) = (mset (concat h1) + E1) + (mset (concat h2) + E2)"
    by (simp add: ac_simps)
  also have "\<dots> = (M1 + M2) + (M1 + M2)"
    by (simp only: M) (simp add: ac_simps)
  finally have "mset (concat (h1 @ h2)) + (E1 + E2) = (M1 + M2) + (M1 + M2)" .
  then show ?thesis unfolding chain_ends_def by blast
qed

lemma chain_ends_hpc_map:
  assumes "chain_ends h E"
  shows "chain_ends (hpc_map f h) (image_mset f E)"
proof -
  obtain M where M: "mset (concat h) + E = M + M"
    using assms by (auto simp: chain_ends_def)
  have "mset (concat (hpc_map f h)) + image_mset f E = image_mset f (mset (concat h) + E)"
    by (simp add: hpc_map_def map_concat [symmetric])
  also have "\<dots> = image_mset f M + image_mset f M"
    by (simp only: M image_mset_union)
  finally show ?thesis unfolding chain_ends_def by blast
qed

lemma chain_ends_even:
  assumes "chain_ends h E" and "E = F + F"
  shows "even (count (mset (concat h)) v)"
proof -
  obtain M where "mset (concat h) + F + F = M + M"
    using assms by (auto simp: chain_ends_def add.assoc)
  then have "count (mset (concat h)) v + 2 * count F v = 2 * count M v"
    by (metis count_union mult_2 add.assoc)
  then show ?thesis by presburger
qed

lemma sum_list_single_index:
  "sum_list (map (\<lambda>i. if i = k then x i else 0) [0..<m]) = (if k < m then x k else 0)"
  by (induction m) auto

lemma bernstein_0: "bernstein n i 0 = (if i = 0 then 1 else 0)"
  by (simp add: bernstein_def)

lemma bernstein_1: "i \<le> n \<Longrightarrow> bernstein n i 1 = (if i = n then 1 else 0)"
  by (simp add: bernstein_def)

lemma bezier_sum_0:
  "cps \<noteq> [] \<Longrightarrow>
     sum_list (map (\<lambda>i. bernstein (length cps - 1) i 0 * coord (cps ! i) j) [0..<length cps])
     = coord (hd cps) j"
proof -
  assume "cps \<noteq> []"
  have "map (\<lambda>i. bernstein (length cps - 1) i 0 * coord (cps ! i) j) [0..<length cps]
      = map (\<lambda>i. if i = 0 then coord (cps ! i) j else 0) [0..<length cps]"
    by (rule map_cong) (auto simp: bernstein_0)
  also have "sum_list \<dots> = coord (hd cps) j"
    using \<open>cps \<noteq> []\<close> by (simp add: sum_list_single_index hd_conv_nth)
  finally show ?thesis .
qed

lemma bezier_sum_1:
  "cps \<noteq> [] \<Longrightarrow>
     sum_list (map (\<lambda>i. bernstein (length cps - 1) i 1 * coord (cps ! i) j) [0..<length cps])
     = coord (last cps) j"
proof -
  assume "cps \<noteq> []"
  have "map (\<lambda>i. bernstein (length cps - 1) i 1 * coord (cps ! i) j) [0..<length cps]
      = map (\<lambda>i. if i = length cps - 1 then coord (cps ! i) j else 0) [0..<length cps]"
    by (rule map_cong) (auto simp: bernstein_1)
  also have "sum_list \<dots> = coord (last cps) j"
    using \<open>cps \<noteq> []\<close> by (simp add: sum_list_single_index last_conv_nth)
  finally show ?thesis .
qed

lemma map_coord: "map (coord c) [0..<length c] = c"
  by (rule nth_equalityI) (simp_all add: coord_def)

lemma BEZIER_ends:
  assumes "cps \<noteq> []" and "length (last cps) = length (hd cps)"
  shows "BEZIER S1 cps [0] = hd cps" "BEZIER S1 cps [1] = last cps"
proof -
  have "BEZIER S1 cps [0] = map (coord (hd cps)) [0..<length (hd cps)]"
    using bezier_sum_0 [OF assms(1)] by (simp add: BEZIER_def S1_def coord_def)
  then show "BEZIER S1 cps [0] = hd cps" by (simp only: map_coord)
  have "BEZIER S1 cps [1] = map (coord (last cps)) [0..<length (last cps)]"
    using bezier_sum_1 [OF assms(1)] assms(2) by (simp add: BEZIER_def S1_def coord_def)
  then show "BEZIER S1 cps [1] = last cps" by (simp only: map_coord)
qed

lemma chain_ends_bezier:
  assumes "cps \<noteq> []" and "length (last cps) = length (hd cps)"
  shows "chain_ends (MAP (BEZIER S1 cps) domain1D) {#hd cps, last cps#}"
proof -
  let ?ps = "map (\<lambda>k. BEZIER S1 cps [real k * (1 / real_of_int 24)]) [0..<Suc (nat 24)]"
  have "MAP (BEZIER S1 cps) domain1D = POLYLINE ?ps"
    unfolding domain1D_def by (rule MAP_INTERVALS) simp_all
  moreover have "hd ?ps = hd cps" "last ?ps = last cps"
    using BEZIER_ends [OF assms] by (simp_all del: upt_Suc add: upt_conv_Cons)
  moreover have "?ps \<noteq> []" by simp
  ultimately show ?thesis using chain_ends_POLYLINE [of ?ps] by simp
qed

lemma chain_ends_mset_eq: "chain_ends h E \<Longrightarrow> E = E' \<Longrightarrow> chain_ends h E'"
  by simp

lemmas side_data_defs = wheelSectionLine1Points_def wheelSectionLine2Points_def
  wheelSectionLine3Points_def bumperSideLinePoints_def fenderSideLinePoints_def
  fenderSideControlPoints_def glassSidePoints_def roofSideControlPoints1_def
  roofSideControlPoints2_def backSideControlPoints_def bottomSidePoints_def

lemma bernstein_nonneg: "0 \<le> u \<Longrightarrow> u \<le> 1 \<Longrightarrow> 0 \<le> bernstein n i u"
  by (simp add: bernstein_def)

lemma bernstein_sum: "sum_list (map (\<lambda>i. bernstein n i u) [0..<Suc n]) = 1"
proof -
  have "sum_list (map (\<lambda>i. bernstein n i u) [0..<Suc n])
      = (\<Sum>k\<le>n. of_nat (n choose k) * u ^ k * (1 - u) ^ (n - k))"
    by (simp only: interv_sum_list_conv_sum_set_nat atMost_upto bernstein_def)
  also have "\<dots> = (u + (1 - u)) ^ n" by (rule binomial_ring [symmetric])
  finally show ?thesis by simp
qed

lemma convex_combination_bounds:
  fixes w x :: "nat \<Rightarrow> real"
  assumes "\<And>i. i < m \<Longrightarrow> 0 \<le> w i" and "sum_list (map w [0..<m]) = 1"
    and "\<And>i. i < m \<Longrightarrow> lo \<le> x i \<and> x i \<le> hi"
  shows "lo \<le> sum_list (map (\<lambda>i. w i * x i) [0..<m]) \<and> sum_list (map (\<lambda>i. w i * x i) [0..<m]) \<le> hi"
proof -
  have s: "(\<Sum>i\<in>{0..<m}. w i) = 1" using assms(2) by (simp add: interv_sum_list_conv_sum_set_nat)
  have "(\<Sum>i\<in>{0..<m}. w i * lo) \<le> (\<Sum>i\<in>{0..<m}. w i * x i)"
    using assms(1,3) by (intro sum_mono mult_left_mono) auto
  moreover have "(\<Sum>i\<in>{0..<m}. w i * x i) \<le> (\<Sum>i\<in>{0..<m}. w i * hi)"
    using assms(1,3) by (intro sum_mono mult_left_mono) auto
  ultimately show ?thesis
    by (simp add: interv_sum_list_conv_sum_set_nat sum_distrib_right [symmetric] s)
qed

lemma S1_single [simp]: "S1 [u] = u"
  by (simp add: S1_def coord_def)

lemma BEZIER_bounds:
  assumes "cps \<noteq> []" and "0 \<le> S1 p" and "S1 p \<le> 1" and "j < length (hd cps)"
    and "list_all (\<lambda>c. lo \<le> coord c j \<and> coord c j \<le> hi) cps"
  shows "lo \<le> BEZIER S1 cps p ! j \<and> BEZIER S1 cps p ! j \<le> hi"
proof -
  obtain n where n: "length cps = Suc n" using assms(1) by (cases cps) auto
  have "lo \<le> sum_list (map (\<lambda>i. bernstein n i (S1 p) * coord (cps ! i) j) [0..<Suc n])
      \<and> sum_list (map (\<lambda>i. bernstein n i (S1 p) * coord (cps ! i) j) [0..<Suc n]) \<le> hi"
    using assms(5) n by (intro convex_combination_bounds)
      (auto simp: bernstein_nonneg assms(2,3) bernstein_sum list_all_iff simp del: upt_Suc)
  then show ?thesis
    using assms(4) n by (simp add: BEZIER_def del: upt_Suc)
qed

lemma control_points_eval:
  "wheelSectionControlPoints = Inr [[0, 0], [0.4, 16 / 3], [7.6, 16 / 3], [8, 0]]"
  "bumperSideControlPoints = Inr [[0.2, 0.9], [-0.3, 1.65], [-0.3, 2.4]]"
  by (simp_all add: wheelSectionControlPoints_def bumperSideControlPoints_def AAPOINTS_eq
      wheelSection_unit_def PROD_num_def SUM_num_def upt_rec)

lemma rect_append: "in_rect a b c d h1 \<Longrightarrow> in_rect a b c d h2 \<Longrightarrow> in_rect a b c d (h1 @ h2)"
  by (simp add: in_rect_def)

lemma rect_POLYLINE:
  "list_all (\<lambda>p. length p = 2 \<and> a \<le> p ! 0 \<and> p ! 0 \<le> b \<and> c \<le> p ! 1 \<and> p ! 1 \<le> d) ps
     \<Longrightarrow> in_rect a b c d (POLYLINE ps)"
proof -
  assume ps: "list_all (\<lambda>p. length p = 2 \<and> a \<le> p ! 0 \<and> p ! 0 \<le> b \<and> c \<le> p ! 1 \<and> p ! 1 \<le> d) ps"
  have "set (tl ps) \<subseteq> set ps" by (cases ps) auto
  with ps show ?thesis
    by (fastforce simp: in_rect_def POLYLINE_def list_all_iff dest: set_zip_leftD set_zip_rightD)
qed

lemma rect_bezier:
  assumes "cps \<noteq> []" and "length (hd cps) = 2"
    and "list_all (\<lambda>p. a \<le> coord p 0 \<and> coord p 0 \<le> b \<and> c \<le> coord p 1 \<and> coord p 1 \<le> d) cps"
  shows "in_rect a b c d (MAP (BEZIER S1 cps) domain1D)"
proof -
  have "MAP (BEZIER S1 cps) domain1D
      = POLYLINE (map (\<lambda>k. BEZIER S1 cps [real k * (1 / real_of_int 24)]) [0..<Suc (nat 24)])"
    unfolding domain1D_def by (rule MAP_INTERVALS) simp_all
  moreover have "length (BEZIER S1 cps [u]) = 2 \<and> a \<le> BEZIER S1 cps [u] ! 0 \<and> BEZIER S1 cps [u] ! 0 \<le> b
      \<and> c \<le> BEZIER S1 cps [u] ! 1 \<and> BEZIER S1 cps [u] ! 1 \<le> d" if "0 \<le> u" "u \<le> 1" for u
    using BEZIER_bounds [OF assms(1), of "[u]" 0 a b] BEZIER_bounds [OF assms(1), of "[u]" 1 c d] that assms
    by (auto simp: list_all_iff BEZIER_def Let_def)
  ultimately show ?thesis
    by (auto intro!: rect_POLYLINE simp: list_all_iff simp del: upt_Suc)
qed

lemma rect_T1:
  assumes "k = 1" and "in_rect (a - t) (b - t) c d h"
  shows "in_rect a b c d (hpc_map (T [k] [t]) h)"
proof -
  have "T [1] [t] [x, y] = [x + t, y]" for x y by (simp add: T_def set_coord_def pad_def coord_def)
  with assms show ?thesis
    by (fastforce simp: in_rect_def hpc_map_def list_all_iff dest!: len2_cases)
qed

lemma rect_T12:
  assumes "k1 = 1" and "k2 = 2" and "in_rect (a - s) (b - s) (c - t) (d - t) h"
  shows "in_rect a b c d (hpc_map (T [k1, k2] [s, t]) h)"
proof -
  have "T [1, 2] [s, t] [x, y] = [x + s, y + t]" for x y by (rule T_12_plane)
  with assms show ?thesis
    by (fastforce simp: in_rect_def hpc_map_def list_all_iff dest!: len2_cases)
qed

lemma rect_comp: "in_rect a b c d (hpc_map f (hpc_map g h)) \<Longrightarrow> in_rect a b c d (hpc_map (f \<circ> g) h)"
  by simp

lemma side_rect: "\<exists>h. side = Inr h \<and> in_rect (-15.1) 30.5 (-2) 8.5 h"
  apply (simp add: side_def wheelsSide_def frotWheelSide_def rearWheelSide_def bumperSide_def
      fenderSide_def roofSide_def glassSide_def backSide_def bottomSide_def control_points_eval STRUCT_def)
  apply (rule rect_append rect_T1 rect_T12 rect_comp rect_POLYLINE rect_bezier
      | simp add: side_data_defs coord_def del: hpc_map_comp)+
  done

section \<open>The side outline is closed\<close>

text \<open>
  C21: the side view of the car is a closed outline: every point is a vertex of an even
  number of the segments of \<open>side\<close> (counted with multiplicity), so the wheel arches,
  the bumper, the fender, the glass, the roof, the back and the bottom line join end to
  end with no loose end.
\<close>

theorem side_closed: "\<exists>h. side = Inr h \<and> (\<forall>v. even (count (mset (concat h)) v))"
proof -
  let ?F = "{#[-9, 0], [-1, 0], [-8.9, -1.5], [-1, -2], [18, 0], [26, 0], [18, -2], [-14.2, -0.6],
     [-14.7, 0.9], [-15.1, 1.4], [-1, 5.1], [5.2, 8], [22, 6], [30.5, 5 :: real]#}"
  have "\<exists>h. side = Inr h \<and> chain_ends h (?F + ?F)"
    apply (simp add: side_def wheelsSide_def frotWheelSide_def rearWheelSide_def bumperSide_def
        fenderSide_def roofSide_def glassSide_def backSide_def bottomSide_def control_points_eval STRUCT_def)
    apply (rule chain_ends_mset_eq)
     apply (rule chain_ends_append chain_ends_hpc_map chain_ends_POLYLINE chain_ends_bezier
        | simp add: side_data_defs)+
    apply (simp add: side_data_defs T_def set_coord_def pad_def coord_def add_mset_commute)
    done
  then show ?thesis using chain_ends_even by blast
qed

text \<open>
  C22: the side view fits in the rectangle \<open>-15.1 \<le> x \<le> 30.5\<close>,
  \<open>-2 \<le> y \<le> 8.5\<close>: the Bezier arcs stay in the hull of their control points, and
  every piece, moved into place, lies in the box of the car's extreme control points.
\<close>

theorem side_bounds: "\<exists>h. side = Inr h \<and> in_rect (-15.1) 30.5 (-2) 8.5 h"
  by (rule side_rect)

end
