(* ===== verification/CarViews.thy ===== *)
theory CarViews
  imports CarSide
begin

text \<open>
  The up, back and front views of the car and their assembly \<open>exercise2\<close> in
  \<open>src/2013-05-10/python/exercise3.py\<close> (lines 101--118). Each view is a uniform cubic
  B-spline (\<open>SPLINE(CUBICUBSPLINE(domain1D))\<close>) through a mirrored control-point list,
  with the two \<open>sideUp\<close> polylines and the front vent. Python's \<open>back\<close> is
  \<open>back_view\<close> here, because \<open>back\<close> is a keyword of Isabelle. The lemmas show that
  consecutive spline segments join (\<open>ubs_join\<close>), so a spline is a chain from the
  point its first four control points give at 0 to the point its last four give at 1; a
  tripled control point is such an end point. From this each view is a closed outline,
  and \<open>exercise2\<close> puts each view in its plane.
\<close>

section \<open>Definitions\<close>

definition frontUp :: "hpc result" where
  "frontUp = rbind frontUpControlPoints (SPLINE (CUBICUBSPLINE domain1D))"

definition rearUp :: "hpc result" where
  "rearUp = rbind rearUpControlPoints (SPLINE (CUBICUBSPLINE domain1D))"

definition up :: "hpc result" where
  "up = rbind (traverse id [frontUp, sideUp, rearUp]) (\<lambda>hs. STRUCT (map Obj hs))"

definition back_view :: "hpc result" where
  "back_view = rbind backViewControlPoints (SPLINE (CUBICUBSPLINE domain1D))"

definition front :: "hpc result" where
  "front = rbind frontViewControlPoints
     (\<lambda>cps. rbind (SPLINE (CUBICUBSPLINE domain1D) cps) (\<lambda>s. STRUCT [Obj s, Obj frontVent]))"

definition exercise2 :: "hpc result" where
  "exercise2 = rbind (traverse id [side, up, back_view, front])
     (\<lambda>hs. STRUCT [Obj (hpc_map (R (2, 3) (pi / 2)) (hpc_map (T [1, 2] [15.5 - 22.8, 2]) (hs ! 0))),
        Obj (hpc_map (T [1] [-22.8]) (hs ! 1)),
        Obj (hpc_map (R (1, 2) (pi / 2)) (hpc_map (R (2, 3) (pi / 2)) (hpc_map (T [3] [22.8]) (hs ! 2)))),
        Obj (hpc_map (R (1, 2) (pi / 2)) (hpc_map (R (2, 3) (pi / 2)) (hpc_map (T [3] [-22.8]) (hs ! 3))))])"

section \<open>Lemmas\<close>

lemma ubs_join:
  assumes "length a = length b"
  shows "ubs_point [a, b, c, d] 1 = ubs_point [b, c, d, e] 0"
  using assms by (simp add: ubs_point_def ubs_basis_def algebra_simps)

lemma chain_ends_cancel:
  assumes "chain_ends h (E + {#x, x#})"
  shows "chain_ends h E"
proof -
  obtain M where M: "mset (concat h) + E + {#x, x#} = M + M"
    using assms by (auto simp: chain_ends_def add.assoc)
  then have "x \<in># M + M" by (metis add_mset_add_single union_iff union_single_eq_member)
  then have "x \<in># M" by auto
  then obtain M' where "M = add_mset x M'" by (metis insert_DiffM)
  with M have "mset (concat h) + E = M' + M'" by simp
  then show ?thesis unfolding chain_ends_def by blast
qed

lemma chain_ends_segment:
  "chain_ends (CUBICUBSPLINE domain1D W) {#ubs_point W 0, ubs_point W 1#}"
proof -
  let ?ps = "map (\<lambda>k. ubs_point W (real k * (1 / real_of_int 24))) [0..<Suc (nat 24)]"
  have "CUBICUBSPLINE domain1D W = POLYLINE ?ps"
    unfolding CUBICUBSPLINE_def domain1D_def
    by (subst MAP_INTERVALS) (simp_all add: coord_def)
  moreover have "hd ?ps = ubs_point W 0" "last ?ps = ubs_point W 1"
    by (simp_all del: upt_Suc add: upt_conv_Cons)
  ultimately show ?thesis using chain_ends_POLYLINE [of ?ps] by simp
qed

lemma SPLINE_segments:
  assumes "4 \<le> length P"
  shows "SPLINE c P = Inr (concat (map (\<lambda>i. c (take 4 (drop i P))) [0..<length P - 3]))"
  using assms by (simp add: SPLINE_def STRUCT_def comp_def nat_diff_distrib)

lemma spline_chain:
  assumes "4 \<le> length P" and "\<forall>p \<in> set P. length p = d"
  shows "chain_ends (concat (map (\<lambda>i. CUBICUBSPLINE domain1D (take 4 (drop i P))) [0..<length P - 3]))
           {#ubs_point (take 4 P) 0, ubs_point (drop (length P - 4) P) 1#}"
  using assms
proof (induction P)
  case Nil
  then show ?case by simp
next
  case (Cons x Q)
  show ?case
  proof (cases "4 \<le> length Q")
    case False
    with Cons.prems have "length Q = 3" by simp
    then show ?thesis using chain_ends_segment [of "x # Q"] by simp
  next
    case True
    then obtain a b c e R where Q: "Q = a # b # c # e # R"
      by (auto simp: numeral_eq_Suc Suc_le_length_iff)
    have IH: "chain_ends (concat (map (\<lambda>i. CUBICUBSPLINE domain1D (take 4 (drop i Q))) [0..<length Q - 3]))
        {#ubs_point (take 4 Q) 0, ubs_point (drop (length Q - 4) Q) 1#}"
      using Cons.IH True Cons.prems(2) by simp
    have "length (x # Q) - 3 = Suc (length Q - 3)"
      using True by simp
    then have ups: "[0..<length (x # Q) - 3] = 0 # map Suc [0..<length Q - 3]"
      by (simp only: upt_conv_Cons [OF zero_less_Suc] map_Suc_upt)
    have join: "ubs_point [x, a, b, c] 1 = ubs_point [a, b, c, e] 0"
      using Cons.prems(2) Q by (intro ubs_join) simp
    have "length (x # Q) - 4 = Suc (length Q - 4)"
      using True by simp
    then have drop: "drop (length (x # Q) - 4) (x # Q) = drop (length Q - 4) Q"
      by (simp only: drop_Suc_Cons)
    have tq: "take 4 Q = [a, b, c, e]"
      by (simp add: Q)
    have seg: "chain_ends (CUBICUBSPLINE domain1D (take 4 (x # Q)))
        {#ubs_point (take 4 (x # Q)) 0, ubs_point [a, b, c, e] 0#}"
      using chain_ends_segment [of "take 4 (x # Q)"] by (simp add: Q join)
    let ?rest = "concat (map (\<lambda>i. CUBICUBSPLINE domain1D (take 4 (drop i Q))) [0..<length Q - 3])"
    have "chain_ends (CUBICUBSPLINE domain1D (take 4 (x # Q)) @ ?rest)
        ({#ubs_point (take 4 (x # Q)) 0, ubs_point [a, b, c, e] 0#}
          + {#ubs_point [a, b, c, e] 0, ubs_point (drop (length Q - 4) Q) 1#})"
      using chain_ends_append [OF seg IH [unfolded tq]] .
    then have "chain_ends (CUBICUBSPLINE domain1D (take 4 (x # Q)) @ ?rest)
        ({#ubs_point (take 4 (x # Q)) 0, ubs_point (drop (length Q - 4) Q) 1#}
          + {#ubs_point [a, b, c, e] 0, ubs_point [a, b, c, e] 0#})"
      by (rule chain_ends_mset_eq) (simp add: add_mset_commute)
    then have "chain_ends (CUBICUBSPLINE domain1D (take 4 (x # Q)) @ ?rest)
        {#ubs_point (take 4 (x # Q)) 0, ubs_point (drop (length Q - 4) Q) 1#}"
      by (rule chain_ends_cancel)
    then show ?thesis
      by (simp only: ups drop list.map concat.simps map_map comp_def drop_Suc_Cons drop_0)
  qed
qed

lemma spline_dim:
  assumes "\<forall>p \<in> set P. length p = d"
  shows "list_all (list_all (\<lambda>q. length q = d))
           (concat (map (\<lambda>i. CUBICUBSPLINE D (take 4 (drop i P))) [0..<length P - 3]))"
  using assms by (auto simp: list_all_iff CUBICUBSPLINE_def MAP_def hpc_map_def ubs_point_def hd_drop_conv_nth)

lemma SPLINE_chain_ends:
  assumes "4 \<le> length P" and "\<forall>p \<in> set P. length p = d"
    and "ubs_point (take 4 P) 0 = a" and "ubs_point (drop (length P - 4) P) 1 = b"
  shows "\<exists>h. SPLINE (CUBICUBSPLINE domain1D) P = Inr h \<and> chain_ends h {#a, b#}
           \<and> list_all (list_all (\<lambda>q. length q = d)) h"
  using SPLINE_segments [OF assms(1)] spline_chain [OF assms(1,2)] spline_dim [OF assms(2)] assms(3,4)
  by simp

lemma frontUp_chain: "\<exists>h. frontUp = Inr h \<and> chain_ends h {#[14, 9.5], [14, -9.5]#} \<and> list_all (list_all (\<lambda>q. length q = 2)) h"
  unfolding frontUp_def frontUpControlPoints_def frontUp_eval rbind_Inr
  by (rule SPLINE_chain_ends) (simp_all add: frontUp_profile_def reflect_point_def ubs_point_def ubs_basis_def coord_def)

lemmas ubs_eval = reflect_point_def ubs_point_def ubs_basis_def coord_def

lemma rearUp_chain: "\<exists>h. rearUp = Inr h \<and> chain_ends h {#[29, 9.8], [29, -9.8]#} \<and> list_all (list_all (\<lambda>q. length q = 2)) h"
  unfolding rearUp_def rearUpControlPoints_def
  by (simp add: AAPOINTS_eq MIRROR_eq rearUp_profile_def SUM_num_def)
    (rule SPLINE_chain_ends; simp add: ubs_eval)

lemma sideUp_chain:
  "\<exists>h. sideUp = Inr h \<and> chain_ends h ({#[14, 9.5], [29, 9.8]#} + {#[14, -9.5], [29, -9.8]#}) \<and> list_all (list_all (\<lambda>q. length q = 2)) h"
  apply (simp add: sideUp_def sideUpLinePoints2_def sideUpLinePoints1_def AAPOINTS_eq PROD_num_def STRUCT_def)
  apply (intro conjI)
    apply (rule chain_ends_mset_eq)
     apply (rule chain_ends_append chain_ends_POLYLINE | simp)+
   apply (simp_all add: POLYLINE_def)
  done

lemma back_chain: "\<exists>h. back_view = Inr h \<and> chain_ends h {#[0, 2.2], [0, 2.2]#} \<and> list_all (list_all (\<lambda>q. length q = 2)) h"
  unfolding back_view_def backViewControlPoints_def
  by (simp add: MIRROR_eq backView_profile_def) (rule SPLINE_chain_ends; simp add: ubs_eval)

lemma front_chain:
  "\<exists>h. front = Inr h \<and> chain_ends h ({#[0, 0], [0, 0]#} + {#[-5, 2.6], [-5, 2.6]#}) \<and> list_all (list_all (\<lambda>q. length q = 2)) h"
proof -
  have "\<exists>s. SPLINE (CUBICUBSPLINE domain1D) (frontView_profile @ rev (map (reflect_point 0) frontView_profile)) = Inr s
      \<and> chain_ends s {#[0, 0], [0, 0]#} \<and> list_all (list_all (\<lambda>q. length q = 2)) s"
    by (rule SPLINE_chain_ends) (simp_all add: frontView_profile_def ubs_eval)
  then obtain s where s: "SPLINE (CUBICUBSPLINE domain1D) (frontView_profile @ rev (map (reflect_point 0) frontView_profile)) = Inr s"
      "chain_ends s {#[0, 0], [0, 0]#}" "list_all (list_all (\<lambda>q. length q = 2)) s"
    by blast
  have vent: "chain_ends frontVent {#[-5, 2.6], [-5, 2.6]#}"
    unfolding frontVent_def by (rule chain_ends_POLYLINE [THEN chain_ends_mset_eq]) simp_all
  have mirror: "frontViewControlPoints = Inr (frontView_profile @ rev (map (reflect_point 0) frontView_profile))"
    by (simp add: frontViewControlPoints_def MIRROR_Inr_iff frontView_profile_def)
  have "chain_ends (s @ frontVent) ({#[0, 0], [0, 0]#} + {#[-5, 2.6], [-5, 2.6]#})"
    by (rule chain_ends_append [OF s(2) vent])
  then show ?thesis
    using s(3) by (simp add: front_def mirror s(1) STRUCT_def frontVent_def POLYLINE_def)
qed

lemma up_chain:
  "\<exists>h. up = Inr h \<and> chain_ends h ({#[14, 9.5], [14, -9.5], [29, 9.8], [29, -9.8]#}
     + {#[14, 9.5], [14, -9.5], [29, 9.8], [29, -9.8]#}) \<and> list_all (list_all (\<lambda>q. length q = 2)) h"
proof -
  obtain a where a: "frontUp = Inr a" "chain_ends a {#[14, 9.5], [14, -9.5]#}"
      "list_all (list_all (\<lambda>q. length q = 2)) a"
    using frontUp_chain by blast
  obtain b where b: "sideUp = Inr b" "chain_ends b ({#[14, 9.5], [29, 9.8]#} + {#[14, -9.5], [29, -9.8]#})"
      "list_all (list_all (\<lambda>q. length q = 2)) b"
    using sideUp_chain by blast
  obtain c where c: "rearUp = Inr c" "chain_ends c {#[29, 9.8], [29, -9.8]#}"
      "list_all (list_all (\<lambda>q. length q = 2)) c"
    using rearUp_chain by blast
  have "chain_ends (a @ b @ c) ({#[14, 9.5], [14, -9.5]#}
      + (({#[14, 9.5], [29, 9.8]#} + {#[14, -9.5], [29, -9.8]#}) + {#[29, 9.8], [29, -9.8]#}))"
    using chain_ends_append [OF a(2) chain_ends_append [OF b(2) c(2)]] .
  then have "chain_ends (a @ b @ c) ({#[14, 9.5], [14, -9.5], [29, 9.8], [29, -9.8]#}
      + {#[14, 9.5], [14, -9.5], [29, 9.8], [29, -9.8]#})"
    by (rule chain_ends_mset_eq) (simp add: add_mset_commute)
  with a(3) b(3) c(3) show ?thesis by (simp add: up_def STRUCT_def a(1) b(1) c(1))
qed

lemma place_side:
  assumes "length p = 2"
  shows "R (2, 3) (pi / 2) (T [1, 2] [a, b] p) = [p ! 0 + a, 0, p ! 1 + b]"
proof -
  obtain x y where p: "p = [x, y]" using len2_cases [OF assms] by blast
  show ?thesis unfolding p T_12_plane by (simp add: R_def coord_def set_coord_def pad_def)
qed

lemma place_up: "length p = 2 \<Longrightarrow> T [1] [a] p = [p ! 0 + a, p ! 1]"
  by (auto dest!: len2_cases simp: T_def coord_def set_coord_def pad_def)

lemma place_end: "length p = 2 \<Longrightarrow> R (1, 2) (pi / 2) (R (2, 3) (pi / 2) (T [3] [c] p)) = [c, p ! 0, p ! 1]"
  by (auto dest!: len2_cases simp: T_def R_def coord_def set_coord_def pad_def)

lemma hpc_map_planar:
  assumes "list_all (list_all (\<lambda>q. length q = 2)) h" and "\<And>p. length p = 2 \<Longrightarrow> f p = g p"
  shows "hpc_map f h = map (map g) h"
  using assms by (auto simp: hpc_map_def list_all_iff)

lemma in_rect_planar: "in_rect x0 x1 y0 y1 h \<Longrightarrow> list_all (list_all (\<lambda>q. length q = 2)) h"
  by (auto simp: in_rect_def list_all_iff)

lemma ubs_basis_nonneg:
  assumes "0 \<le> t" and "t \<le> 1" and "i < 4"
  shows "0 \<le> ubs_basis t ! i"
proof -
  have "0 \<le> (1 - t) ^ 3" using assms(2) by simp
  moreover have "- (t ^ 3) + 3 * t\<^sup>2 - 3 * t + 1 = (1 - t) ^ 3"
    by (simp add: power3_eq_cube power2_eq_square algebra_simps)
  moreover have "3 * t ^ 3 - 6 * t\<^sup>2 + 4 = 1 + 3 * (1 - t) + 3 * (1 - t)\<^sup>2 * t"
    by (simp add: power3_eq_cube power2_eq_square algebra_simps)
  moreover have "0 \<le> 1 + 3 * (1 - t) + 3 * (1 - t)\<^sup>2 * t" using assms(1,2) by simp
  moreover have "- 3 * t ^ 3 + 3 * t\<^sup>2 + 3 * t + 1 = 3 * t\<^sup>2 * (1 - t) + 3 * t + 1"
    by (simp add: power3_eq_cube power2_eq_square algebra_simps)
  moreover have "0 \<le> 3 * t\<^sup>2 * (1 - t) + 3 * t + 1" using assms(1,2) by simp
  moreover have "0 \<le> t ^ 3" using assms(1) by simp
  ultimately show ?thesis
    using assms(3) by (auto simp: ubs_basis_def less_Suc_eq numeral_eq_Suc)
qed

lemma ubs_basis_sum: "sum_list (ubs_basis t) = 1"
  by (simp add: ubs_basis_def field_simps)

lemma ubs_point_bounds:
  assumes "W = [a, b, c, d]" and "0 \<le> t" and "t \<le> 1" and "j < length a"
    and "list_all (\<lambda>p. lo \<le> coord p j \<and> coord p j \<le> hi) W"
  shows "lo \<le> ubs_point W t ! j \<and> ubs_point W t ! j \<le> hi"
proof -
  obtain w0 w1 w2 w3 where w: "ubs_basis t = [w0, w1, w2, w3]" unfolding ubs_basis_def by blast
  have u4: "[0..<4] = [0, 1, 2, 3 :: nat]" by (simp add: upt_rec)
  have "lo \<le> sum_list (map (\<lambda>i. ubs_basis t ! i * coord (W ! i) j) [0..<4])
      \<and> sum_list (map (\<lambda>i. ubs_basis t ! i * coord (W ! i) j) [0..<4]) \<le> hi"
  proof (rule convex_combination_bounds)
    show "0 \<le> ubs_basis t ! i" if "i < 4" for i using ubs_basis_nonneg [OF assms(2,3) that] .
    show "sum_list (map (\<lambda>i. ubs_basis t ! i) [0..<4]) = 1"
      using ubs_basis_sum [of t] by (simp add: w u4)
    show "lo \<le> coord (W ! i) j \<and> coord (W ! i) j \<le> hi" if "i < 4" for i
      using assms(1,5) that by (auto simp: less_Suc_eq numeral_eq_Suc)
  qed
  moreover have "ubs_point W t ! j = sum_list (map (\<lambda>i. ubs_basis t ! i * coord (W ! i) j) [0..<4])"
    using assms(1,4) by (simp add: ubs_point_def w u4)
  ultimately show ?thesis by simp
qed

lemma rect_ubs_segment:
  assumes "length W = 4"
    and "list_all (\<lambda>p. length p = 2 \<and> a \<le> p ! 0 \<and> p ! 0 \<le> b \<and> c \<le> p ! 1 \<and> p ! 1 \<le> d) W"
  shows "in_rect a b c d (CUBICUBSPLINE domain1D W)"
proof -
  obtain p0 p1 p2 p3 where W: "W = [p0, p1, p2, p3]"
    using assms(1) by (auto simp: length_Suc_conv numeral_eq_Suc)
  have cw: "list_all (\<lambda>p. lo \<le> coord p j \<and> coord p j \<le> hi) W"
    if "j < 2" "list_all (\<lambda>p. length p = 2 \<and> lo \<le> p ! j \<and> p ! j \<le> hi) W" for j lo hi
    using that by (auto simp: list_all_iff coord_def)
  have l2: "length p0 = 2" using assms(2) by (simp add: W)
  have "length (ubs_point W t) = 2 \<and> a \<le> ubs_point W t ! 0 \<and> ubs_point W t ! 0 \<le> b
      \<and> c \<le> ubs_point W t ! 1 \<and> ubs_point W t ! 1 \<le> d" if "0 \<le> t" "t \<le> 1" for t
  proof -
    have "a \<le> ubs_point W t ! 0 \<and> ubs_point W t ! 0 \<le> b"
      by (rule ubs_point_bounds [OF W that]) (use l2 cw [of 0 a b] assms(2) in \<open>auto simp: list_all_iff\<close>)
    moreover have "c \<le> ubs_point W t ! 1 \<and> ubs_point W t ! 1 \<le> d"
      by (rule ubs_point_bounds [OF W that]) (use l2 cw [of 1 c d] assms(2) in \<open>auto simp: list_all_iff\<close>)
    moreover have "length (ubs_point W t) = 2" by (simp add: ubs_point_def W l2)
    ultimately show ?thesis by simp
  qed
  moreover have "CUBICUBSPLINE domain1D W
      = POLYLINE (map (\<lambda>k. ubs_point W (real k * (1 / real_of_int 24))) [0..<Suc (nat 24)])"
    unfolding CUBICUBSPLINE_def domain1D_def by (subst MAP_INTERVALS) (simp_all add: coord_def)
  ultimately show ?thesis
    by (auto intro!: rect_POLYLINE simp: list_all_iff simp del: upt_Suc)
qed

lemma rect_SPLINE:
  assumes "4 \<le> length P"
    and "list_all (\<lambda>p. length p = 2 \<and> a \<le> p ! 0 \<and> p ! 0 \<le> b \<and> c \<le> p ! 1 \<and> p ! 1 \<le> d) P"
  shows "\<exists>h. SPLINE (CUBICUBSPLINE domain1D) P = Inr h \<and> in_rect a b c d h"
proof -
  have "in_rect a b c d (CUBICUBSPLINE domain1D (take 4 (drop i P)))" if "i < length P - 3" for i
  proof (rule rect_ubs_segment)
    show "length (take 4 (drop i P)) = 4" using that by simp
    show "list_all (\<lambda>p. length p = 2 \<and> a \<le> p ! 0 \<and> p ! 0 \<le> b \<and> c \<le> p ! 1 \<and> p ! 1 \<le> d) (take 4 (drop i P))"
      using assms(2) by (auto simp: list_all_iff dest: in_set_takeD in_set_dropD)
  qed
  then have "in_rect a b c d (concat (map (\<lambda>i. CUBICUBSPLINE domain1D (take 4 (drop i P))) [0..<length P - 3]))"
    by (auto simp: in_rect_def list_all_iff)
  with SPLINE_segments [OF assms(1)] show ?thesis by simp
qed

lemma frontUp_rect: "\<exists>h. frontUp = Inr h \<and> in_rect 0 46.3 (-10) 10 h"
  unfolding frontUp_def frontUpControlPoints_def frontUp_eval rbind_Inr
  by (rule rect_SPLINE) (simp_all add: frontUp_profile_def reflect_point_def)

lemma rearUp_rect: "\<exists>h. rearUp = Inr h \<and> in_rect 0 46.3 (-10) 10 h"
  unfolding rearUp_def rearUpControlPoints_def
  by (simp add: AAPOINTS_eq MIRROR_eq rearUp_profile_def SUM_num_def)
    (rule rect_SPLINE; simp add: reflect_point_def)

lemma sideUp_rect: "\<exists>h. sideUp = Inr h \<and> in_rect 0 46.3 (-10) 10 h"
  apply (simp add: sideUp_def sideUpLinePoints2_def sideUpLinePoints1_def AAPOINTS_eq PROD_num_def STRUCT_def)
  apply (rule rect_append rect_POLYLINE | simp)+
  done

lemma back_rect: "\<exists>h. back_view = Inr h \<and> in_rect (-10.5) 10.5 0 8.5 h"
  unfolding back_view_def backViewControlPoints_def
  by (simp add: MIRROR_eq backView_profile_def) (rule rect_SPLINE; simp add: reflect_point_def)

lemma front_rect: "\<exists>h. front = Inr h \<and> in_rect (-10.7) 10.7 (-0.3) 9.7 h"
proof -
  have mirror: "frontViewControlPoints = Inr (frontView_profile @ rev (map (reflect_point 0) frontView_profile))"
    by (simp add: frontViewControlPoints_def MIRROR_Inr_iff frontView_profile_def)
  have "\<exists>s. SPLINE (CUBICUBSPLINE domain1D) (frontView_profile @ rev (map (reflect_point 0) frontView_profile)) = Inr s
      \<and> in_rect (-10.7) 10.7 (-0.3) 9.7 s"
    by (rule rect_SPLINE) (simp_all add: frontView_profile_def reflect_point_def)
  then obtain s where s: "SPLINE (CUBICUBSPLINE domain1D) (frontView_profile @ rev (map (reflect_point 0) frontView_profile)) = Inr s"
      "in_rect (-10.7) 10.7 (-0.3) 9.7 s"
    by blast
  have "in_rect (-10.7) 10.7 (-0.3) 9.7 frontVent"
    unfolding frontVent_def by (rule rect_POLYLINE) simp
  with s show ?thesis by (simp add: front_def mirror STRUCT_def rect_append)
qed

section \<open>Properties of the views\<close>

text \<open>
  C28: the up, back and front views are closed outlines: each B-spline passes through its
  tripled end control points and its segments join end to end, so in each view every point
  is a vertex of an even number of segments. The up view's two splines are joined by the
  two \<open>sideUp\<close> polylines, the back view's spline starts and ends at \<open>[0, 2.2]\<close>, and
  the front view's spline starts and ends at the origin, beside the closed vent.
\<close>

theorem views_closed:
  "\<exists>hu hb hf. up = Inr hu \<and> back_view = Inr hb \<and> front = Inr hf \<and>
     (\<forall>v. even (count (mset (concat hu)) v) \<and> even (count (mset (concat hb)) v)
        \<and> even (count (mset (concat hf)) v))"
proof -
  obtain hu where u: "up = Inr hu" "chain_ends hu ({#[14, 9.5], [14, -9.5], [29, 9.8], [29, -9.8]#}
      + {#[14, 9.5], [14, -9.5], [29, 9.8], [29, -9.8]#})"
    using up_chain by blast
  obtain hb where b: "back_view = Inr hb" "chain_ends hb {#[0, 2.2], [0, 2.2]#}"
    using back_chain by blast
  obtain hf where f: "front = Inr hf" "chain_ends hf ({#[0, 0], [0, 0]#} + {#[-5, 2.6], [-5, 2.6]#})"
    using front_chain by blast
  have "even (count (mset (concat hb)) v)" for v
    using chain_ends_even [OF b(2), of "{#[0, 2.2]#}"] by simp
  moreover have "even (count (mset (concat hf)) v)" for v
    using chain_ends_even [OF f(2), of "{#[0, 0], [-5, 2.6]#}"] by (simp add: add_mset_commute)
  moreover have "even (count (mset (concat hu)) v)" for v
    using chain_ends_even [OF u(2)] by blast
  ultimately show ?thesis using u(1) b(1) f(1) by blast
qed

text \<open>
  C29: every vertex of the three planar views lies in the box its control points span,
  because a uniform cubic B-spline point is a convex combination of its four control points:
  the up view lies in \<open>[0, 46.3] \<times> [-10, 10]\<close>, the back view in
  \<open>[-10.5, 10.5] \<times> [0, 8.5]\<close> and the front view, vent included, in
  \<open>[-10.7, 10.7] \<times> [-0.3, 9.7]\<close>; so each view fits the face of the car's box
  \<open>exercise2\<close> puts it on.
\<close>

theorem views_bounds:
  "\<exists>hu hb hf. up = Inr hu \<and> back_view = Inr hb \<and> front = Inr hf \<and>
     in_rect 0 46.3 (-10) 10 hu \<and> in_rect (-10.5) 10.5 0 8.5 hb \<and> in_rect (-10.7) 10.7 (-0.3) 9.7 hf"
proof -
  obtain a b c where e: "frontUp = Inr a" "sideUp = Inr b" "rearUp = Inr c"
    and r: "in_rect 0 46.3 (-10) 10 a" "in_rect 0 46.3 (-10) 10 b" "in_rect 0 46.3 (-10) 10 c"
    using frontUp_rect sideUp_rect rearUp_rect by blast
  have "up = Inr (a @ b @ c)" by (simp add: up_def STRUCT_def e)
  moreover have "in_rect 0 46.3 (-10) 10 (a @ b @ c)" using r by (intro rect_append)
  ultimately show ?thesis using back_rect front_rect by blast
qed

text \<open>
  C30: \<open>exercise2\<close> places the four planar views on four faces of the car's box: the
  side view stands in the plane \<open>y = 0\<close>, moved by \<open>-7.3\<close> along x and \<open>2\<close> up; the
  up view stays in the plane \<open>z = 0\<close>, moved by \<open>-22.8\<close> along x; the back view
  stands in the plane \<open>x = 22.8\<close> and the front view in the plane \<open>x = -22.8\<close>, both
  with their x axis along y and their y axis along z.
\<close>

theorem exercise2_placement:
  "\<exists>hs hu hb hf. side = Inr hs \<and> up = Inr hu \<and> back_view = Inr hb \<and> front = Inr hf \<and>
     exercise2 = Inr (map (map (\<lambda>p. [p ! 0 - 7.3, 0, p ! 1 + 2])) hs
       @ map (map (\<lambda>p. [p ! 0 - 22.8, p ! 1])) hu
       @ map (map (\<lambda>p. [22.8, p ! 0, p ! 1])) hb
       @ map (map (\<lambda>p. [- 22.8, p ! 0, p ! 1])) hf)"
proof -
  obtain hs where s: "side = Inr hs" "list_all (list_all (\<lambda>q. length q = 2)) hs"
    using side_rect in_rect_planar by blast
  obtain hu where u: "up = Inr hu" "list_all (list_all (\<lambda>q. length q = 2)) hu"
    using up_chain by blast
  obtain hb where b: "back_view = Inr hb" "list_all (list_all (\<lambda>q. length q = 2)) hb"
    using back_chain by blast
  obtain hf where f: "front = Inr hf" "list_all (list_all (\<lambda>q. length q = 2)) hf"
    using front_chain by blast
  have e1: "hpc_map (R (2, 3) (pi / 2)) (hpc_map (T [1, 2] [15.5 - 22.8, 2]) hs)
      = map (map (\<lambda>p. [p ! 0 - 7.3, 0, p ! 1 + 2])) hs"
    unfolding hpc_map_comp by (rule hpc_map_planar [OF s(2)]) (simp only: comp_apply place_side, simp)
  have e2: "hpc_map (T [1] [-22.8]) hu = map (map (\<lambda>p. [p ! 0 - 22.8, p ! 1])) hu"
    by (rule hpc_map_planar [OF u(2)]) (simp only: place_up, simp)
  have e3: "hpc_map (R (1, 2) (pi / 2)) (hpc_map (R (2, 3) (pi / 2)) (hpc_map (T [3] [c]) h))
      = map (map (\<lambda>p. [c, p ! 0, p ! 1])) h" if "list_all (list_all (\<lambda>q. length q = 2)) h" for c h
    unfolding hpc_map_comp by (rule hpc_map_planar [OF that]) (simp only: comp_apply place_end)
  have ex: "exercise2 = Inr (hpc_map (R (2, 3) (pi / 2)) (hpc_map (T [1, 2] [15.5 - 22.8, 2]) hs)
      @ hpc_map (T [1] [-22.8]) hu
      @ hpc_map (R (1, 2) (pi / 2)) (hpc_map (R (2, 3) (pi / 2)) (hpc_map (T [3] [22.8]) hb))
      @ hpc_map (R (1, 2) (pi / 2)) (hpc_map (R (2, 3) (pi / 2)) (hpc_map (T [3] [-22.8]) hf)))"
    by (simp add: exercise2_def STRUCT_def s(1) u(1) b(1) f(1) del: hpc_map_comp)
  show ?thesis
    unfolding ex e1 e2 e3 [OF b(2)] e3 [OF f(2)] using s(1) u(1) b(1) f(1) by blast
qed

end
