(* ===== verification/WheelAssembly.thy ===== *)
theory WheelAssembly
  imports Wheel CarViews
begin

text \<open>
  The rest of exercise 3 in \<open>src/2013-05-10/python/exercise3.py\<close> (lines 143--160):
  the hub \<open>AWPol2\<close> and the tire, surfaces of revolution of Bezier profiles over the
  parameter domain \<open>surface_domain\<close>; the alloy wheel \<open>AWPol\<close>; the wheel scaled,
  turned upright and placed (\<open>wheelPositoned\<close>); its mirror image across the car
  (\<open>wheels12\<close>); the rear pair 28 units further (\<open>wheels\<close>); and the whole scene
  \<open>total\<close>. Python rebinds \<open>AWPol2\<close>: its first value is \<open>AWPol2_points\<close> of
  theory \<open>Wheel\<close>. \<open>COLOR\<close> keeps the geometry, and
  \<open>T(1)(28)\<close>, called with scalars, is pyplasm's \<open>T([1])([28])\<close>.
  \<open>ROTATIONALSURFACE\<close> raises unless the domain points are pairs and the profile
  points have three coordinates; the lemmas show that both hold here (\<open>surface_eq\<close>),
  so the surfaces are the revolved profiles, and bound the tire's distance to its axis.
\<close>

section \<open>Definitions\<close>

text \<open>
  Line 126 rebinds \<open>domain1D\<close> to a finer domain for exercise 3; no later line reads
  it (the surfaces name their domains), and the views of exercise 2 were already built
  with the first binding.
\<close>

definition domain1D_exercise3 :: hpc where
  "domain1D_exercise3 = INTERVALS 1 32"

definition AWPol2 :: "hpc result" where
  "AWPol2 = rbind AWPol2_points
     (\<lambda>pts. rbind surface_domain (\<lambda>d. MAP_result (ROTATIONALSURFACE (BEZIER S1 pts)) d))"

definition AWPol :: "hpc result" where
  "AWPol = rbind AWPol1 (\<lambda>a1. rbind AWPol2 (\<lambda>a2. STRUCT [Obj (hpc_map (T [3] [1.5]) a1), Obj a2]))"

definition tire :: "hpc result" where
  "tire = rbind tire1
     (\<lambda>pts. rbind surface_domain (\<lambda>d. MAP_result (ROTATIONALSURFACE (BEZIER S1 pts)) d))"

definition wheel :: "hpc result" where
  "wheel = rbind AWPol (\<lambda>a. rbind tire (\<lambda>t. STRUCT [Obj a, Obj (COLOR [0.3, 0.3, 0.3] t)]))"

definition wheelPositoned :: "hpc result" where
  "wheelPositoned = rbind wheel (\<lambda>w. Inr (hpc_map (T [1, 2, 3] [-5 - 7.3, -9, 2])
     (hpc_map (R (2, 3) (pi / 2)) (hpc_map (S [1, 2, 3] [0.4, 0.4, 0.4]) w))))"

definition wheels12 :: "hpc result" where
  "wheels12 = rbind wheelPositoned (\<lambda>w. STRUCT [Obj w, Obj (hpc_map (S [2] [-1]) w)])"

definition wheels :: "hpc result" where
  "wheels = rbind wheels12 (\<lambda>w. STRUCT [Obj w, Obj (hpc_map (T [1] [28]) w)])"

definition exercise3 :: "hpc result" where
  "exercise3 = wheels"

definition total :: "hpc result" where
  "total = rbind exercise2 (\<lambda>e2. rbind exercise3 (\<lambda>e3. STRUCT [Obj e2, Obj e3]))"

section \<open>Lemmas\<close>

lemma interval_step_bounds:
  assumes "k < nat n" and "0 < a"
  shows "0 \<le> real k * (a / real_of_int n) \<and> real k * (a / real_of_int n) \<le> a
    \<and> 0 \<le> real (Suc k) * (a / real_of_int n) \<and> real (Suc k) * (a / real_of_int n) \<le> a"
proof -
  have n: "real k \<le> real_of_int n" "real (Suc k) \<le> real_of_int n" "0 < real_of_int n"
    using assms(1) by linarith+
  have le: "real j * (a / real_of_int n) \<le> a" if "real j \<le> real_of_int n" for j
  proof -
    have "real j * (a / real_of_int n) \<le> real_of_int n * (a / real_of_int n)"
      using that assms(2) n(3) by (intro mult_right_mono) simp_all
    with n(3) show ?thesis by simp
  qed
  show ?thesis using le [OF n(1)] le [OF n(2)] assms(2) n(3) by simp
qed

lemma DOMAIN2D_INTERVALS_vertices:
  assumes "0 < n" and "0 < m" and "0 < a" and "0 < b"
  shows "\<exists>h. DOMAIN2D [INTERVALS a n, INTERVALS b m] = Inr h \<and>
     list_all (list_all (\<lambda>p. length p = 2 \<and> 0 \<le> p ! 0 \<and> p ! 0 \<le> a \<and> 0 \<le> p ! 1 \<and> p ! 1 \<le> b)) h"
proof -
  let ?B1 = "map (\<lambda>k. [(real k * (a / n), real (Suc k) * (a / n))]) [0..<nat n]"
  let ?B2 = "map (\<lambda>k. [(real k * (b / m), real (Suc k) * (b / m))]) [0..<nat m]"
  have P: "PROD2 (INTERVALS a n) (INTERVALS b m) = map box_cell [b1 @ b2. b1 \<leftarrow> ?B1, b2 \<leftarrow> ?B2]"
    by (simp only: INTERVALS_boxes assms PROD2_box_cells)
  have cells: "4 \<le> length c \<and> (\<forall>p\<in>set c. length p = 2 \<and> 0 \<le> p ! 0 \<and> p ! 0 \<le> a \<and> 0 \<le> p ! 1 \<and> p ! 1 \<le> b)"
    if "c \<in> set (PROD2 (INTERVALS a n) (INTERVALS b m))" for c
    using that assms interval_step_bounds [of _ n a] interval_step_bounds [of _ m b] unfolding P
    by auto
  have vert: "length (c ! i) = 2 \<and> 0 \<le> c ! i ! 0 \<and> c ! i ! 0 \<le> a \<and> 0 \<le> c ! i ! Suc 0 \<and> c ! i ! Suc 0 \<le> b"
    if "c \<in> set (PROD2 (INTERVALS a n) (INTERVALS b m))" and "i < 4" for c i
  proof -
    have "c ! i \<in> set c" using cells [OF that(1)] that(2) by (intro nth_mem) simp
    then show ?thesis using cells [OF that(1)] by simp
  qed
  have "list_all (\<lambda>c. 4 \<le> length c) (PROD2 (INTERVALS a n) (INTERVALS b m))"
    using cells by (simp add: list_all_iff)
  then show ?thesis
    by (auto simp: DOMAIN2D_eq traverse_tris list_all_iff vert)
qed

lemma revolve_bounds:
  assumes "0 \<le> r0" and "r0 \<le> f p ! 0" and "f p ! 0 \<le> r1"
    and "z0 \<le> f p ! 2" and "f p ! 2 \<le> z1"
  shows "length (revolve f p) = 3
    \<and> r0 \<le> sqrt ((revolve f p ! 0)\<^sup>2 + (revolve f p ! 1)\<^sup>2)
    \<and> sqrt ((revolve f p ! 0)\<^sup>2 + (revolve f p ! 1)\<^sup>2) \<le> r1
    \<and> z0 \<le> revolve f p ! 2 \<and> revolve f p ! 2 \<le> z1"
proof -
  have "(x * cos v)\<^sup>2 + (x * sin v)\<^sup>2 = x\<^sup>2" for x v :: real
    by (simp add: power_mult_distrib flip: distrib_left)
  then show ?thesis
    using assms by (simp add: revolve_def Let_def)
qed

lemma BEZIER_length: "length (BEZIER sel cps p) = length (hd cps)"
  by (simp add: BEZIER_def Let_def)

lemma surface_domain_vertices:
  "\<exists>d. surface_domain = Inr d \<and>
     list_all (list_all (\<lambda>p. length p = 2 \<and> 0 \<le> p ! 0 \<and> p ! 0 \<le> 1 \<and> 0 \<le> p ! 1 \<and> p ! 1 \<le> 2 * pi)) d"
  unfolding surface_domain_def by (rule DOMAIN2D_INTERVALS_vertices) simp_all

lemma surface_eq:
  assumes "list_all (list_all (\<lambda>p. length p = 2)) d" and "length (hd cps) = 3"
  shows "MAP_result (ROTATIONALSURFACE (BEZIER S1 cps)) d = Inr (hpc_map (revolve (BEZIER S1 cps)) d)"
  using assms(1) by (rule MAP_ROTATIONALSURFACE) (simp add: BEZIER_length assms(2))

lemma surface_domain_pairs:
  "\<exists>d. surface_domain = Inr d \<and> list_all (list_all (\<lambda>p. length p = 2)) d"
  using surface_domain_vertices by (fastforce simp: list_all_iff)

lemma surface_of_revolution_bounds:
  assumes "list_all (list_all (\<lambda>p. length p = 2 \<and> 0 \<le> p ! 0 \<and> p ! 0 \<le> 1 \<and> 0 \<le> p ! 1 \<and> p ! 1 \<le> 2 * pi)) d"
    and "cps \<noteq> []" and "length (hd cps) = 3" and "0 \<le> r0"
    and "list_all (\<lambda>c. r0 \<le> coord c 0 \<and> coord c 0 \<le> r1) cps"
    and "list_all (\<lambda>c. z0 \<le> coord c 2 \<and> coord c 2 \<le> z1) cps"
  shows "list_all (list_all (\<lambda>p. length p = 3 \<and> r0 \<le> sqrt ((p ! 0)\<^sup>2 + (p ! 1)\<^sup>2)
     \<and> sqrt ((p ! 0)\<^sup>2 + (p ! 1)\<^sup>2) \<le> r1 \<and> z0 \<le> p ! 2 \<and> p ! 2 \<le> z1))
     (hpc_map (revolve (BEZIER S1 cps)) d)"
proof -
  have "length (revolve (BEZIER S1 cps) p) = 3
    \<and> r0 \<le> sqrt ((revolve (BEZIER S1 cps) p ! 0)\<^sup>2 + (revolve (BEZIER S1 cps) p ! 1)\<^sup>2)
    \<and> sqrt ((revolve (BEZIER S1 cps) p ! 0)\<^sup>2 + (revolve (BEZIER S1 cps) p ! 1)\<^sup>2) \<le> r1
    \<and> z0 \<le> revolve (BEZIER S1 cps) p ! 2 \<and> revolve (BEZIER S1 cps) p ! 2 \<le> z1"
    if "length p = 2" "0 \<le> p ! 0" "p ! 0 \<le> 1" for p
  proof (rule revolve_bounds)
    have u: "0 \<le> S1 p" "S1 p \<le> 1" using that by (simp_all add: S1_def coord_def)
    have c: "coord (BEZIER S1 cps p) j = BEZIER S1 cps p ! j" if "j < 3" for j
      using that assms(3) by (simp add: coord_def BEZIER_length)
    show "r0 \<le> BEZIER S1 cps p ! 0" "BEZIER S1 cps p ! 0 \<le> r1"
      using BEZIER_bounds [OF assms(2) u, of 0 r0 r1] assms(3,5) c [of 0] by simp_all
    show "z0 \<le> BEZIER S1 cps p ! 2" "BEZIER S1 cps p ! 2 \<le> z1"
      using BEZIER_bounds [OF assms(2) u, of 2 z0 z1] assms(3,6) c [of 2] by simp_all
  qed (fact assms(4))
  then show ?thesis
    using assms(1) by (auto simp: hpc_map_def list_all_iff)
qed

lemma tire1_hull:
  "\<exists>pts. tire1 = Inr pts \<and> pts \<noteq> [] \<and> length (hd pts) = 3
     \<and> list_all (\<lambda>c. 6.5 \<le> coord c 0 \<and> coord c 0 \<le> 9.8) pts
     \<and> list_all (\<lambda>c. -4 \<le> coord c 2 \<and> coord c 2 \<le> 4) pts"
  by (simp add: tire1_def tire_profile_def MIRROR_eq AAPOINTS_eq reflect_point_def SUM_num_def coord_def)

lemma AWPol2_hull:
  "\<exists>pts. AWPol2_points = Inr pts \<and> pts \<noteq> [] \<and> length (hd pts) = 3
     \<and> list_all (\<lambda>c. 5.1 \<le> coord c 0 \<and> coord c 0 \<le> 8) pts
     \<and> list_all (\<lambda>c. -4.2 \<le> coord c 2 \<and> coord c 2 \<le> 4.2) pts"
  by (simp add: AWPol2_points_def AWPol2_profile_def MIRROR_eq AAPOINTS_eq reflect_point_def SUM_num_def
      coord_def)

lemma wheel_eq:
  assumes "AWPol1 = Inr a1" and "surface_domain = Inr d" and "list_all (list_all (\<lambda>p. length p = 2)) d"
    and "AWPol2_points = Inr p2" and "length (hd p2) = 3" and "tire1 = Inr t1" and "length (hd t1) = 3"
  shows "wheel = Inr (hpc_map (T [3] [1.5]) a1 @ hpc_map (revolve (BEZIER S1 p2)) d
                      @ hpc_map (revolve (BEZIER S1 t1)) d)"
  by (simp add: wheel_def AWPol_def AWPol2_def tire_def assms(1,2,4,6) surface_eq [OF assms(3,5)]
      surface_eq [OF assms(3,7)] STRUCT_def COLOR_def)

lemma exercise3_eq:
  assumes "wheel = Inr w"
  shows "exercise3 = Inr (let wp = hpc_map (T [1, 2, 3] [-5 - 7.3, -9, 2])
             (hpc_map (R (2, 3) (pi / 2)) (hpc_map (S [1, 2, 3] [0.4, 0.4, 0.4]) w));
           w12 = wp @ hpc_map (S [2] [-1]) wp
         in w12 @ hpc_map (T [1] [28]) w12)"
  by (simp add: exercise3_def wheels_def wheels12_def wheelPositoned_def assms STRUCT_def Let_def
      del: hpc_map_comp hpc_map_append)

section \<open>Properties of the wheels\<close>

text \<open>
  C31: the tire is a surface of revolution about the wheel's axis between the radii 6.5 and
  9.8, 8 wide: its mirrored profile, moved out by 5.5, has its control points at
  \<open>6.5 \<le> x \<le> 9.8\<close> and \<open>-4 \<le> z \<le> 4\<close>; the Bezier curve stays in their hull and
  turning it about the z axis keeps the distance to the axis.
\<close>

theorem tire_bounds:
  "\<exists>h. tire = Inr h \<and> list_all (list_all (\<lambda>p. length p = 3 \<and> 6.5 \<le> sqrt ((p ! 0)\<^sup>2 + (p ! 1)\<^sup>2)
     \<and> sqrt ((p ! 0)\<^sup>2 + (p ! 1)\<^sup>2) \<le> 9.8 \<and> -4 \<le> p ! 2 \<and> p ! 2 \<le> 4)) h"
proof -
  obtain d where d: "surface_domain = Inr d"
    "list_all (list_all (\<lambda>p. length p = 2 \<and> 0 \<le> p ! 0 \<and> p ! 0 \<le> 1 \<and> 0 \<le> p ! 1 \<and> p ! 1 \<le> 2 * pi)) d"
    using surface_domain_vertices by blast
  obtain pts where pts: "tire1 = Inr pts" "pts \<noteq> []" "length (hd pts) = 3"
    "list_all (\<lambda>c. 6.5 \<le> coord c 0 \<and> coord c 0 \<le> 9.8) pts"
    "list_all (\<lambda>c. -4 \<le> coord c 2 \<and> coord c 2 \<le> 4) pts"
    using tire1_hull by blast
  have "list_all (list_all (\<lambda>p. length p = 2)) d" using d(2) by (auto simp: list_all_iff)
  then show ?thesis
    using surface_of_revolution_bounds [OF d(2) pts(2,3) _ pts(4,5)] surface_eq [of d pts]
    by (simp add: tire_def pts(1,3) d(1))
qed

end
