(* ===== verification/CarAssembly.thy ===== *)
theory CarAssembly
  imports WheelAssembly
begin

text \<open>
  Exercises 2 and 3 of \<open>src/2013-05-10/python/exercise3.py\<close> together: the car's side
  view, placed by \<open>exercise2\<close>, and the four wheels of \<open>exercise3\<close> (line 160 puts
  both in \<open>total\<close>). The lemmas bound every part of the wheel by its distance to the
  wheel's axis and its height along it, follow the vertices through the maps that place
  the wheels, and exhibit a vertex of the rear tires; the theorems say where the placed
  wheels are and compare them with the wheel arches.
\<close>

section \<open>Definitions\<close>

text \<open>
  \<open>in_cylinder r z0 z1 h\<close>: every vertex of \<open>h\<close> is a 3D point at distance at most
  \<open>r\<close> from the z axis and at a height between \<open>z0\<close> and \<open>z1\<close>.
\<close>

definition in_cylinder :: "real \<Rightarrow> real \<Rightarrow> real \<Rightarrow> hpc \<Rightarrow> bool" where
  "in_cylinder r z0 z1 h \<longleftrightarrow>
     list_all (list_all (\<lambda>v. length v = 3 \<and> (v ! 0)\<^sup>2 + (v ! 1)\<^sup>2 \<le> r\<^sup>2 \<and> z0 \<le> v ! 2 \<and> v ! 2 \<le> z1)) h"

text \<open>
  \<open>wheel_site cx s v\<close>: the vertex \<open>v\<close> lies in the wheel placed with its axle on the
  line \<open>x = cx, z = 2\<close> along y, on the side \<open>s\<close> (\<open>-1\<close> for \<open>y < 0\<close>,
  \<open>1\<close> for \<open>y > 0\<close>): within 3.92 (the scaled radius \<open>0.4 * 9.8\<close>) of the
  axle and between 7.32 and 10.68 from the plane \<open>y = 0\<close>.
\<close>

definition wheel_site :: "real \<Rightarrow> real \<Rightarrow> point \<Rightarrow> bool" where
  "wheel_site cx s v \<longleftrightarrow> length v = 3 \<and> (v ! 0 - cx)\<^sup>2 + (v ! 2 - 2)\<^sup>2 \<le> 3.92\<^sup>2
     \<and> 7.32 \<le> s * v ! 1 \<and> s * v ! 1 \<le> 10.68"

section \<open>Lemmas\<close>

lemma in_cylinder_append [simp]:
  "in_cylinder r z0 z1 (h1 @ h2) \<longleftrightarrow> in_cylinder r z0 z1 h1 \<and> in_cylinder r z0 z1 h2"
  by (simp add: in_cylinder_def)

lemma vertices_map:
  "list_all (list_all P) h \<Longrightarrow> (\<And>v. P v \<Longrightarrow> Q (f v)) \<Longrightarrow> list_all (list_all Q) (hpc_map f h)"
  by (auto simp: hpc_map_def list_all_iff)

lemma vertices_mono: "list_all (list_all Q) h \<Longrightarrow> (\<And>v. Q v \<Longrightarrow> P v) \<Longrightarrow> list_all (list_all P) h"
  by (auto simp: list_all_iff)

lemma in_cylinder_map:
  assumes "in_cylinder r z0 z1 h"
    and "\<And>v. length v = 3 \<Longrightarrow>
      length (f v) = 3 \<and> (f v ! 0)\<^sup>2 + (f v ! 1)\<^sup>2 = (v ! 0)\<^sup>2 + (v ! 1)\<^sup>2 \<and> f v ! 2 = v ! 2 + c"
  shows "in_cylinder r (z0 + c) (z1 + c) (hpc_map f h)"
  using assms(1) unfolding in_cylinder_def by (rule vertices_map) (use assms(2) in auto)

lemma in_cylinder_mono:
  assumes "in_cylinder r z0 z1 h" and "0 \<le> r" and "r \<le> r'" and "z0' \<le> z0" and "z1 \<le> z1'"
  shows "in_cylinder r' z0' z1' h"
proof -
  have "r\<^sup>2 \<le> r'\<^sup>2" using power_mono [OF assms(3,2)] .
  with assms(1,4,5) show ?thesis
    unfolding in_cylinder_def by (elim vertices_mono) auto
qed

lemma radius_R12: "length v = 3 \<Longrightarrow> length (R (1, 2) a v) = 3
    \<and> (R (1, 2) a v ! 0)\<^sup>2 + (R (1, 2) a v ! 1)\<^sup>2 = (v ! 0)\<^sup>2 + (v ! 1)\<^sup>2 \<and> R (1, 2) a v ! 2 = v ! 2 + 0"
proof -
  assume "length v = 3"
  then obtain x y z where v: "v = [x, y, z]" using len3_cases by blast
  have gen: "(c * x - s * y)\<^sup>2 + (s * x + c * y)\<^sup>2 = (c * c + s * s) * (x\<^sup>2 + y\<^sup>2)" for c s :: real
    by (simp add: power2_eq_square algebra_simps)
  have eq: "(cos a * x - sin a * y)\<^sup>2 + (sin a * x + cos a * y)\<^sup>2 = x\<^sup>2 + y\<^sup>2"
    by (simp only: gen sin_cos_squared_add3 mult_1)
  show ?thesis
    by (simp add: v R_def coord_def set_coord_def pad_def eq)
qed

lemma radius_S2: "length v = 3 \<Longrightarrow> length (S [2] [-1] v) = 3
    \<and> (S [2] [-1] v ! 0)\<^sup>2 + (S [2] [-1] v ! 1)\<^sup>2 = (v ! 0)\<^sup>2 + (v ! 1)\<^sup>2 \<and> S [2] [-1] v ! 2 = v ! 2 + 0"
  by (auto dest!: len3_cases simp: S_def coord_def set_coord_def pad_def)

lemma radius_T3: "length v = 3 \<Longrightarrow> length (T [3] [c] v) = 3
    \<and> (T [3] [c] v ! 0)\<^sup>2 + (T [3] [c] v ! 1)\<^sup>2 = (v ! 0)\<^sup>2 + (v ! 1)\<^sup>2 \<and> T [3] [c] v ! 2 = v ! 2 + c"
  by (auto dest!: len3_cases simp: T_def coord_def set_coord_def pad_def)

lemma sqrt_bound_square: "sqrt s \<le> r \<Longrightarrow> 0 \<le> s \<Longrightarrow> s \<le> r\<^sup>2"
  by (metis real_sqrt_le_iff real_sqrt_pow2 order_trans power_mono real_sqrt_ge_zero)

lemma map_mem_product:
  "x \<in> set xs \<Longrightarrow> y \<in> set ys \<Longrightarrow> f (x @ y) \<in> set (map f [b1 @ b2. b1 \<leftarrow> xs, b2 \<leftarrow> ys])"
  by auto

lemma tri_mem:
  "x \<in> set xs \<Longrightarrow>
     [x ! 3, x ! 1, x ! 0] \<in> set (concat (map (\<lambda>x. [[x ! 3, x ! 1, x ! 0], [x ! 2, x ! 1, x ! 3]]) xs))"
  by auto

lemma DOMAIN2D_INTERVALS_vertex:
  assumes "0 < n" and "0 < m" and "0 < a" and "0 < b" and "i < nat n" and "j < nat m"
  shows "\<exists>h. DOMAIN2D [INTERVALS a n, INTERVALS b m] = Inr h \<and>
     (\<exists>t\<in>set h. [real i * (a / n), real j * (b / m)] \<in> set t)"
proof -
  let ?B1 = "map (\<lambda>k. [(real k * (a / n), real (Suc k) * (a / n))]) [0..<nat n]"
  let ?B2 = "map (\<lambda>k. [(real k * (b / m), real (Suc k) * (b / m))]) [0..<nat m]"
  let ?c = "box_cell ([(real i * (a / n), real (Suc i) * (a / n))] @ [(real j * (b / m), real (Suc j) * (b / m))])"
  have P: "PROD2 (INTERVALS a n) (INTERVALS b m) = map box_cell [b1 @ b2. b1 \<leftarrow> ?B1, b2 \<leftarrow> ?B2]"
    by (simp only: INTERVALS_boxes assms(1-4) PROD2_box_cells)
  have four: "list_all (\<lambda>c. 4 \<le> length c) (PROD2 (INTERVALS a n) (INTERVALS b m))"
    unfolding P by (auto simp: list_all_iff)
  have "[(real i * (a / n), real (Suc i) * (a / n))] \<in> set ?B1"
    "[(real j * (b / m), real (Suc j) * (b / m))] \<in> set ?B2"
    using assms(5,6) by auto
  then have c: "?c \<in> set (PROD2 (INTERVALS a n) (INTERVALS b m))"
    unfolding P by (intro map_mem_product)
  have "[?c ! 3, ?c ! 1, ?c ! 0] \<in> set (concat (map (\<lambda>x. [[x ! 3, x ! 1, x ! 0], [x ! 2, x ! 1, x ! 3]])
      (PROD2 (INTERVALS a n) (INTERVALS b m))))"
    by (rule tri_mem [OF c])
  moreover have "[real i * (a / n), real j * (b / m)] \<in> set [?c ! 3, ?c ! 1, ?c ! 0]"
    by simp
  moreover have "DOMAIN2D [INTERVALS a n, INTERVALS b m] = Inr (concat (map (\<lambda>x. [[x ! 3, x ! 1, x ! 0],
      [x ! 2, x ! 1, x ! 3]]) (PROD2 (INTERVALS a n) (INTERVALS b m))))"
    using four by (simp add: DOMAIN2D_eq traverse_tris)
  ultimately show ?thesis by blast
qed

lemma in_cylinder_surface:
  assumes "list_all (list_all (\<lambda>p. length p = 3 \<and> r0 \<le> sqrt ((p ! 0)\<^sup>2 + (p ! 1)\<^sup>2)
     \<and> sqrt ((p ! 0)\<^sup>2 + (p ! 1)\<^sup>2) \<le> r1 \<and> z0 \<le> p ! 2 \<and> p ! 2 \<le> z1)) h"
    and "r1 \<le> r"
  shows "in_cylinder r z0 z1 h"
proof -
  have "(p ! 0)\<^sup>2 + (p ! 1)\<^sup>2 \<le> r\<^sup>2" if "sqrt ((p ! 0)\<^sup>2 + (p ! 1)\<^sup>2) \<le> r1" for p
    using that assms(2) by (intro sqrt_bound_square) simp_all
  then show ?thesis
    using assms(1) by (auto simp: in_cylinder_def list_all_iff)
qed

lemma in_cylinder_AWPol1: "\<exists>a. AWPol1 = Inr a \<and> in_cylinder 9.8 0 1.2 a"
proof -
  let ?s = "map (map (\<lambda>k. AWPoints1 ! (k - 1))) AWCells1"
  have s: "in_cylinder 9.8 0 1.2 ?s"
    by (simp add: in_cylinder_def AWPoints1_def AWCells1_def cos_30 sin_30 power_divide)
  have pair: "in_cylinder 9.8 0 1.2 (?s @ hpc_map (S [2] [-1]) ?s)"
    using s in_cylinder_map [OF s radius_S2] by simp
  have "in_cylinder 9.8 0 1.2 (hpc_map (R (1, 2) b) (?s @ hpc_map (S [2] [-1]) ?s))" for b
    using in_cylinder_map [OF pair radius_R12] by simp
  then have "in_cylinder 9.8 0 1.2 (concat (rot_copies (1, 2) (pi / 3) (?s @ hpc_map (S [2] [-1]) ?s) 6))"
    by (simp add: in_cylinder_def rot_copies_def list_all_iff del: hpc_map_append)
  then show ?thesis
    by (simp add: AWPol1_def AWPol1_pair_eval Let_def DUPLIROT_eq del: hpc_map_append)
qed

lemma wheel_parts:
  "\<exists>a1 d p2 t1. AWPol1 = Inr a1 \<and> surface_domain = Inr d \<and> AWPol2_points = Inr p2 \<and> tire1 = Inr t1
     \<and> wheel = Inr (hpc_map (T [3] [1.5]) a1 @ hpc_map (revolve (BEZIER S1 p2)) d
                      @ hpc_map (revolve (BEZIER S1 t1)) d)
     \<and> in_cylinder 9.8 (-4.2) 4.2 (hpc_map (T [3] [1.5]) a1 @ hpc_map (revolve (BEZIER S1 p2)) d
                      @ hpc_map (revolve (BEZIER S1 t1)) d)"
proof -
  obtain a1 where a1: "AWPol1 = Inr a1" "in_cylinder 9.8 0 1.2 a1"
    using in_cylinder_AWPol1 by blast
  obtain d where d: "surface_domain = Inr d"
    "list_all (list_all (\<lambda>p. length p = 2 \<and> 0 \<le> p ! 0 \<and> p ! 0 \<le> 1 \<and> 0 \<le> p ! 1 \<and> p ! 1 \<le> 2 * pi)) d"
    using surface_domain_vertices by blast
  have d2: "list_all (list_all (\<lambda>p. length p = 2)) d" using d(2) by (auto simp: list_all_iff)
  obtain p2 where p2: "AWPol2_points = Inr p2" "p2 \<noteq> []" "length (hd p2) = 3"
    "list_all (\<lambda>c. 5.1 \<le> coord c 0 \<and> coord c 0 \<le> 8) p2"
    "list_all (\<lambda>c. -4.2 \<le> coord c 2 \<and> coord c 2 \<le> 4.2) p2"
    using AWPol2_hull by blast
  obtain t1 where t1: "tire1 = Inr t1" "t1 \<noteq> []" "length (hd t1) = 3"
    "list_all (\<lambda>c. 6.5 \<le> coord c 0 \<and> coord c 0 \<le> 9.8) t1"
    "list_all (\<lambda>c. -4 \<le> coord c 2 \<and> coord c 2 \<le> 4) t1"
    using tire1_hull by blast
  have "in_cylinder 9.8 (-4.2) 4.2 (hpc_map (revolve (BEZIER S1 p2)) d)"
    by (rule in_cylinder_surface [OF surface_of_revolution_bounds [OF d(2) p2(2,3) _ p2(4,5)]]) simp_all
  moreover have "in_cylinder 9.8 (-4.2) 4.2 (hpc_map (revolve (BEZIER S1 t1)) d)"
    by (rule in_cylinder_mono [OF in_cylinder_surface [OF surface_of_revolution_bounds [OF d(2) t1(2,3) _ t1(4,5)]
      order_refl]]) simp_all
  moreover have "in_cylinder 9.8 (-4.2) 4.2 (hpc_map (T [3] [1.5]) a1)"
    by (rule in_cylinder_mono [OF in_cylinder_map [OF a1(2) radius_T3]]) simp_all
  ultimately show ?thesis
    using wheel_eq [OF a1(1) d(1) d2 p2(1,3) t1(1,3)] a1(1) d(1) p2(1) t1(1)
    by (simp only: in_cylinder_append) blast
qed

lemma wheelsSide_arches:
  "\<exists>f r. wheelsSide = Inr (f @ r) \<and> in_rect (-9) (-1) (-2) (16 / 3) f \<and> in_rect 18 26 (-2) (16 / 3) r"
proof -
  let ?cps = "[[0, 0], [0.4, 16 / 3], [7.6, 16 / 3], [8, 0]] :: point list"
  let ?f = "MAP (BEZIER S1 ?cps) domain1D @ POLYLINE wheelSectionLine1Points @ POLYLINE wheelSectionLine2Points"
  let ?r = "MAP (BEZIER S1 ?cps) domain1D @ POLYLINE wheelSectionLine3Points"
  have eq: "wheelsSide = Inr (hpc_map (T [1] [-9]) ?f @ hpc_map (T [1] [-9]) (hpc_map (T [1] [27]) ?r))"
    by (simp add: wheelsSide_def frotWheelSide_def rearWheelSide_def control_points_eval STRUCT_def
        del: hpc_map_comp)
  have f: "in_rect (-9) (-1) (-2) (16 / 3) (hpc_map (T [1] [-9]) ?f)"
    by (rule rect_T1 rect_append rect_POLYLINE rect_bezier | simp add: side_data_defs coord_def)+
  have r: "in_rect 18 26 (-2) (16 / 3) (hpc_map (T [1] [-9]) (hpc_map (T [1] [27]) ?r))"
    by (rule rect_T1 rect_append rect_POLYLINE rect_bezier | simp add: side_data_defs coord_def del: hpc_map_comp)+
  show ?thesis using eq f r by blast
qed

lemma radius_abs: "(x :: real)\<^sup>2 + y\<^sup>2 \<le> r\<^sup>2 \<Longrightarrow> 0 \<le> r \<Longrightarrow> - r \<le> x \<and> x \<le> r"
proof -
  assume "x\<^sup>2 + y\<^sup>2 \<le> r\<^sup>2" "0 \<le> r"
  then have "x\<^sup>2 \<le> r\<^sup>2" using zero_le_power2 [of y] by linarith
  then have "\<bar>x\<bar> \<le> \<bar>r\<bar>" by (simp only: abs_le_square_iff)
  with \<open>0 \<le> r\<close> show ?thesis by linarith
qed

lemma place_wheel:
  "length v = 3 \<Longrightarrow> T [1, 2, 3] [-5 - 7.3, -9, 2] (R (2, 3) (pi / 2) (S [1, 2, 3] [0.4, 0.4, 0.4] v))
     = [0.4 * v ! 0 - 12.3, - 0.4 * v ! 2 - 9, 0.4 * v ! 1 + 2]"
  by (auto dest!: len3_cases simp: T_def R_def S_def coord_def set_coord_def pad_def)

lemma place_wheel_x:
  "length v = 3 \<Longrightarrow> length (T [1, 2, 3] [-5 - 7.3, -9, 2] (R (2, 3) (pi / 2) (S [1, 2, 3] [0.4, 0.4, 0.4] v))) = 3
     \<and> T [1, 2, 3] [-5 - 7.3, -9, 2] (R (2, 3) (pi / 2) (S [1, 2, 3] [0.4, 0.4, 0.4] v)) ! 0 = 0.4 * v ! 0 - 12.3"
  by (simp only: place_wheel) simp

lemma S2_x: "length v = 3 \<Longrightarrow> length (S [2] [-1] v) = 3 \<and> S [2] [-1] v ! 0 = v ! 0"
  by (auto dest!: len3_cases simp: S_def coord_def set_coord_def pad_def)

lemma T1_x: "k = 1 \<Longrightarrow> length v = 3 \<Longrightarrow> length (T [k] [c] v) = 3 \<and> T [k] [c] v ! 0 = v ! 0 + c"
  by (auto dest!: len3_cases simp: T_def coord_def set_coord_def pad_def)

lemma range_map:
  assumes "list_all (list_all (\<lambda>v. length v = 3 \<and> lo \<le> v ! 0 \<and> v ! 0 \<le> hi)) h"
    and "\<And>v. length v = 3 \<Longrightarrow> lo \<le> v ! 0 \<Longrightarrow> v ! 0 \<le> hi \<Longrightarrow>
           length (f v) = 3 \<and> lo' \<le> f v ! 0 \<and> f v ! 0 \<le> hi'"
  shows "list_all (list_all (\<lambda>v. length v = 3 \<and> lo' \<le> v ! 0 \<and> v ! 0 \<le> hi')) (hpc_map f h)"
  using assms by (auto simp: hpc_map_def list_all_iff)

lemma radius_x_range: "in_cylinder r z0 z1 w \<Longrightarrow> 0 \<le> r \<Longrightarrow>
    list_all (list_all (\<lambda>v. length v = 3 \<and> - r \<le> v ! 0 \<and> v ! 0 \<le> r)) w"
  using radius_abs by (fastforce simp: in_cylinder_def list_all_iff)

lemma placed_wheel_x:
  assumes "in_cylinder 9.8 z0 z1 w"
  shows "list_all (list_all (\<lambda>v. length v = 3 \<and> -16.22 \<le> v ! 0 \<and> v ! 0 \<le> -8.38))
    (hpc_map (T [1, 2, 3] [-5 - 7.3, -9, 2]) (hpc_map (R (2, 3) (pi / 2)) (hpc_map (S [1, 2, 3] [0.4, 0.4, 0.4]) w)))"
  unfolding hpc_map_comp
proof (rule range_map [OF radius_x_range [OF assms]])
  fix v :: point
  assume "length v = 3" "- 9.8 \<le> v ! 0" "v ! 0 \<le> 9.8"
  then show "length ((T [1, 2, 3] [-5 - 7.3, -9, 2] \<circ> (R (2, 3) (pi / 2) \<circ> S [1, 2, 3] [0.4, 0.4, 0.4])) v) = 3
    \<and> -16.22 \<le> (T [1, 2, 3] [-5 - 7.3, -9, 2] \<circ> (R (2, 3) (pi / 2) \<circ> S [1, 2, 3] [0.4, 0.4, 0.4])) v ! 0
    \<and> (T [1, 2, 3] [-5 - 7.3, -9, 2] \<circ> (R (2, 3) (pi / 2) \<circ> S [1, 2, 3] [0.4, 0.4, 0.4])) v ! 0 \<le> -8.38"
    using place_wheel_x [of v] by simp
qed simp

lemma vertex_hpc_map: "\<exists>c\<in>set h. v \<in> set c \<Longrightarrow> \<exists>c\<in>set (hpc_map f h). f v \<in> set c"
  by (auto simp: hpc_map_def)

lemma tire1_eval:
  "tire1 = Inr [[6.5, 0, 3.6], [7.5, 0, 3.6], [7.7, 0, 4], [9.5, 0, 4], [9.8, 0, 3.6], [9.8, 0, -3.6],
     [9.5, 0, -4], [7.7, 0, -4], [7.5, 0, -3.6], [6.5, 0, -3.6]]"
  by (simp add: tire1_def tire_profile_def MIRROR_eq AAPOINTS_eq reflect_point_def SUM_num_def)

lemma tire_mid_vertex:
  assumes "tire1 = Inr t1" and "surface_domain = Inr d"
  shows "\<exists>c\<in>set (hpc_map (revolve (BEZIER S1 t1)) d). revolve (BEZIER S1 t1) [1 / 2, 0] \<in> set c"
    and "length (revolve (BEZIER S1 t1) [1 / 2, 0]) = 3"
    and "revolve (BEZIER S1 t1) [1 / 2, 0] ! 0 = 9.3125"
proof -
  obtain h where h: "surface_domain = Inr h" "\<exists>t\<in>set h. [real 12 * (1 / 24), real 0 * (2 * pi / 36)] \<in> set t"
    unfolding surface_domain_def using DOMAIN2D_INTERVALS_vertex [of 24 36 1 "2 * pi" 12 0] by auto
  moreover have "d = h" using assms(2) h(1) by (metis Inr_inject)
  ultimately have "\<exists>t\<in>set d. [1 / 2, 0] \<in> set t" by simp
  then show "\<exists>c\<in>set (hpc_map (revolve (BEZIER S1 t1)) d). revolve (BEZIER S1 t1) [1 / 2, 0] \<in> set c"
    by (rule vertex_hpc_map)
  have t1: "t1 = [[6.5, 0, 3.6], [7.5, 0, 3.6], [7.7, 0, 4], [9.5, 0, 4], [9.8, 0, 3.6], [9.8, 0, -3.6],
     [9.5, 0, -4], [7.7, 0, -4], [7.5, 0, -3.6], [6.5, 0, -3.6]]"
    using assms(1) tire1_eval by (metis Inr_inject)
  show "length (revolve (BEZIER S1 t1) [1 / 2, 0]) = 3"
    by (simp add: revolve_def Let_def)
  show "revolve (BEZIER S1 t1) [1 / 2, 0] ! 0 = 9.3125"
    by (simp add: t1 revolve_def BEZIER_def bernstein_def S1_def coord_def upt_rec)
qed

lemma placed_site:
  assumes "length u = 3" and "(u ! 0)\<^sup>2 + (u ! 1)\<^sup>2 \<le> 9.8\<^sup>2" and "-4.2 \<le> u ! 2" and "u ! 2 \<le> 4.2"
  shows "wheel_site (-12.3) (-1) (T [1, 2, 3] [-5 - 7.3, -9, 2] (R (2, 3) (pi / 2) (S [1, 2, 3] [0.4, 0.4, 0.4] u)))"
proof -
  have "(0.4 * u ! 0 - 12.3 - (-12.3))\<^sup>2 + (0.4 * u ! 1 + 2 - 2)\<^sup>2 = 0.16 * ((u ! 0)\<^sup>2 + (u ! 1)\<^sup>2)"
    by (simp add: power2_eq_square algebra_simps)
  also have "\<dots> \<le> 0.16 * 9.8\<^sup>2"
    using assms(2) by (rule mult_left_mono) simp
  also have "(0.16 :: real) * 9.8\<^sup>2 = 3.92\<^sup>2"
    by (simp add: power2_eq_square)
  finally show ?thesis
    using assms(3,4) unfolding place_wheel [OF assms(1)] wheel_site_def by simp
qed

lemma site_S2: "wheel_site cx s v \<Longrightarrow> wheel_site cx (- s) (S [2] [-1] v)"
  by (auto dest!: len3_cases simp: wheel_site_def S_def coord_def set_coord_def pad_def)

lemma site_T1: "k = 1 \<Longrightarrow> wheel_site cx s v \<Longrightarrow> wheel_site (cx + c) s (T [k] [c] v)"
  by (auto dest!: len3_cases simp: wheel_site_def T_def coord_def set_coord_def pad_def)

lemma wheel_site_sides:
  assumes "wheel_site cx s v" and "cx = -12.3 \<or> cx = 15.7" and "s = 1 \<or> s = -1"
  shows "length v = 3 \<and> ((v ! 0 + 12.3)\<^sup>2 + (v ! 2 - 2)\<^sup>2 \<le> 3.92\<^sup>2 \<or> (v ! 0 - 15.7)\<^sup>2 + (v ! 2 - 2)\<^sup>2 \<le> 3.92\<^sup>2)
    \<and> 7.32 \<le> \<bar>v ! 1\<bar> \<and> \<bar>v ! 1\<bar> \<le> 10.68"
proof -
  from assms(2) consider "cx = -12.3" | "cx = 15.7" by blast
  then show ?thesis
    using assms(1,3) by cases (auto simp: wheel_site_def abs_if)
qed

section \<open>The wheels under the wheel arches\<close>

text \<open>
  C32: the side view's front wheel arch spans \<open>-9 \<le> x \<le> -1\<close> and its rear arch
  \<open>18 \<le> x \<le> 26\<close>, and \<open>exercise2\<close> moves the side view by \<open>-7.3\<close> along x. The
  front wheels of \<open>exercise3\<close> lie strictly inside the front arch's span, but the rear pair,
  moved 28 units back while the rear arch is moved 27, reaches past the rear arch's end
  (\<open>26 - 7.3\<close>): some vertex of the rear tires lies beyond it.
\<close>

theorem wheel_arch_clearance:
  "\<exists>f r w. wheelsSide = Inr (f @ r) \<and> in_rect (-9) (-1) (-2) (16 / 3) f \<and> in_rect 18 26 (-2) (16 / 3) r
     \<and> exercise3 = Inr w
     \<and> list_all (list_all (\<lambda>v. (-9 - 7.3 < v ! 0 \<and> v ! 0 < -1 - 7.3) \<or> (18 - 7.3 < v ! 0 \<and> v ! 0 < 26 - 7.3 + 1))) w
     \<and> list_ex (list_ex (\<lambda>v. 26 - 7.3 < v ! 0)) w"
proof -
  obtain f r where fr: "wheelsSide = Inr (f @ r)" "in_rect (-9) (-1) (-2) (16 / 3) f" "in_rect 18 26 (-2) (16 / 3) r"
    using wheelsSide_arches by blast
  obtain a1 d p2 t1 where parts: "AWPol1 = Inr a1" "surface_domain = Inr d" "AWPol2_points = Inr p2"
      "tire1 = Inr t1"
    and w: "wheel = Inr (hpc_map (T [3] [1.5]) a1 @ hpc_map (revolve (BEZIER S1 p2)) d
      @ hpc_map (revolve (BEZIER S1 t1)) d)"
    and wr: "in_cylinder 9.8 (-4.2) 4.2 (hpc_map (T [3] [1.5]) a1 @ hpc_map (revolve (BEZIER S1 p2)) d
      @ hpc_map (revolve (BEZIER S1 t1)) d)"
    using wheel_parts by blast
  let ?w = "hpc_map (T [3] [1.5]) a1 @ hpc_map (revolve (BEZIER S1 p2)) d
    @ hpc_map (revolve (BEZIER S1 t1)) d"
  define wp where "wp = hpc_map (T [1, 2, 3] [-5 - 7.3, -9, 2])
    (hpc_map (R (2, 3) (pi / 2)) (hpc_map (S [1, 2, 3] [0.4, 0.4, 0.4]) ?w))"
  define w12 where "w12 = wp @ hpc_map (S [2] [-1]) wp"
  have ex3: "exercise3 = Inr (w12 @ hpc_map (T [1] [28]) w12)"
    using exercise3_eq [OF w] by (simp only: wp_def w12_def Let_def)
  have wpx: "list_all (list_all (\<lambda>v. length v = 3 \<and> -16.22 \<le> v ! 0 \<and> v ! 0 \<le> -8.38)) wp"
    unfolding wp_def by (rule placed_wheel_x [OF wr])
  have "list_all (list_all (\<lambda>v. length v = 3 \<and> -16.22 \<le> v ! 0 \<and> v ! 0 \<le> -8.38)) (hpc_map (S [2] [-1]) wp)"
    by (rule range_map [OF wpx]) (simp add: S2_x)
  with wpx have front: "list_all (list_all (\<lambda>v. length v = 3 \<and> -16.22 \<le> v ! 0 \<and> v ! 0 \<le> -8.38)) w12"
    by (simp add: w12_def)
  have rear: "list_all (list_all (\<lambda>v. length v = 3 \<and> 11.78 \<le> v ! 0 \<and> v ! 0 \<le> 19.62)) (hpc_map (T [1] [28]) w12)"
    by (rule range_map [OF front]) (simp add: T1_x)
  have span: "list_all (list_all (\<lambda>v. (-9 - 7.3 < v ! 0 \<and> v ! 0 < -1 - 7.3) \<or> (18 - 7.3 < v ! 0 \<and> v ! 0 < 26 - 7.3 + 1)))
      (w12 @ hpc_map (T [1] [28]) w12)"
    unfolding list_all_append
  proof
    show "list_all (list_all (\<lambda>v. (-9 - 7.3 < v ! 0 \<and> v ! 0 < -1 - 7.3) \<or> (18 - 7.3 < v ! 0 \<and> v ! 0 < 26 - 7.3 + 1))) w12"
      by (rule vertices_mono [OF front]) simp
    show "list_all (list_all (\<lambda>v. (-9 - 7.3 < v ! 0 \<and> v ! 0 < -1 - 7.3) \<or> (18 - 7.3 < v ! 0 \<and> v ! 0 < 26 - 7.3 + 1)))
      (hpc_map (T [1] [28]) w12)"
      by (rule vertices_mono [OF rear]) simp
  qed
  let ?v = "revolve (BEZIER S1 t1) [1 / 2, 0]"
  have "\<exists>c\<in>set ?w. ?v \<in> set c"
    using tire_mid_vertex(1) [OF parts(4,2)] by auto
  then have "\<exists>c\<in>set (hpc_map (S [1, 2, 3] [0.4, 0.4, 0.4]) ?w). S [1, 2, 3] [0.4, 0.4, 0.4] ?v \<in> set c"
    by (rule vertex_hpc_map)
  then have "\<exists>c\<in>set (hpc_map (R (2, 3) (pi / 2)) (hpc_map (S [1, 2, 3] [0.4, 0.4, 0.4]) ?w)).
      R (2, 3) (pi / 2) (S [1, 2, 3] [0.4, 0.4, 0.4] ?v) \<in> set c"
    by (rule vertex_hpc_map)
  then have "\<exists>c\<in>set wp. T [1, 2, 3] [-5 - 7.3, -9, 2] (R (2, 3) (pi / 2) (S [1, 2, 3] [0.4, 0.4, 0.4] ?v)) \<in> set c"
    unfolding wp_def by (rule vertex_hpc_map)
  then have "\<exists>c\<in>set w12. T [1, 2, 3] [-5 - 7.3, -9, 2] (R (2, 3) (pi / 2) (S [1, 2, 3] [0.4, 0.4, 0.4] ?v)) \<in> set c"
    unfolding w12_def set_append by blast
  then have m: "\<exists>c\<in>set (hpc_map (T [1] [28]) w12).
      T [1] [28] (T [1, 2, 3] [-5 - 7.3, -9, 2] (R (2, 3) (pi / 2) (S [1, 2, 3] [0.4, 0.4, 0.4] ?v))) \<in> set c"
    by (rule vertex_hpc_map)
  have "26 - 7.3 < T [1] [28] (T [1, 2, 3] [-5 - 7.3, -9, 2] (R (2, 3) (pi / 2) (S [1, 2, 3] [0.4, 0.4, 0.4] ?v))) ! 0"
    using place_wheel_x [OF tire_mid_vertex(2) [OF parts(4,2)]] tire_mid_vertex(3) [OF parts(4,2)] T1_x by simp
  with m have "list_ex (list_ex (\<lambda>v. 26 - 7.3 < v ! 0)) (w12 @ hpc_map (T [1] [28]) w12)"
    unfolding list_ex_iff set_append by blast
  with fr ex3 span show ?thesis by blast
qed

text \<open>
  C33: \<open>exercise3\<close> puts the four wheels where the car's side view has them: every
  vertex is within 3.92 (the wheel's radius 9.8 scaled by 0.4) of one of the axles
  \<open>x = -12.3, z = 2\<close> (front) and \<open>x = 15.7, z = 2\<close> (rear, 28 further), and
  between 7.32 and 10.68 from the car's middle plane \<open>y = 0\<close> on either side: the
  scaling, the quarter turn that stands the wheel upright with its axle along y, the
  translation, the mirror image across \<open>y = 0\<close> and the rear offset, composed in the
  script's order.
\<close>

theorem exercise3_wheel_sites:
  "\<exists>w. exercise3 = Inr w \<and> list_all (list_all (\<lambda>v. length v = 3
     \<and> ((v ! 0 + 12.3)\<^sup>2 + (v ! 2 - 2)\<^sup>2 \<le> 3.92\<^sup>2 \<or> (v ! 0 - 15.7)\<^sup>2 + (v ! 2 - 2)\<^sup>2 \<le> 3.92\<^sup>2)
     \<and> 7.32 \<le> \<bar>v ! 1\<bar> \<and> \<bar>v ! 1\<bar> \<le> 10.68)) w"
proof -
  obtain a1 d p2 t1 where
    w: "wheel = Inr (hpc_map (T [3] [1.5]) a1 @ hpc_map (revolve (BEZIER S1 p2)) d
      @ hpc_map (revolve (BEZIER S1 t1)) d)"
    and wr: "in_cylinder 9.8 (-4.2) 4.2 (hpc_map (T [3] [1.5]) a1 @ hpc_map (revolve (BEZIER S1 p2)) d
      @ hpc_map (revolve (BEZIER S1 t1)) d)"
    using wheel_parts by blast
  let ?w = "hpc_map (T [3] [1.5]) a1 @ hpc_map (revolve (BEZIER S1 p2)) d
    @ hpc_map (revolve (BEZIER S1 t1)) d"
  define wp where "wp = hpc_map (T [1, 2, 3] [-5 - 7.3, -9, 2])
    (hpc_map (R (2, 3) (pi / 2)) (hpc_map (S [1, 2, 3] [0.4, 0.4, 0.4]) ?w))"
  have ex3: "exercise3 = Inr ((wp @ hpc_map (S [2] [-1]) wp) @ hpc_map (T [1] [28]) (wp @ hpc_map (S [2] [-1]) wp))"
    using exercise3_eq [OF w] by (simp only: wp_def Let_def)
  have front: "list_all (list_all (wheel_site (-12.3) (-1))) wp"
    unfolding wp_def hpc_map_comp
  proof (rule vertices_map [OF wr [unfolded in_cylinder_def]])
    fix v :: point
    assume "length v = 3 \<and> (v ! 0)\<^sup>2 + (v ! 1)\<^sup>2 \<le> 9.8\<^sup>2 \<and> -4.2 \<le> v ! 2 \<and> v ! 2 \<le> 4.2"
    then show "wheel_site (-12.3) (-1) ((T [1, 2, 3] [-5 - 7.3, -9, 2] \<circ> (R (2, 3) (pi / 2) \<circ> S [1, 2, 3] [0.4, 0.4, 0.4])) v)"
      unfolding comp_apply by (intro placed_site) simp_all
  qed
  have mirror: "list_all (list_all (wheel_site (-12.3) 1)) (hpc_map (S [2] [-1]) wp)"
    by (rule vertices_map [OF front]) (drule site_S2, simp)
  have rear: "list_all (list_all (wheel_site 15.7 s)) (hpc_map (T [1] [28]) h)"
    if "list_all (list_all (wheel_site (-12.3) s)) h" for s h
    by (rule vertices_map [OF that]) (drule site_T1 [OF refl, of _ _ _ 28], simp)
  have "list_all (list_all (\<lambda>v. length v = 3
     \<and> ((v ! 0 + 12.3)\<^sup>2 + (v ! 2 - 2)\<^sup>2 \<le> 3.92\<^sup>2 \<or> (v ! 0 - 15.7)\<^sup>2 + (v ! 2 - 2)\<^sup>2 \<le> 3.92\<^sup>2)
     \<and> 7.32 \<le> \<bar>v ! 1\<bar> \<and> \<bar>v ! 1\<bar> \<le> 10.68)) h"
    if "list_all (list_all (wheel_site cx s)) h" "cx = -12.3 \<or> cx = 15.7" "s = 1 \<or> s = -1" for cx s h
    by (rule vertices_mono [OF that(1)]) (rule wheel_site_sides [OF _ that(2,3)])
  then show ?thesis
    using front mirror rear [OF front] rear [OF mirror] unfolding ex3 list_all_append hpc_map_append
    by simp
qed

text \<open>
  C34: the whole car script runs without raising: \<open>exercise2\<close> (every MIRROR,
  AAPOINTS, SPLINE and STRUCT of the four views) and \<open>exercise3\<close> (the spokes'
  MKPOL and DUPLIROT, the surfaces' DOMAIN2D and ROTATIONALSURFACE, whose unpackings
  succeed, and the STRUCTs that place the wheels) both succeed, and \<open>total\<close> is their
  union.
\<close>

theorem total_scene: "\<exists>e2 e3. exercise2 = Inr e2 \<and> exercise3 = Inr e3 \<and> total = Inr (e2 @ e3)"
proof -
  obtain hs where s: "side = Inr hs" using side_rect by blast
  obtain hu where u: "up = Inr hu" using up_chain by blast
  obtain hb where b: "back_view = Inr hb" using back_chain by blast
  obtain hf where f: "front = Inr hf" using front_chain by blast
  obtain e2 where e2: "exercise2 = Inr e2"
    by (simp add: exercise2_def STRUCT_def s u b f del: hpc_map_comp)
  obtain w where "wheel = Inr w" using wheel_parts by blast
  then obtain e3 where e3: "exercise3 = Inr e3" using exercise3_eq by blast
  show ?thesis by (simp add: total_def STRUCT_def e2 e3)
qed

end
