(* ===== verification/Building.thy ===== *)
theory Building
  imports Domain
begin

text \<open>
  The building model of \<open>src/2013-04-05/python/exercise3.py\<close>: the four vertical
  enclosures (lines 35--63), each a \<open>STRUCT\<close> of \<open>GRID\<close>s whose signed interval
  lists cut the windows out of a 0.4 thick wall, and the ground floor slab's outline
  (lines 94--98), two rectangles made by \<open>DOMAIN\<close> with half discs made by
  \<open>circular_sector\<close>, rotated and translated onto their straight edges. The lemmas
  read the geometry off the model: every wall stays in its slab, the pieces of the south,
  east and west walls never overlap while two pieces of the north wall do, and each half
  disc sits exactly on the edge of its rectangle. A Python name that the script binds to a
  shape is a definition of type \<open>hpc result\<close>; a \<open>STRUCT\<close> of such names only exists
  once each of them was computed, which \<open>traverse id\<close> expresses.
\<close>

section \<open>Vertical enclosures\<close>

definition north0 :: "hpc result" where
  "north0 = GRID [[-17.5, 0.4], [0.4, -8, 1.4, -0.45, 0.4], [-4, 12.7]]"

definition north1 :: "hpc result" where
  "north1 = GRID [[-17.5, 0.4], [-0.4, 8], [-4, 2.15, -1.6, 2.15, -1.6, 2.15, -1.55, 1.5]]"

definition north2 :: "hpc result" where
  "north2 = GRID [[-17.5, 0.4], [-9.75, 0.5], [-4, 0.5, -4, 0.5, -3.5, 0.5, -3.3, 0.4]]"

definition north :: "hpc result" where
  "north = rbind (traverse id [north0, north1, north2]) (\<lambda>hs. STRUCT (map Obj hs))"

definition south0 :: "hpc result" where
  "south0 = GRID [[0.4], [10.65], [-4, -0.5, -3.2, 0.65, -3.2, 1.8, -1.85, 1.5]]"

definition south1 :: "hpc result" where
  "south1 = GRID [[0.4], [0.55, -1.3, 0.4, -8, 0.4], [-4, 0.5, 3.2, -0.65, 3.2, -1.8, -1.85]]"

definition south2 :: "hpc result" where
  "south2 = GRID [[0.4], [0.2, -1.9, 0.2], [-4, -0.5, -3.2, -0.65, -3.2, -1.8, 1.85]]"

definition south3 :: "hpc result" where
  "south3 = GRID [[0.4], [-0.55, -1.3, -0.4, 8], [-4, 0.5]]"

definition south_block :: hpc where
  "south_block = hpc_map (T [2, 3] [0.35 + 0.4 + 8, 4 + 0.5 + 3.2 + 0.65]) (CUBOID [0.4, 1.5, 3.2])"

definition south :: "hpc result" where
  "south = rbind (traverse id [south0, south1, south2, south3])
             (\<lambda>hs. STRUCT (map Obj hs @ [Obj south_block]))"

definition east0 :: "hpc result" where
  "east0 = GRID [[-8.75, 0.4, -4, 4.75], [0.4], [-4, 12.7]]"

definition east1 :: "hpc result" where
  "east1 = GRID [[8.75], [0.4], [-4, 9.35, -1.85, 1.5]]"

definition east2 :: "hpc result" where
  "east2 = GRID [[-8.75, -0.4, 4], [0.4], [-4, 2.1, -1.6, 2.1, -1.6, 2.1, -1.6, 1.6]]"

definition east :: "hpc result" where
  "east = rbind (traverse id [east0, east1, east2]) (\<lambda>hs. STRUCT (map Obj hs))"

definition west0 :: "hpc result" where
  "west0 = GRID [[17.9], [-10.25, 0.4], [-2.9, -0.9, 2.4, -1.6, 2.1, -1.6, 5.2]]"

definition west1 :: "hpc result" where
  "west1 = GRID [[15.2], [-10.25, 0.4], [2.9]]"

definition west2 :: "hpc result" where
  "west2 = GRID [[11.6, -0.9, 2.7], [-10.25, 0.4], [-2.9, 0.9]]"

definition west3 :: "hpc result" where
  "west3 = GRID [[10, -4, 3.9], [-10.25, 0.4], [-2.9, -0.9, -2.4, 1.6]]"

definition west4 :: "hpc result" where
  "west4 = GRID [[14.2, -0.2, 0.9, -0.2, 2.4], [-10.25, 0.4], [-2.9, -0.9, -2.4, -1.6, -2.1, 1.6]]"

definition west :: "hpc result" where
  "west = rbind (traverse id [west0, west1, west2, west3, west4]) (\<lambda>hs. STRUCT (map Obj hs))"

text \<open>Line 63: the four enclosures together.\<close>

definition vertical_enclosures :: "hpc result" where
  "vertical_enclosures = rbind (traverse id [north, south, east, west]) (\<lambda>hs. STRUCT (map Obj hs))"

section \<open>Ground floor outline\<close>

definition floor00 :: "hpc result" where
  "floor00 = DOMAIN [[2.7, 15.1], [6.5, 9.85]] [1, 1]"

definition floor01 :: "hpc result" where
  "floor01 = rbind (circular_sector pi 1.675)
     (\<lambda>c. Inr (hpc_map (T [1, 2] [15.1, 9.85 - 1.675]) (hpc_map (R (1, 2) (- pi / 2)) c)))"

definition floor02 :: "hpc result" where
  "floor02 = DOMAIN [[2.7, 13.125], [3.7, 6.5]] [1, 1]"

definition floor03 :: "hpc result" where
  "floor03 = DOMAIN [[2.7, 3.8], [2.6, 3.7]] [1, 1]"

definition floor04 :: "hpc result" where
  "floor04 = rbind (circular_sector pi 0.55)
     (\<lambda>c. Inr (hpc_map (T [1, 2] [3.25, 2.6]) (hpc_map (R (1, 2) pi) c)))"

section \<open>Geometric predicates on boxes\<close>

text \<open>
  Two boxes overlap when their interiors meet: on every axis the intervals share more
  than a point. A list of boxes is disjoint when no two of its boxes overlap. A box lies
  in the slab \<open>lo \<le> x_i \<le> hi\<close> when its side on axis \<open>i\<close> does.
\<close>

definition boxes_overlap :: "box \<Rightarrow> box \<Rightarrow> bool" where
  "boxes_overlap b1 b2 = list_all2 (\<lambda>(l1, h1) (l2, h2). max l1 l2 < min h1 h2) b1 b2"

fun disjoint_boxes :: "box list \<Rightarrow> bool" where
  "disjoint_boxes [] = True"
| "disjoint_boxes (b # bs) = (list_all (\<lambda>b'. \<not> boxes_overlap b b') bs \<and> disjoint_boxes bs)"

definition in_slab :: "nat \<Rightarrow> real \<Rightarrow> real \<Rightarrow> box \<Rightarrow> bool" where
  "in_slab i lo hi b \<longleftrightarrow> i < length b \<and> lo \<le> fst (b ! i) \<and> snd (b ! i) \<le> hi"

lemmas building_defs [model_simps] = north0_def north1_def north2_def north_def
  south0_def south1_def south2_def south3_def south_def east0_def east1_def east2_def east_def
  west0_def west1_def west2_def west3_def west4_def west_def

section \<open>The walls as boxes\<close>

lemma GRID3_boxes:
  "GRID [a, b, c] = Inr (map box_cell (grid_boxes [quote_ivs 0 a, quote_ivs 0 b, quote_ivs 0 c]))"
  by (simp add: GRID_eq_boxes)

lemma south_block_box: "south_block = [box_cell [(0, 0.4), (8.75, 10.25), (8.35, 11.55)]]"
  by (simp add: south_block_def T_def CUBOID_def set_coord_def coord_def pad_def hpc_map_def)

lemma north_boxes:
  "north = Inr (map box_cell
     (grid_boxes [quote_ivs 0 [-17.5, 0.4], quote_ivs 0 [0.4, -8, 1.4, -0.45, 0.4], quote_ivs 0 [-4, 12.7]]
    @ grid_boxes [quote_ivs 0 [-17.5, 0.4], quote_ivs 0 [-0.4, 8],
                  quote_ivs 0 [-4, 2.15, -1.6, 2.15, -1.6, 2.15, -1.55, 1.5]]
    @ grid_boxes [quote_ivs 0 [-17.5, 0.4], quote_ivs 0 [-9.75, 0.5],
                  quote_ivs 0 [-4, 0.5, -4, 0.5, -3.5, 0.5, -3.3, 0.4]]))"
  by (simp only: north_def north0_def north1_def north2_def GRID3_boxes list.map(1,2)
        traverse_id_Inr rbind_Inr) (simp add: STRUCT_def)

lemma south_boxes:
  "south = Inr (map box_cell
     (grid_boxes [quote_ivs 0 [0.4], quote_ivs 0 [10.65],
                  quote_ivs 0 [-4, -0.5, -3.2, 0.65, -3.2, 1.8, -1.85, 1.5]]
    @ grid_boxes [quote_ivs 0 [0.4], quote_ivs 0 [0.55, -1.3, 0.4, -8, 0.4],
                  quote_ivs 0 [-4, 0.5, 3.2, -0.65, 3.2, -1.8, -1.85]]
    @ grid_boxes [quote_ivs 0 [0.4], quote_ivs 0 [0.2, -1.9, 0.2],
                  quote_ivs 0 [-4, -0.5, -3.2, -0.65, -3.2, -1.8, 1.85]]
    @ grid_boxes [quote_ivs 0 [0.4], quote_ivs 0 [-0.55, -1.3, -0.4, 8], quote_ivs 0 [-4, 0.5]]
    @ [[(0, 0.4), (8.75, 10.25), (8.35, 11.55)]]))"
  by (simp only: south_def south0_def south1_def south2_def south3_def GRID3_boxes list.map(1,2)
        traverse_id_Inr rbind_Inr) (simp add: STRUCT_def south_block_box)

lemma east_boxes:
  "east = Inr (map box_cell
     (grid_boxes [quote_ivs 0 [-8.75, 0.4, -4, 4.75], quote_ivs 0 [0.4], quote_ivs 0 [-4, 12.7]]
    @ grid_boxes [quote_ivs 0 [8.75], quote_ivs 0 [0.4], quote_ivs 0 [-4, 9.35, -1.85, 1.5]]
    @ grid_boxes [quote_ivs 0 [-8.75, -0.4, 4], quote_ivs 0 [0.4],
                  quote_ivs 0 [-4, 2.1, -1.6, 2.1, -1.6, 2.1, -1.6, 1.6]]))"
  by (simp only: east_def east0_def east1_def east2_def GRID3_boxes list.map(1,2)
        traverse_id_Inr rbind_Inr) (simp add: STRUCT_def)

lemma west_boxes:
  "west = Inr (map box_cell
     (grid_boxes [quote_ivs 0 [17.9], quote_ivs 0 [-10.25, 0.4],
                  quote_ivs 0 [-2.9, -0.9, 2.4, -1.6, 2.1, -1.6, 5.2]]
    @ grid_boxes [quote_ivs 0 [15.2], quote_ivs 0 [-10.25, 0.4], quote_ivs 0 [2.9]]
    @ grid_boxes [quote_ivs 0 [11.6, -0.9, 2.7], quote_ivs 0 [-10.25, 0.4], quote_ivs 0 [-2.9, 0.9]]
    @ grid_boxes [quote_ivs 0 [10, -4, 3.9], quote_ivs 0 [-10.25, 0.4], quote_ivs 0 [-2.9, -0.9, -2.4, 1.6]]
    @ grid_boxes [quote_ivs 0 [14.2, -0.2, 0.9, -0.2, 2.4], quote_ivs 0 [-10.25, 0.4],
                  quote_ivs 0 [-2.9, -0.9, -2.4, -1.6, -2.1, 1.6]]))"
  by (simp only: west_def west0_def west1_def west2_def west3_def west4_def GRID3_boxes list.map(1,2)
        traverse_id_Inr rbind_Inr) (simp add: STRUCT_def)

section \<open>Properties of the walls\<close>

text \<open>
  C19: the south, east and west enclosures are made of boxes that stay in their 0.4 thick
  wall slab (south: \<open>0 \<le> x \<le> 0.4\<close>; east: \<open>0 \<le> y \<le> 0.4\<close>; west:
  \<open>10.25 \<le> y \<le> 10.65\<close>) and no two of which overlap.
\<close>

theorem facade_walls_disjoint:
  "(\<exists>Bs. south = Inr (map box_cell Bs) \<and> list_all (in_slab 0 0 0.4) Bs \<and> disjoint_boxes Bs)
 \<and> (\<exists>Bs. east = Inr (map box_cell Bs) \<and> list_all (in_slab 1 0 0.4) Bs \<and> disjoint_boxes Bs)
 \<and> (\<exists>Bs. west = Inr (map box_cell Bs) \<and> list_all (in_slab 1 10.25 10.65) Bs \<and> disjoint_boxes Bs)"
proof (intro conjI)
  show "\<exists>Bs. south = Inr (map box_cell Bs) \<and> list_all (in_slab 0 0 0.4) Bs \<and> disjoint_boxes Bs"
    unfolding south_boxes by (rule exI, rule conjI, rule refl) (simp add: in_slab_def boxes_overlap_def)
  show "\<exists>Bs. east = Inr (map box_cell Bs) \<and> list_all (in_slab 1 0 0.4) Bs \<and> disjoint_boxes Bs"
    unfolding east_boxes by (rule exI, rule conjI, rule refl) (simp add: in_slab_def boxes_overlap_def)
  show "\<exists>Bs. west = Inr (map box_cell Bs) \<and> list_all (in_slab 1 10.25 10.65) Bs \<and> disjoint_boxes Bs"
    unfolding west_boxes by (rule exI, rule conjI, rule refl) (simp add: in_slab_def boxes_overlap_def)
qed

text \<open>
  C20: the north enclosure stays in its slab \<open>17.5 \<le> x \<le> 17.9\<close>, but two of its
  pieces overlap: \<open>north2\<close>'s small infills at \<open>9.75 \<le> y \<le> 10.25\<close> reach
  0.05 into \<open>north0\<close>'s solid pier at \<open>8.4 \<le> y \<le> 9.8\<close>, whose gap beside
  them is only 0.45 wide.
\<close>

theorem north_pieces_overlap:
  "\<exists>Bs. north = Inr (map box_cell Bs) \<and> list_all (in_slab 0 17.5 17.9) Bs
     \<and> [(17.5, 17.9), (8.4, 9.8), (4, 16.7)] \<in> set Bs
     \<and> [(17.5, 17.9), (9.75, 10.25), (4, 4.5)] \<in> set Bs
     \<and> boxes_overlap [(17.5, 17.9), (8.4, 9.8), (4, 16.7)] [(17.5, 17.9), (9.75, 10.25), (4, 4.5)]"
  unfolding north_boxes by (rule exI, rule conjI, rule refl) (simp add: in_slab_def boxes_overlap_def)

section \<open>Properties of the ground floor outline\<close>

lemma floor_rectangles:
  "floor00 = Inr [box_cell [(2.7, 15.1), (6.5, 9.85)]]"
  "floor03 = Inr [box_cell [(2.7, 3.8), (2.6, 3.7)]]"
  by (simp_all add: floor00_def floor03_def DOMAIN_valid uniform_ivs_def)

text \<open>
  C27: the rounded east end of the ground floor (\<open>floor01\<close>) is a half disc of radius
  1.675 whose diameter is the east edge \<open>x = 15.1\<close>, \<open>6.5 \<le> y \<le> 9.85\<close> of the
  rectangle \<open>floor00\<close>: each vertex is the centre \<open>(15.1, 8.175)\<close> or lies on the
  circle, east of the edge and within the edge's extent.
\<close>

theorem floor01_on_floor00_edge:
  "floor00 = Inr [box_cell [(2.7, 15.1), (6.5, 9.85)]] \<and>
   (\<exists>h. floor01 = Inr h \<and> length h = 36 \<and>
     (\<forall>c \<in> set h. \<forall>p \<in> set c. length p = 2 \<and> 15.1 \<le> p ! 0 \<and> 6.5 \<le> p ! 1 \<and> p ! 1 \<le> 9.85 \<and>
        ((p ! 0 - 15.1)\<^sup>2 + (p ! 1 - 8.175)\<^sup>2 = 0 \<or> (p ! 0 - 15.1)\<^sup>2 + (p ! 1 - 8.175)\<^sup>2 = 1.675\<^sup>2)))"
proof -
  let ?r = "1.675 :: real"
  let ?f = "\<lambda>p. T [1, 2] [15.1, 9.85 - 1.675] (R (1, 2) (- pi / 2) p)"
  have r_pos: "0 < ?r" by simp
  obtain h where h: "circular_sector pi ?r = Inr h" and len: "length h = 36"
    using circular_sector_cells [of pi ?r] by (simp add: MAP_def length_uniform_ivs)
  have vert: "length (?f p) = 2 \<and> 15.1 \<le> ?f p ! 0 \<and> 6.5 \<le> ?f p ! 1 \<and> ?f p ! 1 \<le> 9.85 \<and>
      ((?f p ! 0 - 15.1)\<^sup>2 + (?f p ! 1 - 8.175)\<^sup>2 = 0 \<or> (?f p ! 0 - 15.1)\<^sup>2 + (?f p ! 1 - 8.175)\<^sup>2 = ?r\<^sup>2)"
    if "c \<in> set h" "p \<in> set c" for c p
    using circular_sector_vertex [OF pi_gt_zero r_pos h that]
  proof (elim disjE exE conjE)
    assume p: "p = [0, 0]"
    show ?thesis by (simp only: p R_12_plane T_12_plane) simp
  next
    fix a assume a: "0 \<le> a" "a \<le> pi" and p: "p = [?r * cos a, ?r * sin a]"
    have s0: "0 \<le> sin a" using a by (rule sin_ge_zero)
    have y1: "6.5 \<le> 8.175 - ?r * cos a"
      using cos_le_one [of a] by (simp add: field_simps)
    have y2: "8.175 - ?r * cos a \<le> 9.85"
      using cos_ge_minus_one [of a] by (simp add: field_simps del: cos_ge_minus_one)
    note sq = polar_norm_sq [of ?r a]
    show ?thesis
      by (simp only: p R_12_plane T_12_plane) (insert s0 y1 y2 sq, simp)
  qed
  have fl: "floor01 = Inr (hpc_map ?f h)"
    by (simp only: floor01_def h rbind_Inr hpc_map_comp comp_def)
  have len': "length (hpc_map ?f h) = 36" using len by simp
  have all: "\<forall>c \<in> set (hpc_map ?f h). \<forall>p \<in> set c. length p = 2 \<and> 15.1 \<le> p ! 0 \<and>
      6.5 \<le> p ! 1 \<and> p ! 1 \<le> 9.85 \<and>
      ((p ! 0 - 15.1)\<^sup>2 + (p ! 1 - 8.175)\<^sup>2 = 0 \<or> (p ! 0 - 15.1)\<^sup>2 + (p ! 1 - 8.175)\<^sup>2 = 1.675\<^sup>2)"
  proof (intro ballI)
    fix c p assume "c \<in> set (hpc_map ?f h)" and "p \<in> set c"
    then obtain c0 p0 where "c0 \<in> set h" "p0 \<in> set c0" and "p = ?f p0"
      by (auto simp: hpc_map_def)
    with vert show "length p = 2 \<and> 15.1 \<le> p ! 0 \<and> 6.5 \<le> p ! 1 \<and> p ! 1 \<le> 9.85 \<and>
      ((p ! 0 - 15.1)\<^sup>2 + (p ! 1 - 8.175)\<^sup>2 = 0 \<or> (p ! 0 - 15.1)\<^sup>2 + (p ! 1 - 8.175)\<^sup>2 = 1.675\<^sup>2)"
      by blast
  qed
  show ?thesis
    by (rule conjI [OF floor_rectangles(1) exI [of _ "hpc_map ?f h"]]) (intro conjI fl len' all)
qed

section \<open>Witnesses of the grid helpers' theorems\<close>

theorem GRID_spec_witness:
  "north0 = Inr (map box_cell [[(17.5, 17.9), (0, 0.4), (4, 16.7)], [(17.5, 17.9), (8.4, 9.8), (4, 16.7)],
                               [(17.5, 17.9), (10.25, 10.65), (4, 16.7)]])"
  using GRID_spec [of "[[-17.5, 0.4], [0.4, -8, 1.4, -0.45, 0.4], [-4, 12.7]]"]
  by (simp add: north0_def)

theorem DOMAIN_spec_witness: "floor00 = Inr [box_cell [(2.7, 15.1), (6.5, 9.85)]]"
  using DOMAIN_spec [of "[[2.7, 15.1], [6.5, 9.85]]" "[1, 1]"]
  by (simp add: floor00_def uniform_ivs_def)

theorem DOMAIN_empty_iff_witness: "DOMAIN [[2.7, 15.1], [6.5, 9.85]] [1, 0] = Inr []"
proof -
  have "\<exists>i < length [[2.7, 15.1], [6.5, 9.85 :: real]].
      [1, 0 :: int] ! i \<le> 0 \<or> [[2.7, 15.1], [6.5, 9.85 :: real]] ! i ! 1 \<le> [[2.7, 15.1], [6.5, 9.85]] ! i ! 0"
    by (rule exI [of _ 1]) simp
  then show ?thesis
    using DOMAIN_empty_iff [of "[[2.7, 15.1], [6.5, 9.85]]" "[1, 0]"] by simp
qed

theorem annulus_sector_polar_witness:
  "\<exists>h. annulus_sector pi 1 2 = Inr h \<and> length h = 36 \<and>
     (\<forall>c \<in> set h. length c = 4 \<and> (\<forall>p \<in> set c. \<exists>a \<rho>. 0 \<le> a \<and> a \<le> pi \<and> (\<rho> = 1 \<or> \<rho> = 2) \<and>
        p = [\<rho> * cos a, \<rho> * sin a]))"
  using annulus_sector_polar [of pi 1 2] by simp

theorem floor01_on_floor00_edge_witness:
  "\<exists>h. floor01 = Inr h \<and> length h = 36"
  using floor01_on_floor00_edge by blast

end
