(* ===== verification/Pillars.thy ===== *)
theory Pillars
  imports Kernel
begin

text \<open>
  The pillars of the building model (\<open>src/2013-04-05/python/exercise3.py\<close>, lines
  71--91): four levels of pillars, each level a \<open>STRUCT\<close> that walks along the south
  row and then the north row, placing a pillar and then translating everything that
  follows by the spacing 4.375 (\<open>NN(n)([pillar, T([1])([4.375])])\<close>), with an
  explicit translation back to the start of the row between the two rows. The lemmas
  turn these relative translations into the absolute position of every pillar
  (\<open>pillar_sites\<close>) and bound the pillars to the building's footprint and to their
  storey.
\<close>

section \<open>Definitions\<close>

definition roundedPillar :: hpc where
  "roundedPillar = hpc_map (T [1, 2] [0.2, 0.2]) (CYLINDER [0.2, 4] 12)"

definition squaredPillar :: hpc where
  "squaredPillar = CUBOID [0.4, 0.4, 4]"

definition smallPillar :: hpc where
  "smallPillar = CUBOID [0.25, 0.25, 4]"

definition pillars0South :: "item list" where
  "pillars0South = NN 5 [Obj roundedPillar, Tr (T [1] [4.375])]"

definition pillars0North :: "item list" where
  "pillars0North = [Tr (T [2] [8.35]), Obj roundedPillar] @ NN 4 [Tr (T [1] [4.375]), Obj squaredPillar]"

definition pillars0 :: "hpc result" where
  "pillars0 = STRUCT (pillars0South @ [Tr (T [1] [-4.375 * 5])] @ pillars0North)"

definition pillars1South :: "item list" where
  "pillars1South = NN 5 [Obj squaredPillar, Tr (T [1] [4.375])]"

definition pillars1North :: "item list" where
  "pillars1North = [Tr (T [2] [8.35])] @ NN 3 [Obj squaredPillar, Tr (T [1] [4.375])]
     @ [Obj roundedPillar, Tr (T [1] [4.375]), Obj squaredPillar]"

definition pillars1 :: "hpc result" where
  "pillars1 = STRUCT (pillars1South @ [Tr (T [1] [-4.375 * 5])] @ pillars1North)"

definition pillars2South :: "item list" where
  "pillars2South = NN 2 [Obj squaredPillar, Tr (T [1] [4.375])]
     @ [Tr (T [1] [4.375 * 2]), Obj squaredPillar]"

definition pillars2North :: "item list" where
  "pillars2North = [Tr (T [2] [8.35])] @ NN 5 [Obj squaredPillar, Tr (T [1] [4.375])]"

definition pillars2 :: "hpc result" where
  "pillars2 = STRUCT (pillars2South @ [Tr (T [1] [-17.5])] @ pillars2North)"

definition pillars3South :: "item list" where
  "pillars3South = [Tr (T [1] [4.375 * 2]), Obj squaredPillar, Tr (T [1] [4.375 * 2]), Obj squaredPillar]"

definition pillars3North :: "item list" where
  "pillars3North = [Tr (T [2] [8.35]), Obj (hpc_map (T [1, 2] [0.075, 0.075]) smallPillar),
     Obj (hpc_map (T [1, 2] [4.45, 0.075]) smallPillar), Tr (T [1] [4.375 * 2])]
     @ NN 3 [Obj squaredPillar, Tr (T [1] [4.375])]"

definition pillars3 :: "hpc result" where
  "pillars3 = STRUCT (pillars3South @ [Tr (T [1] [-17.5])] @ pillars3North)"

definition pillars :: "hpc result" where
  "pillars = rbind (traverse id [pillars0, pillars1, pillars2, pillars3])
     (\<lambda>ps. STRUCT [Obj (ps ! 0), Tr (T [3] [4]), Obj (ps ! 1), Tr (T [3] [4]), Obj (ps ! 2),
                   Tr (T [3] [4]), Obj (ps ! 3)])"

section \<open>The layout the translations produce\<close>

text \<open>
  \<open>place v h\<close> moves the 3D complex \<open>h\<close> by the vector \<open>v\<close>. \<open>pillar_sites\<close>
  lists, storey by storey, where each pillar stands: the south row at \<open>y = 0\<close> and
  the north row at \<open>y = 8.35\<close>, on the columns \<open>x = 4.375 i\<close>, storey \<open>l\<close> at
  \<open>z = 4 l\<close>; the two small pillars of the top storey are set in by 0.075.
\<close>

definition place :: "real list \<Rightarrow> hpc \<Rightarrow> hpc" where
  "place v h = hpc_map (\<lambda>p. map2 (+) p v) h"

definition pillar_sites :: "(real list \<times> hpc) list" where
  "pillar_sites =
     map (\<lambda>i. ([4.375 * i, 0, 0], roundedPillar)) [0, 1, 2, 3, 4]
     @ [([0, 8.35, 0], roundedPillar)]
     @ map (\<lambda>i. ([4.375 * i, 8.35, 0], squaredPillar)) [1, 2, 3, 4]
     @ map (\<lambda>i. ([4.375 * i, 0, 4], squaredPillar)) [0, 1, 2, 3, 4]
     @ map (\<lambda>i. ([4.375 * i, 8.35, 4], squaredPillar)) [0, 1, 2]
     @ [([4.375 * 3, 8.35, 4], roundedPillar), ([4.375 * 4, 8.35, 4], squaredPillar)]
     @ map (\<lambda>i. ([4.375 * i, 0, 8], squaredPillar)) [0, 1, 4]
     @ map (\<lambda>i. ([4.375 * i, 8.35, 8], squaredPillar)) [0, 1, 2, 3, 4]
     @ map (\<lambda>i. ([4.375 * i, 0, 12], squaredPillar)) [2, 4]
     @ [([0.075, 8.425, 12], smallPillar), ([4.45, 8.425, 12], smallPillar)]
     @ map (\<lambda>i. ([4.375 * i, 8.35, 12], squaredPillar)) [2, 3, 4]"

text \<open>
  \<open>in_box3 B p\<close>: the 3D point \<open>p\<close> lies in the box \<open>B\<close> (one closed interval
  per axis); \<open>dim3 h\<close>: every vertex of \<open>h\<close> is a 3D point.
\<close>

definition in_box3 :: "(real \<times> real) list \<Rightarrow> point \<Rightarrow> bool" where
  "in_box3 B p \<longleftrightarrow> length p = 3 \<and> list_all2 (\<lambda>(l, u) x. l \<le> x \<and> x \<le> u) B p"

definition dim3 :: "hpc \<Rightarrow> bool" where
  "dim3 h \<longleftrightarrow> list_all (list_all (\<lambda>p. length p = 3)) h"

section \<open>Lemmas\<close>

lemma dim3_hpc_map_cong:
  assumes "dim3 h" and "\<And>x y z. f [x, y, z] = g [x, y, z]"
  shows "hpc_map f h = hpc_map g h"
proof (rule hpc_map_cong)
  fix c p assume "c \<in> set h" "p \<in> set c"
  with assms(1) have "length p = 3" by (auto simp: dim3_def list_all_iff)
  then obtain x y z where "p = [x, y, z]" using len3_cases by blast
  then show "f p = g p" using assms(2) by simp
qed

lemma T_3d:
  "T [1] [a] [x, y, z] = [x + a, y, z]" "T [2] [b] [x, y, z] = [x, y + b, z]"
  "T [3] [c] [x, y, z] = [x, y, z + c]" "T [1, 2] [a, b] [x, y, z] = [x + a, y + b, z]"
  by (simp_all add: T_def coord_def set_coord_def pad_def)

lemma place_T:
  assumes "dim3 h"
  shows "hpc_map (T [1] [a]) h = place [a, 0, 0] h" "hpc_map (T [2] [b]) h = place [0, b, 0] h"
    "hpc_map (T [3] [c]) h = place [0, 0, c] h" "hpc_map (T [1, 2] [a, b]) h = place [a, b, 0] h"
  unfolding place_def
  by (rule dim3_hpc_map_cong [OF assms], simp only: T_3d, simp)+

lemma place_place:
  "dim3 h \<Longrightarrow> place [a, b, c] (place [d, e, f] h) = place [a + d, b + e, c + f] h"
  unfolding place_def hpc_map_comp by (rule dim3_hpc_map_cong) (simp_all add: algebra_simps)

lemma place_zero: "dim3 h \<Longrightarrow> place [0, 0, 0] h = h"
  unfolding place_def by (subst dim3_hpc_map_cong [where g = id]) (simp_all add: hpc_map_def)

lemma dim3_place: "dim3 h \<Longrightarrow> dim3 (place [a, b, c] h)"
  by (auto simp: dim3_def place_def hpc_map_def list_all_iff)

lemma dim3_append: "dim3 (h @ h') \<longleftrightarrow> dim3 h \<and> dim3 h'"
  by (simp add: dim3_def)

lemma dim3_CUBOID: "length s = 3 \<Longrightarrow> dim3 (CUBOID s)"
  by (auto simp: dim3_def CUBOID_def list_all_iff dest: length_box_cell_point)

lemma dim3_pillars: "dim3 roundedPillar" "dim3 squaredPillar" "dim3 smallPillar"
proof -
  show "dim3 squaredPillar" "dim3 smallPillar"
    by (simp_all add: squaredPillar_def smallPillar_def dim3_CUBOID)
  have "dim3 (CYLINDER [0.2, 4] 12)"
    by (auto simp: dim3_def CYLINDER_def list_all_iff)
  then show "dim3 roundedPillar"
    unfolding roundedPillar_def by (simp only: place_T dim3_place)
qed

lemmas pillars_item_defs = pillars0_def pillars0South_def pillars0North_def pillars1_def
  pillars1South_def pillars1North_def pillars2_def pillars2South_def pillars2North_def
  pillars3_def pillars3South_def pillars3North_def

lemma NN_unfold:
  "NN 2 xs = xs @ xs" "NN 3 xs = xs @ xs @ xs" "NN 4 xs = xs @ xs @ xs @ xs"
  "NN 5 xs = xs @ xs @ xs @ xs @ xs"
  by (simp_all add: NN_def numeral_eq_Suc)

lemma place_T_Suc:
  assumes "dim3 h"
  shows "hpc_map (T [Suc 0] [a]) h = place [a, 0, 0] h"
    "hpc_map (T [Suc 0, 2] [a, b]) h = place [a, b, 0] h"
  using place_T [OF assms] by simp_all

lemmas place_rules = place_T place_T_Suc place_place place_zero dim3_place dim3_append dim3_pillars

lemma pillars_eq: "pillars = Inr (concat (map (\<lambda>(v, h). place v h) pillar_sites))"
  by (simp add: pillars_def pillars_item_defs NN_unfold STRUCT_def place_rules pillar_sites_def
      del: hpc_map_comp)

lemma in_box3_iff:
  "in_box3 [(l0, u0), (l1, u1), (l2, u2)] p \<longleftrightarrow>
     (\<exists>x y z. p = [x, y, z] \<and> l0 \<le> x \<and> x \<le> u0 \<and> l1 \<le> y \<and> y \<le> u1 \<and> l2 \<le> z \<and> z \<le> u2)"
  by (auto simp: in_box3_def length_Suc_conv numeral_3_eq_3)

lemma place_in_box:
  assumes "list_all (list_all (in_box3 [(l0, u0), (l1, u1), (l2, u2)])) h"
  shows "list_all (list_all (in_box3 [(l0 + a, u0 + a), (l1 + b, u1 + b), (l2 + c, u2 + c)]))
           (place [a, b, c] h)"
  using assms by (fastforce simp: place_def hpc_map_def list_all_iff in_box3_iff)

lemma box3_mono:
  assumes "list_all (list_all (in_box3 [(l0, u0), (l1, u1), (l2, u2)])) h"
    and "L0 \<le> l0" "u0 \<le> U0" "L1 \<le> l1" "u1 \<le> U1" "L2 \<le> l2" "u2 \<le> U2"
  shows "list_all (list_all (in_box3 [(L0, U0), (L1, U1), (L2, U2)])) h"
  using assms by (fastforce simp: list_all_iff in_box3_iff)

lemma scaled_trig_bounds:
  fixes r t :: real
  assumes "0 \<le> r"
  shows "- r \<le> r * cos t" "r * cos t \<le> r" "- r \<le> r * sin t" "r * sin t \<le> r"
proof -
  have "\<bar>r * cos t\<bar> \<le> r" "\<bar>r * sin t\<bar> \<le> r"
    using assms abs_cos_le_one [of t] abs_sin_le_one [of t]
    by (simp_all add: abs_mult mult_left_le)
  then show "- r \<le> r * cos t" "r * cos t \<le> r" "- r \<le> r * sin t" "r * sin t \<le> r"
    by (simp_all add: abs_le_iff)
qed

lemma CUBOID_in_box3: "list_all (list_all (in_box3 [(0, w), (0, w), (0, 4)])) (CUBOID [w, w, 4])"
  if "0 \<le> w" for w :: real
  using that by (auto simp: CUBOID_def list_all_iff in_box3_iff)

lemma pillars_in_box3:
  "list_all (list_all (in_box3 [(0, 0.4), (0, 0.4), (0, 4)])) roundedPillar"
  "list_all (list_all (in_box3 [(0, 0.4), (0, 0.4), (0, 4)])) squaredPillar"
  "list_all (list_all (in_box3 [(0, 0.25), (0, 0.25), (0, 4)])) smallPillar"
proof -
  have cyl: "list_all (list_all (in_box3 [(-0.2, 0.2), (-0.2, 0.2), (0, 4)])) (CYLINDER [0.2, 4] 12)"
    using scaled_trig_bounds [of "0.2"] by (auto simp: CYLINDER_def list_all_iff in_box3_def)
  have d: "dim3 (CYLINDER [0.2, 4] 12)"
    by (auto simp: dim3_def CYLINDER_def list_all_iff)
  show "list_all (list_all (in_box3 [(0, 0.4), (0, 0.4), (0, 4)])) roundedPillar"
    unfolding roundedPillar_def place_T [OF d]
    by (rule box3_mono [OF place_in_box [OF cyl]]) simp_all
  show "list_all (list_all (in_box3 [(0, 0.4), (0, 0.4), (0, 4)])) squaredPillar"
    "list_all (list_all (in_box3 [(0, 0.25), (0, 0.25), (0, 4)])) smallPillar"
    by (simp_all add: squaredPillar_def smallPillar_def CUBOID_in_box3)
qed

section \<open>Properties of the pillars\<close>

text \<open>
  C23: every vertex of the pillars is a 3D point in the building's footprint
  \<open>0 \<le> x \<le> 17.9\<close>, \<open>0 \<le> y \<le> 8.75\<close>, at a height \<open>0 \<le> z \<le> 16\<close> (four
  storeys of 4).
\<close>

theorem pillars_footprint:
  "\<exists>h. pillars = Inr h \<and> list_all (list_all (in_box3 [(0, 17.9), (0, 8.75), (0, 16)])) h"
proof -
  have "list_all (list_all (in_box3 [(0, 17.9), (0, 8.75), (0, 16)])) (place v h)"
    if "(v, h) \<in> set pillar_sites" for v h
    using that unfolding pillar_sites_def
    by (auto intro!: box3_mono [OF place_in_box] pillars_in_box3)
  then show ?thesis by (auto simp: pillars_eq list_all_iff)
qed

end
