(* ===== verification/Floors.thy ===== *)
theory Floors
  imports Building Pillars
begin

text \<open>
  The floors and the whole building of \<open>src/2013-04-05/python/exercise3.py\<close> (lines
  99--122): the ground floor slab extruded from its outline, the three upper floors made
  of \<open>GRID\<close>s, cuboids and, on the second floor, a triangular piece next to the stairs,
  the roof slab and the ground plate, all moved by 0.4 along y and put together with the
  pillars and the enclosures; \<open>COLOR\<close> keeps the geometry (theory \<open>Kernel\<close>).
  The lemmas place each floor at its storey's height and show how the second floor's
  pieces meet without overlapping.
\<close>

section \<open>Definitions\<close>

definition floor0 :: "hpc result" where
  "floor0 = rbind (traverse id [floor00, floor01, floor02, floor03, floor04])
     (\<lambda>hs. rbind (STRUCT (map Obj hs)) (\<lambda>s. Inr (EXTRUDE 3 s 0.3)))"

definition floor10 :: "hpc result" where
  "floor10 = rbind (GRID [[4, -7.3, 8.2], [1.7], [0.5]])
     (\<lambda>g. Inr (hpc_map (T [1, 2, 3] [-1.6, 8.2, 4]) g))"

definition floor11 :: hpc where
  "floor11 = hpc_map (T [3] [4]) (CUBOID [17.9, 8.2, 0.5])"

definition floor1 :: "hpc result" where
  "floor1 = rbind floor10 (\<lambda>f10. STRUCT [Obj f10, Obj floor11])"

definition floor20 :: "hpc result" where
  "floor20 = rbind (GRID [[-7.5, 1.3, 4.375, 4.7], [1.7], [0.5]])
     (\<lambda>g. Inr (hpc_map (T [2, 3] [8.2, 8]) g))"

definition floor21 :: "hpc result" where
  "floor21 = rbind (MKPOL [[7.5, 8.2], [8.8, 8.2], [8.8, 0.4]] [[1, 2, 3]])
     (\<lambda>p. Inr (hpc_map (T [3] [8]) (EXTRUDE 3 p 0.5)))"

definition floor22 :: hpc where
  "floor22 = hpc_map (T [1, 3] [8.8, 8]) (CUBOID [9.085, 8.2, 0.5])"

definition floor2 :: "hpc result" where
  "floor2 = rbind (traverse id [floor20, floor21]) (\<lambda>hs. STRUCT [Obj (hs ! 0), Obj (hs ! 1), Obj floor22])"

definition floor30 :: "hpc result" where
  "floor30 = rbind (GRID [[9.15, -4.85, 3.5], [1.5], [0.5]])
     (\<lambda>g. Inr (hpc_map (T [2, 3] [8.75, 12]) g))"

definition floor31 :: hpc where
  "floor31 = hpc_map (T [3] [12]) (CUBOID [17.5, 8.75, 0.5])"

definition floor3 :: "hpc result" where
  "floor3 = rbind floor30 (\<lambda>f30. STRUCT [Obj f30, Obj floor31])"

definition floor4 :: hpc where
  "floor4 = hpc_map (T [3] [15.95]) (CUBOID [17.9, 10, 0.75])"

definition ground :: hpc where
  "ground = hpc_map (T [1, 2] [-6, -4]) (COLOR [0, 1, 0] (CUBOID [30, 18, -0.1]))"

definition floors :: "hpc result" where
  "floors = rbind (traverse id [floor0, floor1, floor2, floor3])
     (\<lambda>hs. rbind (STRUCT [Obj (hs ! 0), Obj (hs ! 1), Obj (hs ! 2), Obj (hs ! 3), Obj floor4, Obj ground])
       (\<lambda>s. Inr (hpc_map (T [2] [0.4]) s)))"

definition building :: "hpc result" where
  "building = rbind (traverse id [pillars, floors, vertical_enclosures]) (\<lambda>hs. STRUCT (map Obj hs))"

text \<open>\<open>z_between lo hi h\<close>: every vertex of \<open>h\<close> has its height in \<open>[lo, hi]\<close>.\<close>

definition z_between :: "real \<Rightarrow> real \<Rightarrow> hpc \<Rightarrow> bool" where
  "z_between lo hi h \<longleftrightarrow> list_all (list_all (\<lambda>p. lo \<le> coord p 2 \<and> coord p 2 \<le> hi)) h"

section \<open>Lemmas\<close>

lemmas T_eval = T_def set_coord_def pad_def coord_def

lemma upper_floors_slabs:
  "\<exists>h1 h2 h3. floor1 = Inr h1 \<and> floor2 = Inr h2 \<and> floor3 = Inr h3 \<and>
     z_between 4 4.5 h1 \<and> z_between 8 8.5 h2 \<and> z_between 12 12.5 h3 \<and> z_between 15.95 16.7 floor4"
  by (simp add: floor1_def floor10_def floor11_def floor2_def floor20_def floor21_def floor22_def
      floor3_def floor30_def floor31_def floor4_def GRID3_boxes STRUCT_def CUBOID_def hpc_map_def
      MKPOL_def EXTRUDE_def PROD2_def QUOTE_def T_eval z_between_def)

lemma EXTRUDE_z_between:
  assumes "list_all (list_all (\<lambda>p. length p = 2)) h" and "0 < t"
  shows "z_between 0 t (EXTRUDE n h t)"
  using assms by (auto simp: z_between_def EXTRUDE_def PROD2_def QUOTE_def list_all_iff coord_def nth_append)

lemma planar_sector:
  assumes "0 < alpha" and "0 < r"
    and "\<And>x y. length (f [x, y]) = 2"
  shows "\<exists>h. rbind (circular_sector alpha r) (\<lambda>c. Inr (hpc_map f c)) = Inr h
           \<and> list_all (list_all (\<lambda>p. length p = 2)) h"
  using assms by (auto simp: circular_sector_cells MAP_def hpc_map_def annulus_mapping_def list_all_iff)

lemma floor0_slab: "\<exists>h. floor0 = Inr h \<and> z_between 0 0.3 h"
proof -
  have len: "length ((T [1, 2] [a, b] \<circ> R (1, 2) c) [x, y]) = 2" for a b c x y
    by (simp only: comp_apply R_12_plane T_12_plane) simp
  obtain h1 where h1: "floor01 = Inr h1" "list_all (list_all (\<lambda>p. length p = 2)) h1"
    using planar_sector [of pi "1.675" "T [1, 2] [15.1, 9.85 - 1.675] \<circ> R (1, 2) (- pi / 2)"] len
    by (auto simp: floor01_def)
  obtain h4 where h4: "floor04 = Inr h4" "list_all (list_all (\<lambda>p. length p = 2)) h4"
    using planar_sector [of pi "0.55" "T [1, 2] [3.25, 2.6] \<circ> R (1, 2) pi"] len
    by (auto simp: floor04_def)
  have f02: "floor02 = Inr [box_cell [(2.7, 13.125), (3.7, 6.5)]]"
    by (simp add: floor02_def DOMAIN_valid uniform_ivs_def)
  have "z_between 0 0.3 (EXTRUDE 3 (box_cell [(2.7, 15.1), (6.5, 9.85)] # h1
          @ box_cell [(2.7, 13.125), (3.7, 6.5)] # box_cell [(2.7, 3.8), (2.6, 3.7)] # h4) 0.3)"
    using h1(2) h4(2) by (intro EXTRUDE_z_between) simp_all
  then show ?thesis
    by (simp add: floor0_def floor_rectangles h1(1) h4(1) f02 STRUCT_def)
qed

section \<open>Properties of the floors and the building\<close>

text \<open>
  C24: every floor lies in its storey's slab: the ground floor slab, extruded from its
  outline, at heights 0 to 0.3, the first three upper floors at 4 to 4.5, 8 to 8.5 and
  12 to 12.5, and the roof at 15.95 to
  16.7.
\<close>

theorem floors_storeys:
  "\<exists>h0 h1 h2 h3. floor0 = Inr h0 \<and> floor1 = Inr h1 \<and> floor2 = Inr h2 \<and> floor3 = Inr h3 \<and>
     z_between 0 0.3 h0 \<and> z_between 4 4.5 h1 \<and> z_between 8 8.5 h2 \<and> z_between 12 12.5 h3 \<and>
     z_between 15.95 16.7 floor4"
  using floor0_slab upper_floors_slabs by blast

text \<open>
  C25: the three pieces of the second floor are pairwise separated by a plane, so they
  do not overlap: \<open>floor20\<close> lies in \<open>y \<ge> 8.2\<close>, the triangular piece
  \<open>floor21\<close> in \<open>x \<le> 8.8, y \<le> 8.2\<close> and \<open>floor22\<close> in
  \<open>x \<ge> 8.8, y \<le> 8.2\<close>; the plane \<open>y = 8.2\<close> separates \<open>floor20\<close> from the
  other two and the plane \<open>x = 8.8\<close> separates \<open>floor21\<close> from \<open>floor22\<close>.
\<close>

theorem floor2_stair_corner:
  "\<exists>f20 f21. floor20 = Inr f20 \<and> floor21 = Inr f21
     \<and> list_all (list_all (\<lambda>p. 8.2 \<le> coord p 1)) f20
     \<and> list_all (list_all (\<lambda>p. coord p 0 \<le> 8.8 \<and> coord p 1 \<le> 8.2)) f21
     \<and> list_all (list_all (\<lambda>p. 8.8 \<le> coord p 0 \<and> coord p 1 \<le> 8.2)) floor22"
  by (simp add: floor20_def floor21_def floor22_def GRID3_boxes CUBOID_def hpc_map_def
      MKPOL_def EXTRUDE_def PROD2_def QUOTE_def T_eval)

text \<open>
  C26: the whole building script runs without raising: every \<open>GRID\<close>, \<open>DOMAIN\<close>,
  \<open>MKPOL\<close> and \<open>STRUCT\<close> of the pillars, the floors and the enclosures succeeds.
\<close>

theorem building_ok: "\<exists>h. building = Inr h"
proof -
  obtain h0 where h0: "floor0 = Inr h0" using floor0_slab by blast
  obtain h1 h2 h3 where h: "floor1 = Inr h1" "floor2 = Inr h2" "floor3 = Inr h3"
    using upper_floors_slabs by blast
  obtain wn ws we ww where w: "north = Inr wn" "south = Inr ws" "east = Inr we" "west = Inr ww"
    using north_boxes south_boxes east_boxes west_boxes by blast
  show ?thesis
    by (simp add: building_def pillars_eq floors_def vertical_enclosures_def h0 h w STRUCT_def)
qed

end
