(* ===== verification/Spec2Isabelle.thy ===== *)
theory Spec2Isabelle
  imports CarAssembly Floors
begin

text \<open>
  \<^bold>\<open>A verification library for the pyplasm exercises of cvdlab-cg/413937.\<close>

  The repository holds two Python 2 scripts that build scenes with the pyplasm
  solid-modelling library: \<open>src/2013-04-05/python/exercise3.py\<close>, the vertical
  enclosures and the ground floor of a building, and
  \<open>src/2013-05-10/python/exercise3.py\<close>, the body and wheels of a car. Each script
  opens with small helper functions and then applies them to literal coordinate data.
  The helpers call pyplasm's operators; the data calls the helpers. This library follows
  the same layering.

  \<^bold>\<open>Theories and what they model.\<close>
  \<^item> \<open>Prelude\<close>: the types \<open>point\<close> (a list of reals), \<open>cell\<close> (a list of
    vertices) and \<open>hpc\<close> (a list of cells, pyplasm's complexes flattened). It also has
    the Python exceptions as \<open>py_error\<close> and the result type \<open>py_error + 'a\<close> with
    its bind \<open>rbind\<close>. \<open>traverse\<close> is Python's eager \<open>map\<close>, which stops at the
    first exception. The list lemmas the components share are here too.
  \<^item> \<open>Kernel\<close>: the pyplasm operators the helpers call, modelled from pyplasm's
    documentation and the spec because pyplasm is not code of this repository:
    \<open>T\<close>, \<open>S\<close>, \<open>R\<close> (1-based axes, points padded with zeros), \<open>MAP\<close>,
    \<open>QUOTE\<close>, \<open>INTERVALS\<close>, \<open>PROD\<close> on complexes (\<open>PROD2\<close>), \<open>INSR\<close>,
    \<open>MKPOL\<close>, \<open>UKPOL\<close>, \<open>STRUCT\<close>, \<open>CUBOID\<close>, \<open>CYLINDER\<close> (a prism over
    a regular polygon), \<open>EXTRUDE\<close> (the product with a segment), \<open>NN\<close>, \<open>POLYLINE\<close>,
    \<open>BEZIER\<close> (Bernstein form), \<open>CUBICUBSPLINE\<close> (uniform cubic B-spline basis
    \<open>ubs_basis\<close>), \<open>SPLINE\<close> (one curve per window of four control points),
    \<open>ROTATIONALSURFACE\<close> (ValueError unless the domain point is a pair and the
    profile point has three coordinates; \<open>revolve\<close> is its map once both unpack),
    \<open>MAP\<close> with a map that can raise (\<open>MAP_result\<close>), \<open>COLOR\<close> (which keeps
    the geometry), and
    \<open>PROD\<close>/\<open>SUM\<close> on numbers. It also has the abstract view of a grid cell as a box (\<open>box_cell\<close>,
    \<open>quote_ivs\<close>, \<open>grid_boxes\<close>) and the lemmas on rotations (composition,
    period \<open>2 pi\<close>), translations and the \<open>UKPOL\<close>/\<open>MKPOL\<close> index round trip.
  \<^item> \<open>PointOps\<close>: \<open>AAPOINTS\<close> (lines 31--38 of the 2013-05-10 script) and
    \<open>MIRROR\<close> (lines 40--48), with their IndexError branches. \<open>reflect_point\<close> is
    their specification. The lemmas show the coordinates and the errors of
    \<open>AAPOINTS\<close>. For \<open>MIRROR\<close> they show the refinement
    \<open>points @ rev (map reflect points)\<close>, the length, the round trip, symmetry, the
    errors, the seam point, when the profile closes up, and that an axis outside the
    points' dimension is accepted and mirrors nothing.
  \<^item> \<open>Car\<close>: the control-point lists of the car body and views (lines 69--147) built
    with those helpers, and the witnesses of the \<open>PointOps\<close> theorems at these inputs.
  \<^item> \<open>CarSide\<close>: the side view of the car (lines 66--99): the Bezier arcs and
    polylines of the wheel arches, bumper, fender, glass, roof, back and bottom line.
    The lemmas give the end points of a Bezier arc and its convex-hull bound. They show
    that the whole outline is closed (every vertex has even degree) and give its bounding
    rectangle.
  \<^item> \<open>CarViews\<close>: the up, back and front views and their assembly \<open>exercise2\<close>
    (lines 101--118). Python's \<open>back\<close> is \<open>back_view\<close>. The lemmas show that
    consecutive B-spline segments join, so that a spline is a chain between the points
    its first and last four control points give; with tripled end points these are the
    end points themselves. From this each view is a closed outline. They also show
    where \<open>exercise2\<close> puts each view: the side in the plane \<open>y = 0\<close>, the up view
    in \<open>z = 0\<close>, the back and front views in \<open>x = 22.8\<close> and \<open>x = -22.8\<close>.
    The uniform cubic B-spline basis is nonnegative on \<open>[0, 1]\<close> and sums to one, so
    every spline vertex lies in the box of its four control points (\<open>ubs_point_bounds\<close>,
    \<open>rect_SPLINE\<close>); this bounds each view by a rectangle that fits its face.
  \<^item> \<open>Domain\<close>: \<open>GRID\<close>, \<open>DOMAIN\<close>, \<open>annulus_sector\<close> and
    \<open>circular_sector\<close> (lines 8--31 of the 2013-04-05 script). \<open>GRID\<close> and
    \<open>DOMAIN\<close> are proved to refine the box grid: every cell is the vertex list of a
    box whose sides are the solid intervals of a signed interval list (\<open>GRID\<close>) or the
    equal steps of an interval (\<open>DOMAIN\<close>, \<open>uniform_ivs\<close>). Other lemmas cover
    DOMAIN's silent empty result. The sectors are shown to lie on their circles, within
    their angle.
  \<^item> \<open>Building\<close>: the four facade enclosures and the ground floor outline (lines
    35--98) as data, plus the predicates \<open>boxes_overlap\<close>, \<open>disjoint_boxes\<close> and
    \<open>in_slab\<close>. The lemmas show the walls stay in their slabs without overlaps, except
    that \<open>north2\<close> overlaps \<open>north0\<close>. They also show that the rounded end
    \<open>floor01\<close> sits on the east edge of \<open>floor00\<close>. The witnesses of the
    \<open>Domain\<close> theorems are here.
  \<^item> \<open>DupliRot\<close>: \<open>DUPLIROT\<close> (lines 50--56). The lemmas give the error of a
    non-positive count and that one copy is the identity. They
    also show that the result is symmetric under the step rotation when the copies go
    once around; \<open>rot_copies\<close> and \<open>valid_plane\<close> state the specification.
  \<^item> \<open>Domain2D\<close>: \<open>DOMAIN2D\<close> and \<open>DOMAIN2DI\<close> (lines 9--29), through
    \<open>UKPOL\<close> and \<open>MKPOL\<close>. The lemmas show that the result is the point-level
    triangulation of the product's quads and that \<open>DOMAIN2DI\<close> is \<open>DOMAIN2D\<close> with
    every triangle reversed. They give the signed areas (\<open>shoelace\<close>) of a quad's two
    triangles and show that the split does not tile a rectangle whose vertices come in
    product order.
  \<^item> \<open>Pillars\<close>: the four storeys of pillars (lines 71--91 of the 2013-04-05
    script). Each storey is a \<open>STRUCT\<close> whose translations apply to everything after
    them. The lemmas turn these relative moves into the absolute site of every pillar
    (\<open>pillar_sites\<close>, a table of the sites read off the script, through
    \<open>place\<close>) and show that all pillars stay within the footprint
    \<open>[0, 17.9] \<times> [0, 8.75]\<close> and the height \<open>[0, 16]\<close>.
  \<^item> \<open>Floors\<close>: the floors, the ground plate and the whole \<open>building\<close> (lines 63 and
    99--122). The lemmas put each floor in its storey's slab, separate the second
    floor's three pieces pairwise by a plane, and show that the whole building script
    raises no exception.
  \<^item> \<open>Wheel\<close>: the alloy wheel's spoke, its mirror pair and the six rotated pairs
    (lines 129--141), the hub profile and the surfaces' parameter domain (lines
    143--148). It also holds the witnesses of the \<open>DupliRot\<close> and \<open>Domain2D\<close>
    theorems.
  \<^item> \<open>WheelAssembly\<close>: the rest of exercise 3 (lines 126--160): the hub and the
    tire as rotational surfaces of Bezier profiles, the alloy wheel, the placed wheel, its
    mirror image across the car, the rear pair and the whole scene \<open>total\<close>. The
    lemmas show that \<open>ROTATIONALSURFACE\<close> raises nothing here, because the parameter
    domain's points are pairs and the Bezier profiles are 3D (\<open>surface_eq\<close>), and
    that the tire lies between the radii 6.5 and 9.8 about its axis.
  \<^item> \<open>CarAssembly\<close>: how exercises 2 and 3 of the car script fit together. The
    lemmas bound the whole wheel (spokes, hub and tire) within radius 9.8 of its axis
    and heights \<open>[-4.2, 4.2]\<close> along it (\<open>in_cylinder\<close>), follow the wheel's
    vertices through the scaling, quarter turn and translations that place the four
    wheels (\<open>place_wheel\<close>, \<open>wheel_site\<close>), and find a vertex of the rear tires at
    the parameter point \<open>(1/2, 0)\<close>. The theorems say where the four placed wheels
    are (around the axles \<open>x = -12.3\<close> and \<open>x = 15.7\<close> at \<open>z = 2\<close>, on both
    sides of \<open>y = 0\<close>), compare them with the side view's wheel arches (the front
    wheels lie inside their arch, the rear wheels reach past theirs), and show that the
    whole car script, \<open>total\<close>, raises no exception.

  \<^bold>\<open>Correspondence with the code.\<close> Each Python function is one definition of
  the same name, and each curried call \<open>F(a)(b)\<close> is \<open>F a b\<close>. Each Python
  exception is a branch of the result type: IndexError for \<open>xs[i]\<close> out of range,
  ValueError for a failed unpacking, and PlasmError for an error of the kernel. A
  variable that is rebound gets one definition per binding (\<open>AWPol1_spoke\<close>,
  \<open>AWPol1_pair\<close>, \<open>AWPol1\<close>). Python floats are modelled as exact reals. The
  bounds and inequalities proved hold with margins far above rounding error, but the
  claims that two computed points coincide exactly (the closed outlines of the side view
  and of the up, back and front views, where the end of one curve is the start of the
  next) hold in exact arithmetic: pyplasm's \<open>INTERVALS\<close> accumulates float steps
  (24 steps of 1/24 give 0.9999999999999996), so in floats those ends meet only up to
  rounding, and "closed" there means geometrically closed. All recursion is structural (over lists), so no fuel is needed
  and every definition is executable; the scripts have no loop other than these list
  traversals, and no concurrency, so there is no termination or liveness argument to
  make beyond the totality of the definitions. Every binding is evaluated eagerly, as Python
  evaluates it when it runs: \<open>up\<close>, \<open>back_view\<close> and \<open>front\<close> use the first
  binding of \<open>domain1D\<close> (24 segments), and the second binding
  (\<open>domain1D_exercise3\<close>) is read by nothing.

  \<^bold>\<open>Not modelled.\<close> \<open>VIEW\<close> only displays a scene and is not modelled;
  \<open>COLOR\<close> is modelled by the geometry it keeps, not by the colour it attaches. A
  pyplasm complex is kept as its list of cells, each a list of vertices; its internal cell
  structure and its rendering are not modelled. The order in which pyplasm's
  \<open>UKPOL\<close> lists a cell's vertices is not documented; the model keeps the product's
  order, and the theorem about that order states the order it assumes.
  The \<open>pillar_sites\<close> table in \<open>Pillars\<close> is not a translation of code but the
  absolute positions the script's relative moves produce; the lemma \<open>pillars_eq\<close>
  proves that the modelled \<open>STRUCT\<close>s give exactly these positions.
\<close>

end
